theory Spec2Isabelle
  imports Complex_Main
begin

section \<open>Python values used by the interactive simplex module\<close>

text \<open>
  The module \<^verbatim>\<open>sage/numerical/interactive_simplex_method.py\<close> works over an exact
  field; the entries of \<open>A\<close>, \<open>b\<close> and \<open>c\<close> are modelled as rationals.  A matrix is the
  list of its rows.  Every \<^verbatim>\<open>raise\<close> of the module is a constructor of \<open>error\<close>; the
  Python exception and its message are given beside each constructor.
\<close>

datatype error =
    StyleError
      \<comment> \<open>\<^verbatim>\<open>ValueError("Style must be one of None (the default) or 'vanderbei'")\<close>\<close>
  | EducationalStyleError
      \<comment> \<open>\<^verbatim>\<open>ValueError("For educational purposes, style must be initialized to vanderbei")\<close>\<close>
  | AuxiliaryAlreadyDecision
      \<comment> \<open>\<^verbatim>\<open>ValueError("auxiliary variable is already among decision ones")\<close>\<close>
  | AuxiliaryMustBeNonbasic
      \<comment> \<open>\<^verbatim>\<open>ValueError("the auxiliary variable must be non-basic")\<close>\<close>
  | AuxiliaryDictionaryInfeasible
      \<comment> \<open>\<^verbatim>\<open>ValueError("the auxiliary dictionary must be feasible")\<close>\<close>
  | RevisedForAuxiliary
      \<comment> \<open>\<^verbatim>\<open>ValueError("revised dictionaries should not be constructed for auxiliary problems")\<close>\<close>
  | ShapeError
      \<comment> \<open>malformed dimensions, detected when a problem is constructed\<close>
  | DomainError
      \<comment> \<open>standardization leaves no variable or no constraint\<close>
  | IndexError
      \<comment> \<open>Python's \<^verbatim>\<open>IndexError\<close>: \<^verbatim>\<open>xs[i]\<close> out of range\<close>
  | EmptySequence
      \<comment> \<open>Python's \<^verbatim>\<open>ValueError\<close> of \<^verbatim>\<open>min\<close> on an empty sequence\<close>
  | NotInSequence
      \<comment> \<open>Python's \<^verbatim>\<open>ValueError\<close> of \<^verbatim>\<open>index\<close> when the element is absent\<close>
  | DuplicateVariable
      \<comment> \<open>the coordinate ring refuses a name that is given twice\<close>
  | ZeroDivisionError
      \<comment> \<open>Python's \<^verbatim>\<open>ZeroDivisionError\<close>: division by a zero pivot element\<close>
  | UnboundedError
      \<comment> \<open>no constraint bounds the increase of the entering variable\<close>
  | InvalidPartitionError
      \<comment> \<open>the basic/nonbasic split does not match the dimensions\<close>

text \<open>
  The arguments \<^verbatim>\<open>objective\<close>, \<^verbatim>\<open>y\<close> and \<^verbatim>\<open>slack_variables\<close> are \<^verbatim>\<open>None\<close>, a
  \<^verbatim>\<open>str\<close>, or a sequence whose elements are turned into strings
  (\<^verbatim>\<open>map(str, objective)\<close>); a sequence is modelled by the list of those strings.
\<close>

datatype name_arg = NoName | Name string | Names "string list"

text \<open>A style tag is \<^verbatim>\<open>None\<close> or a string; so is \<^verbatim>\<open>problem_type_pda\<close>.\<close>

type_synonym style_tag = "string option"

definition vanderbei :: style_tag where
  "vanderbei = Some ''vanderbei''"

datatype direction = Maximize | Minimize

datatype constraint_type = CLe | CEq | CGe

datatype variable_type = VNonneg | VNonpos | VFree

subsection \<open>Formatting and slicing\<close>

definition digit :: "nat \<Rightarrow> char" where
  "digit d = ''0123456789'' ! d"

text \<open>\<^verbatim>\<open>"{:d}".format(i)\<close> for a natural number.\<close>

fun decimal :: "nat \<Rightarrow> string" where
  "decimal k = (if k < 10 then [digit k] else decimal (k div 10) @ [digit (k mod 10)])"

declare decimal.simps [simp del]

text \<open>\<^verbatim>\<open>["{}{:d}".format(s, i) for i in range(lo, hi)]\<close>\<close>

definition indexed_names :: "string \<Rightarrow> nat \<Rightarrow> nat \<Rightarrow> string list" where
  "indexed_names s lo hi = map (\<lambda>i. s @ decimal i) [lo..<hi]"

text \<open>
  Python slices with negative bounds.  \<^verbatim>\<open>X[-m:]\<close> is the whole of \<open>X\<close> when \<open>m = 0\<close>
  (because \<^verbatim>\<open>-0 == 0\<close>), \<^verbatim>\<open>X[:-m]\<close> and \<^verbatim>\<open>X[-m-n:-m]\<close> are empty then; bounds
  beyond the list are clipped.
\<close>

definition slice_last :: "nat \<Rightarrow> 'a list \<Rightarrow> 'a list" where
  "slice_last k X = (if k = 0 then X else drop (length X - k) X)"

definition slice_butlast :: "nat \<Rightarrow> 'a list \<Rightarrow> 'a list" where
  "slice_butlast k X = (if k = 0 then [] else take (length X - k) X)"

definition slice_mid :: "nat \<Rightarrow> nat \<Rightarrow> 'a list \<Rightarrow> 'a list" where
  "slice_mid k j X =
     (if k = 0 then [] else drop (length X - (k + j)) (take (length X - k) X))"

section \<open>Problems in general form: \<^verbatim>\<open>InteractiveLPProblem\<close>\<close>

text \<open>
  The fields are the attributes \<^verbatim>\<open>_Abcx\<close> (read through \<^verbatim>\<open>constraint_coefficients\<close>,
  \<^verbatim>\<open>constant_terms\<close>, \<^verbatim>\<open>objective_coefficients\<close>, \<^verbatim>\<open>decision_variables\<close>),
  \<^verbatim>\<open>_constraint_types\<close>, \<^verbatim>\<open>_variable_types\<close>, \<^verbatim>\<open>_problem_type\<close>, \<^verbatim>\<open>_is_negative\<close>,
  \<^verbatim>\<open>_prefix\<close>, \<^verbatim>\<open>_style\<close>, \<^verbatim>\<open>_problem_type_pda\<close> and \<^verbatim>\<open>_objective\<close>.  The constructor
  stores \<^verbatim>\<open>style\<close>, \<^verbatim>\<open>problem_type_pda\<close> and \<^verbatim>\<open>objective\<close> as they are given; a problem
  type \<^verbatim>\<open>"-max"\<close> or \<^verbatim>\<open>"-min"\<close> is the direction with \<^verbatim>\<open>_is_negative\<close> set.
\<close>

record InteractiveLPProblem =
  constraint_coefficients :: "rat list list"
  constant_terms :: "rat list"
  objective_coefficients :: "rat list"
  decision_variables :: "string list"
  constraint_types :: "constraint_type list"
  variable_types :: "variable_type list"
  problem_type :: direction
  is_negative :: bool
  prefix :: string
  style :: style_tag
  problem_type_pda :: "string option"
  objective :: name_arg

text \<open>
  \<^verbatim>\<open>m()\<close> and \<^verbatim>\<open>n()\<close> are the numbers of rows and columns of \<open>A\<close>; a constructed
  problem has \<open>len(b) = m\<close> and \<open>len(c) = n\<close>, and the dimensions are read off \<open>b\<close> and
  \<open>c\<close> so that a matrix without rows still has its \<open>n\<close> columns.
\<close>

definition problem_m :: "'a InteractiveLPProblem_scheme \<Rightarrow> nat" where
  "problem_m P = length (constant_terms P)"

definition problem_n :: "'a InteractiveLPProblem_scheme \<Rightarrow> nat" where
  "problem_n P = length (objective_coefficients P)"

text \<open>\<^verbatim>\<open>A.transpose()\<close> of a matrix with \<open>k\<close> columns.\<close>

definition matrix_transpose :: "nat \<Rightarrow> rat list list \<Rightarrow> rat list list" where
  "matrix_transpose k A = map (\<lambda>j. map (\<lambda>row. row ! j) A) [0..<k]"

subsection \<open>\<^verbatim>\<open>dual\<close>\<close>

text \<open>
  The first statement of \<^verbatim>\<open>dual\<close> and of \<^verbatim>\<open>auxiliary_problem\<close>: the name of the
  objective of the new problem.
  \<^verbatim>\<open>
  if not isinstance(objective, str):
      if objective != None:
          dual_objective = map(str, objective)
      else:
          if style == "vanderbei":
              dual_objective = "xi"
          elif style == None:
              dual_objective = self._objective
          else:
              raise ValueError("Style must be one of None (the default) or 'vanderbei'")
  else:
      dual_objective = objective
  \<close>
\<close>

definition derived_objective :: "name_arg \<Rightarrow> style_tag \<Rightarrow> name_arg \<Rightarrow> error + name_arg" where
  "derived_objective obj st own =
     (case obj of
        Name s \<Rightarrow> Inr (Name s)
      | Names xs \<Rightarrow> Inr (Names xs)
      | NoName \<Rightarrow>
          (if st = vanderbei then Inr (Name ''xi'')
           else if st = None then Inr own
           else Inl StyleError))"

text \<open>
  Modelled from the spec: the lines of \<^verbatim>\<open>dual\<close> that map the types are not part of the
  sources.  The pairs follow the standard LP-duality correspondence (a \<open>\<le>\<close> constraint
  gives a nonnegative dual variable, an \<open>=\<close> constraint a free one, a nonnegative
  variable a \<open>\<ge>\<close> dual constraint, a free variable an \<open>=\<close> one), adjusted by sign when
  the primal direction is minimize.
\<close>

fun dual_variable_type :: "direction \<Rightarrow> constraint_type \<Rightarrow> variable_type" where
  "dual_variable_type Maximize CLe = VNonneg"
| "dual_variable_type Maximize CGe = VNonpos"
| "dual_variable_type Minimize CLe = VNonpos"
| "dual_variable_type Minimize CGe = VNonneg"
| "dual_variable_type _ CEq = VFree"

fun dual_constraint_type :: "direction \<Rightarrow> variable_type \<Rightarrow> constraint_type" where
  "dual_constraint_type Maximize VNonneg = CGe"
| "dual_constraint_type Maximize VNonpos = CLe"
| "dual_constraint_type Minimize VNonneg = CLe"
| "dual_constraint_type Minimize VNonpos = CGe"
| "dual_constraint_type _ VFree = CEq"

fun flip :: "direction \<Rightarrow> direction" where
  "flip Maximize = Minimize"
| "flip Minimize = Maximize"

text \<open>
  Modelled from the spec: the body of \<^verbatim>\<open>InteractiveLPProblem.__init__\<close> is not part of
  the sources beyond its signature (defaults \<^verbatim>\<open>x="x"\<close>, \<^verbatim>\<open>prefix="x"\<close>,
  \<^verbatim>\<open>style=None\<close>, \<^verbatim>\<open>problem_type_pda=None\<close>, \<^verbatim>\<open>objective=None\<close>) and the
  assignments of \<^verbatim>\<open>_style\<close>, \<^verbatim>\<open>_problem_type_pda\<close> and \<^verbatim>\<open>_objective\<close>.  Malformed
  dimensions (mismatches between the lengths of \<open>A\<close>, \<open>b\<close>, \<open>c\<close>, \<open>x\<close> and the type lists)
  are a \<open>ShapeError\<close>, detected at construction.  A base name \<open>x\<close> stands for the
  names \<open>x1, ..., xn\<close>; \<open>NoName\<close> is the omitted argument, whose default is \<^verbatim>\<open>"x"\<close>.
\<close>

definition variable_names :: "name_arg \<Rightarrow> nat \<Rightarrow> string list" where
  "variable_names x k =
     (case x of
        NoName \<Rightarrow> indexed_names ''x'' 1 (k + 1)
      | Name s \<Rightarrow> indexed_names s 1 (k + 1)
      | Names xs \<Rightarrow> xs)"

definition shape_ok ::
  "rat list list \<Rightarrow> rat list \<Rightarrow> rat list \<Rightarrow> string list \<Rightarrow>
   constraint_type list \<Rightarrow> variable_type list \<Rightarrow> bool" where
  "shape_ok A b c xs cts vts \<longleftrightarrow>
     length A = length b \<and> list_all (\<lambda>row. length row = length c) A \<and>
     length xs = length c \<and> length cts = length b \<and> length vts = length c"

definition InteractiveLPProblem_init ::
  "rat list list \<Rightarrow> rat list \<Rightarrow> rat list \<Rightarrow> name_arg \<Rightarrow>
   constraint_type list \<Rightarrow> variable_type list \<Rightarrow> bool \<times> direction \<Rightarrow> string \<Rightarrow>
   style_tag \<Rightarrow> string option \<Rightarrow> name_arg \<Rightarrow> error + InteractiveLPProblem" where
  "InteractiveLPProblem_init A b c x cts vts ptype pre st pda obj =
     (let xs = variable_names x (length c)
      in if \<not> shape_ok A b c xs cts vts then Inl ShapeError
         else Inr \<lparr> constraint_coefficients = A,
                    constant_terms = b,
                    objective_coefficients = c,
                    decision_variables = xs,
                    constraint_types = cts,
                    variable_types = vts,
                    problem_type = snd ptype,
                    is_negative = fst ptype,
                    prefix = pre,
                    style = st,
                    problem_type_pda = pda,
                    objective = obj \<rparr>)"

text \<open>
  \<^verbatim>\<open>dual(self, y=None, objective=None)\<close>.  From the sources: the objective name above,
  \<^verbatim>\<open>A, c, b, x = self.Abcx()\<close> (which swaps \<open>b\<close> and \<open>c\<close>), \<^verbatim>\<open>A = A.transpose()\<close>, the
  default \<^verbatim>\<open>y = "x" if self._prefix == "y" else "y"\<close>, the sign
  \<^verbatim>\<open>if self._is_negative: problem_type = "-" + problem_type\<close>, and the call
  \<^verbatim>\<open>InteractiveLPProblem(A, b, c, y, constraint_type, variable_type, problem_type,
  style=style, problem_type_pda="dual", objective=dual_objective)\<close>, in which \<^verbatim>\<open>prefix\<close>
  keeps its default \<^verbatim>\<open>"x"\<close>.
\<close>

definition dual ::
  "'a InteractiveLPProblem_scheme \<Rightarrow> name_arg \<Rightarrow> name_arg \<Rightarrow> error + InteractiveLPProblem" where
  "dual self y obj =
     (case derived_objective obj (style self) (objective self) of
        Inl e \<Rightarrow> Inl e
      | Inr dual_objective \<Rightarrow>
          (let A = matrix_transpose (problem_n self) (constraint_coefficients self);
               y1 = (case y of
                       NoName \<Rightarrow> Name (if prefix self = ''y'' then ''x'' else ''y'')
                     | _ \<Rightarrow> y)
           in InteractiveLPProblem_init A (objective_coefficients self) (constant_terms self) y1
                (map (dual_constraint_type (problem_type self)) (variable_types self))
                (map (dual_variable_type (problem_type self)) (constraint_types self))
                (is_negative self, flip (problem_type self))
                ''x'' (style self) (Some ''dual'') dual_objective))"

section \<open>Problems in standard form: \<^verbatim>\<open>InteractiveLPProblemStandardForm\<close>\<close>

text \<open>
  The subclass adds the coordinate ring \<^verbatim>\<open>_R\<close>, of which only the tuple of generators
  \<^verbatim>\<open>_R.gens()\<close> matters here: the names of all variables of the problem.
\<close>

record InteractiveLPProblemStandardForm = InteractiveLPProblem +
  coordinate_ring :: "string list"

text \<open>
  The name of the objective when none is given (\<^verbatim>\<open>if objective == None:\<close>).  Under the
  style \<^verbatim>\<open>"vanderbei"\<close> it is \<^verbatim>\<open>"xi"\<close> for \<^verbatim>\<open>problem_type_pda\<close> \<^verbatim>\<open>"dual"\<close> or
  \<^verbatim>\<open>"auxiliary"\<close> and \<^verbatim>\<open>"zeta"\<close> otherwise.  The name under the default style is not part
  of the sources; it is the constant \<open>default_objective\<close>.
\<close>

definition default_objective :: string where
  "default_objective = ''z''"

definition objective_name :: "name_arg \<Rightarrow> style_tag \<Rightarrow> string option \<Rightarrow> name_arg" where
  "objective_name obj st pda =
     (if obj = NoName then
        (if st = vanderbei then
           (if pda = Some ''dual'' \<or> pda = Some ''auxiliary'' then Name ''xi''
            else Name ''zeta'')
         else Name default_objective)
      else obj)"

text \<open>
  The slack variables.  From the sources: without the argument the base name is an
  unseen default under the default style and \<^verbatim>\<open>"w"\<close> under \<^verbatim>\<open>"vanderbei"\<close> (any other
  style raises), and a base name is expanded with \<^verbatim>\<open>"{}{:d}".format(slack_variables, i)\<close>.
  Modelled from the spec: the default style names slacks with the prefix shared with the
  decision variables (\<^verbatim>\<open>"x"\<close>) and the indices that follow theirs, \<open>n+1, ..., n+m\<close>; the
  style \<^verbatim>\<open>"vanderbei"\<close> numbers them \<open>1, ..., m\<close>.
\<close>

definition slack_names :: "style_tag \<Rightarrow> name_arg \<Rightarrow> nat \<Rightarrow> nat \<Rightarrow> error + string list" where
  "slack_names st slack_variables mm nn =
     (case (case slack_variables of
              NoName \<Rightarrow>
                (if st = None then Inr (Name ''x'')
                 else if st = vanderbei then Inr (Name ''w'')
                 else Inl StyleError)
            | _ \<Rightarrow> Inr slack_variables) of
        Inl e \<Rightarrow> Inl e
      | Inr (Name s) \<Rightarrow>
          (if st = vanderbei then Inr (indexed_names s 1 (mm + 1))
           else Inr (indexed_names s (nn + 1) (nn + mm + 1)))
      | Inr (Names xs) \<Rightarrow> Inr xs
      | Inr NoName \<Rightarrow> Inr [])"

text \<open>
  \<^verbatim>\<open>InteractiveLPProblemStandardForm.__init__(A, b, c, x, problem_type, slack_variables,
  auxiliary_variable, style, problem_type_pda, objective)\<close>.  From the sources: the
  style is checked (\<^verbatim>\<open>self._style = None\<close> for \<^verbatim>\<open>None\<close>, \<^verbatim>\<open>raise ValueError\<close> for a tag
  that is neither \<^verbatim>\<open>None\<close> nor \<^verbatim>\<open>"vanderbei"\<close>), \<^verbatim>\<open>_problem_type_pda\<close> is stored, the slack
  variables are named, and the objective is named.  Modelled from the spec: the call of
  the base constructor (all constraints \<open>\<le>\<close>, all variables \<open>\<ge> 0\<close>) comes first, there is
  one slack variable per constraint, and the generators of the coordinate ring are the
  auxiliary variable, the decision variables and the slack variables.  The auxiliary
  variable is not repeated when it already is the first decision variable: the problem
  is an auxiliary problem then, as \<^verbatim>\<open>auxiliary_problem\<close> constructs it (with the decision
  variables \<^verbatim>\<open>X[:-m]\<close> and the auxiliary variable \<^verbatim>\<open>X[0]\<close>) and as the guard of
  \<^verbatim>\<open>LPRevisedDictionary\<close> recognizes it.  The names of the generators are distinct (the
  invariant \<open>slack variable names disjoint from decision variable names\<close>): the ring
  refuses a name that is given twice.
\<close>

definition generators :: "string \<Rightarrow> string list \<Rightarrow> string list \<Rightarrow> string list" where
  "generators auxiliary_variable xs slack =
     (case xs of
        [] \<Rightarrow> auxiliary_variable # slack
      | d0 # _ \<Rightarrow>
          (if auxiliary_variable = d0 then xs @ slack else auxiliary_variable # xs @ slack))"

definition InteractiveLPProblemStandardForm_init ::
  "rat list list \<Rightarrow> rat list \<Rightarrow> rat list \<Rightarrow> name_arg \<Rightarrow> bool \<times> direction \<Rightarrow>
   name_arg \<Rightarrow> string \<Rightarrow> style_tag \<Rightarrow> string option \<Rightarrow> name_arg \<Rightarrow>
   error + InteractiveLPProblemStandardForm" where
  "InteractiveLPProblemStandardForm_init A b c x ptype slack_variables auxiliary_variable
       st pda obj =
     (case InteractiveLPProblem_init A b c x (replicate (length b) CLe)
             (replicate (length c) VNonneg) ptype ''x'' st pda obj of
        Inl e \<Rightarrow> Inl e
      | Inr base \<Rightarrow>
          (if st \<noteq> vanderbei \<and> st \<noteq> None then Inl StyleError
           else case slack_names st slack_variables (length b) (length c) of
                  Inl e \<Rightarrow> Inl e
                | Inr slack \<Rightarrow>
                    (if length slack \<noteq> length b then Inl ShapeError
                     else (let gens = generators auxiliary_variable
                                        (decision_variables base) slack
                           in if \<not> distinct gens then Inl DuplicateVariable
                              else Inr (InteractiveLPProblem.extend
                                          (base \<lparr> objective := objective_name obj st pda \<rparr>)
                                          (InteractiveLPProblemStandardForm.fields gens))))))"

text \<open>
  Accessors.  \<^verbatim>\<open>auxiliary_problem\<close> passes \<^verbatim>\<open>slack_variables=X[-m:]\<close> and
  \<^verbatim>\<open>auxiliary_variable=X[0]\<close> for the generators \<open>X\<close>: the slack variables are the last
  \<open>m\<close> generators and the auxiliary variable is the first one.
\<close>

definition auxiliary_variable :: "InteractiveLPProblemStandardForm \<Rightarrow> error + string" where
  "auxiliary_variable self =
     (case coordinate_ring self of [] \<Rightarrow> Inl IndexError | x0 # _ \<Rightarrow> Inr x0)"

definition slack_variables :: "InteractiveLPProblemStandardForm \<Rightarrow> string list" where
  "slack_variables self = slice_last (problem_m self) (coordinate_ring self)"

subsection \<open>\<^verbatim>\<open>standard_form\<close>\<close>

text \<open>
  Modelled from the spec: the two loops of \<^verbatim>\<open>standard_form\<close> are not part of the sources
  (only \<^verbatim>\<open>if not all(ct == "<=" for ct in self._constraint_types): newA = []; newb = []\<close>
  is).  A \<open>\<ge>\<close> row is multiplied by \<open>-1\<close> and an \<open>=\<close> row is replaced by two \<open>\<le>\<close> rows of
  opposite sign; a variable \<open>x \<le> 0\<close> is substituted by \<open>-x'\<close> and a free variable is split
  into \<open>x\<^sup>+ - x\<^sup>-\<close> (the new names carry the suffixes \<open>_p\<close> and \<open>_n\<close>); a minimization
  becomes the negative of a maximization; a system left without variables or without
  constraints is a \<open>DomainError\<close>.
\<close>

fun standard_rows :: "constraint_type \<times> rat list \<times> rat \<Rightarrow> (rat list \<times> rat) list" where
  "standard_rows (CLe, Ai, bi) = [(Ai, bi)]"
| "standard_rows (CGe, Ai, bi) = [(map uminus Ai, - bi)]"
| "standard_rows (CEq, Ai, bi) = [(Ai, bi), (map uminus Ai, - bi)]"

fun standard_columns ::
  "variable_type \<times> rat list \<times> rat \<times> string \<Rightarrow> (rat list \<times> rat \<times> string) list" where
  "standard_columns (VNonneg, Aj, cj, xj) = [(Aj, cj, xj)]"
| "standard_columns (VNonpos, Aj, cj, xj) = [(map uminus Aj, - cj, xj @ ''_n'')]"
| "standard_columns (VFree, Aj, cj, xj) =
     [(Aj, cj, xj @ ''_p''), (map uminus Aj, - cj, xj @ ''_n'')]"

definition standardize ::
  "'a InteractiveLPProblem_scheme \<Rightarrow>
   error + (rat list list \<times> rat list \<times> rat list \<times> string list \<times> (bool \<times> direction))" where
  "standardize self =
     (let (A1, b1) =
            (if list_all (\<lambda>ct. ct = CLe) (constraint_types self)
             then (constraint_coefficients self, constant_terms self)
             else (let rows = concat (map standard_rows
                                 (zip (constraint_types self)
                                    (zip (constraint_coefficients self) (constant_terms self))))
                   in (map fst rows, map snd rows)));
          (A2, c2, x2) =
            (if list_all (\<lambda>vt. vt = VNonneg) (variable_types self)
             then (A1, objective_coefficients self, decision_variables self)
             else (let cols = concat (map standard_columns
                                 (zip (variable_types self)
                                    (zip (matrix_transpose (problem_n self) A1)
                                       (zip (objective_coefficients self)
                                          (decision_variables self)))))
                   in (matrix_transpose (length b1) (map fst cols),
                       map (fst \<circ> snd) cols, map (snd \<circ> snd) cols)));
          negative = (if problem_type self = Minimize then \<not> is_negative self
                      else is_negative self);
          c3 = (if problem_type self = Minimize then map uminus c2 else c2)
      in if x2 = [] \<or> b1 = [] then Inl DomainError
         else Inr (A2, b1, c3, x2, (negative, Maximize)))"

text \<open>
  The end of \<^verbatim>\<open>standard_form\<close>, from the sources:
  \<^verbatim>\<open>
  if style == "vanderbei":
      self._prefix = "z"
  return InteractiveLPProblemStandardForm(A, b, c, x, problem_type, self._prefix,
      self._prefix + "0", style=style, problem_type_pda=problem_type_pda,
      objective=objective)
  \<close>
  The assignment writes to the receiver, so the function returns the receiver as the
  call leaves it together with its result.
\<close>

definition standard_form ::
  "'a InteractiveLPProblem_scheme \<Rightarrow>
   'a InteractiveLPProblem_scheme \<times> (error + InteractiveLPProblemStandardForm)" where
  "standard_form self =
     (case standardize self of
        Inl e \<Rightarrow> (self, Inl e)
      | Inr (A, b, c, x, ptype) \<Rightarrow>
          (let self' = (if style self = vanderbei then self \<lparr> prefix := ''z'' \<rparr> else self)
           in (self',
               InteractiveLPProblemStandardForm_init A b c (Names x) ptype
                 (Name (prefix self')) (prefix self' @ ''0'')
                 (style self) (problem_type_pda self) (objective self))))"

subsection \<open>\<^verbatim>\<open>auxiliary_problem\<close>\<close>

text \<open>
  \<^verbatim>\<open>auxiliary_problem(self, objective=None)\<close>.  From the sources: the objective name (as
  in \<^verbatim>\<open>dual\<close>), then
  \<^verbatim>\<open>
  if len(X) == m + n:
      raise ValueError("auxiliary variable is already among decision ones")
  \<close>
  and the two calls of the constructor, both with \<^verbatim>\<open>A, self.b(), c, X[:-m],
  slack_variables=X[-m:], auxiliary_variable=X[0]\<close> and \<^verbatim>\<open>objective=aux_objective\<close>; the
  first also passes \<^verbatim>\<open>style=style\<close> and \<^verbatim>\<open>problem_type_pda="auxiliary"\<close>, the second
  (\<^verbatim>\<open>else:\<close>) leaves both at their default \<^verbatim>\<open>None\<close>.  The condition between them is not
  part of the sources and is taken to be \<^verbatim>\<open>style == "vanderbei"\<close>.
  Modelled from the spec: the new variable has coefficient \<open>-1\<close> in every constraint row
  and the objective is to maximize its negative.
\<close>

definition auxiliary_problem ::
  "InteractiveLPProblemStandardForm \<Rightarrow> name_arg \<Rightarrow> error + InteractiveLPProblemStandardForm" where
  "auxiliary_problem self obj =
     (let X = coordinate_ring self; mm = problem_m self; nn = problem_n self
      in case derived_objective obj (style self) (objective self) of
           Inl e \<Rightarrow> Inl e
         | Inr aux_objective \<Rightarrow>
             (if length X = mm + nn then Inl AuxiliaryAlreadyDecision
              else (let A = map (\<lambda>row. - 1 # row) (constraint_coefficients self);
                        c = - 1 # replicate nn 0
                    in case X of
                         [] \<Rightarrow> Inl IndexError
                       | x0 # _ \<Rightarrow>
                           (if style self = vanderbei
                            then InteractiveLPProblemStandardForm_init A (constant_terms self) c
                                   (Names (slice_butlast mm X)) (False, Maximize)
                                   (Names (slice_last mm X)) x0
                                   (style self) (Some ''auxiliary'') aux_objective
                            else InteractiveLPProblemStandardForm_init A (constant_terms self) c
                                   (Names (slice_butlast mm X)) (False, Maximize)
                                   (Names (slice_last mm X)) x0
                                   None None aux_objective))))"

section \<open>Dictionaries\<close>

subsection \<open>\<^verbatim>\<open>LPDictionary\<close>\<close>

text \<open>
  \<^verbatim>\<open>LPDictionary(A, b, c, objective_value, basic_variables, nonbasic_variables,
  objective_variable=None, style=None, problem_type_pda=None)\<close> keeps its arguments in the
  tuple \<^verbatim>\<open>_AbcvBNz\<close>.  The rows of \<open>A\<close> belong to the basic variables and its columns to
  the nonbasic ones.
\<close>

record LPDictionary =
  dict_A :: "rat list list"
  dict_b :: "rat list"
  dict_c :: "rat list"
  dict_v :: rat
  dict_B :: "string list"
  dict_N :: "string list"
  dict_z :: name_arg
  dict_style :: style_tag
  dict_problem_type_pda :: "string option"

text \<open>\<^verbatim>\<open>xs.index(a)\<close>: the first position of \<open>a\<close>, if any.\<close>

fun index_of :: "'a \<Rightarrow> 'a list \<Rightarrow> nat option" where
  "index_of a [] = None"
| "index_of a (x # xs) = (if x = a then Some 0 else map_option Suc (index_of a xs))"

text \<open>
  \<^verbatim>\<open>initial_dictionary\<close>, from the sources:
  \<^verbatim>\<open>
  A, b, c, x = self.Abcx()
  x = self._R.gens()
  m, n = self.m(), self.n()
  return LPDictionary(A, b, c, 0, x[-m:], x[-m-n:-m], objective_variable=objective,
      style=style, problem_type_pda=problem_type_pda)
  \<close>
\<close>

definition initial_dictionary :: "InteractiveLPProblemStandardForm \<Rightarrow> LPDictionary" where
  "initial_dictionary self =
     \<lparr> dict_A = constraint_coefficients self,
       dict_b = constant_terms self,
       dict_c = objective_coefficients self,
       dict_v = 0,
       dict_B = slice_last (problem_m self) (coordinate_ring self),
       dict_N = slice_mid (problem_m self) (problem_n self) (coordinate_ring self),
       dict_z = objective self,
       dict_style = style self,
       dict_problem_type_pda = problem_type_pda self \<rparr>"

text \<open>
  Modelled from the spec: \<^verbatim>\<open>is_feasible\<close> is not part of the sources.  A dictionary is
  feasible iff every entry of its constant column \<open>b\<close> is \<open>\<ge> 0\<close>.
\<close>

definition is_feasible :: "LPDictionary \<Rightarrow> bool" where
  "is_feasible D = list_all (\<lambda>bi. 0 \<le> bi) (dict_b D)"

text \<open>
  \<^verbatim>\<open>feasible_dictionary(self, auxiliary_dictionary)\<close>.  From the sources: the two checks
  \<^verbatim>\<open>
  x0 = self.auxiliary_variable()
  if x0 not in auxiliary_dictionary.nonbasic_variables():
      raise ValueError("the auxiliary variable must be non-basic")
  if not auxiliary_dictionary.is_feasible():
      raise ValueError("the auxiliary dictionary must be feasible")
  A, b, c, v, B, N, z = auxiliary_dictionary._AbcvBNz
  \<close>
  the statement \<^verbatim>\<open>v += cj * b[i]\<close> of the loop, and the result
  \<^verbatim>\<open>LPDictionary(A, b, c, v, B, N, objective_variable=objective, style=style,
  problem_type_pda="ordinary primal dictionary")\<close>.
  Modelled from the spec: the lines between are not part of the sources.  The auxiliary
  variable and its column are removed, \<open>b\<close> is kept, and the objective of \<open>self\<close> is
  expressed in the nonbasic variables: a nonbasic decision variable contributes its
  coefficient, a basic one contributes its row of the dictionary.

  The function returns the dictionary it was given, as the call leaves it, together with
  its result.  From the sources: the statements that name the dictionary are the two
  queries \<^verbatim>\<open>nonbasic_variables()\<close> and \<^verbatim>\<open>is_feasible()\<close> and the read of \<^verbatim>\<open>_AbcvBNz\<close>, and
  every assignment (\<^verbatim>\<open>B = tuple(B)\<close>, \<^verbatim>\<open>v += cj * b[i]\<close> on a number, \<^verbatim>\<open>B = map(self._R, B)\<close>)
  binds a local name.  Modelled from the spec: so do the lines that are not part of the
  sources (\<open>producing a fresh ordinary dictionary; never mutate the auxiliary dictionary
  in place\<close>).
\<close>

fun restore_objective ::
  "(rat \<times> string) list \<Rightarrow> string list \<Rightarrow> string list \<Rightarrow> rat list list \<Rightarrow> rat list \<Rightarrow>
   rat list \<Rightarrow> rat \<Rightarrow> error + (rat list \<times> rat)" where
  "restore_objective [] B N A b c v = Inr (c, v)"
| "restore_objective ((cj, xj) # rest) B N A b c v =
     (if xj \<in> set N then
        (case index_of xj N of
           None \<Rightarrow> Inl NotInSequence
         | Some k \<Rightarrow>
             (if k < length c then restore_objective rest B N A b (c[k := c ! k + cj]) v
              else Inl IndexError))
      else
        (case index_of xj B of
           None \<Rightarrow> Inl NotInSequence
         | Some i \<Rightarrow>
             (if i < length A \<and> i < length b
              then restore_objective rest B N A b
                     (map2 (\<lambda>ck a. ck - cj * a) c (A ! i)) (v + cj * b ! i)
              else Inl IndexError)))"

definition feasible_dictionary ::
  "InteractiveLPProblemStandardForm \<Rightarrow> LPDictionary \<Rightarrow>
   LPDictionary \<times> (error + LPDictionary)" where
  "feasible_dictionary self auxiliary_dictionary =
     (auxiliary_dictionary,
      case auxiliary_variable self of
        Inl e \<Rightarrow> Inl e
      | Inr x0 \<Rightarrow>
          (if x0 \<notin> set (dict_N auxiliary_dictionary) then Inl AuxiliaryMustBeNonbasic
           else if \<not> is_feasible auxiliary_dictionary then Inl AuxiliaryDictionaryInfeasible
           else
             (case index_of x0 (dict_N auxiliary_dictionary) of
                None \<Rightarrow> Inl NotInSequence
              | Some k \<Rightarrow>
                  (let N = take k (dict_N auxiliary_dictionary) @
                             drop (Suc k) (dict_N auxiliary_dictionary);
                       A = map (\<lambda>row. take k row @ drop (Suc k) row)
                             (dict_A auxiliary_dictionary);
                       b = dict_b auxiliary_dictionary;
                       B = dict_B auxiliary_dictionary
                   in case restore_objective
                             (zip (objective_coefficients self) (decision_variables self))
                             B N A b
                             (replicate (length (dict_c auxiliary_dictionary) - 1) 0) 0 of
                        Inl e \<Rightarrow> Inl e
                      | Inr (c, v) \<Rightarrow>
                          Inr \<lparr> dict_A = A, dict_b = b, dict_c = c, dict_v = v,
                                dict_B = B, dict_N = N,
                                dict_z = objective self,
                                dict_style = style self,
                                dict_problem_type_pda =
                                  Some ''ordinary primal dictionary'' \<rparr>))))"

subsection \<open>\<^verbatim>\<open>LPRevisedDictionary\<close>\<close>

record LPRevisedDictionary =
  revised_problem :: InteractiveLPProblemStandardForm
  x_B :: "string list"
  revised_style :: style_tag
  revised_problem_type_pda :: "string option"
  revised_objective :: name_arg

text \<open>
  \<^verbatim>\<open>LPRevisedDictionary.__init__(problem, basic_variables, style=None,
  problem_type_pda=None, objective=None)\<close>.  From the sources:
  \<^verbatim>\<open>
      raise ValueError("For educational purposes, style must be initialized to vanderbei")
  self._problem_type_pda = problem_type_pda
  self._objective = objective
  if problem.auxiliary_variable() == problem.decision_variables()[0]:
      raise ValueError("revised dictionaries should not be constructed "
                       "for auxiliary problems")
  \<close>
  Modelled from the spec: the condition of the first \<^verbatim>\<open>raise\<close> is not part of the
  sources; an unrecognized style tag is refused.  What follows the second \<^verbatim>\<open>raise\<close>
  keeps the problem and the basic variables.
\<close>

definition LPRevisedDictionary_init ::
  "InteractiveLPProblemStandardForm \<Rightarrow> string list \<Rightarrow> style_tag \<Rightarrow> string option \<Rightarrow>
   name_arg \<Rightarrow> error + LPRevisedDictionary" where
  "LPRevisedDictionary_init problem basic_variables st pda obj =
     (if st \<noteq> vanderbei \<and> st \<noteq> None then Inl EducationalStyleError
      else case auxiliary_variable problem of
             Inl e \<Rightarrow> Inl e
           | Inr x0 \<Rightarrow>
               (case decision_variables problem of
                  [] \<Rightarrow> Inl IndexError
                | d0 # _ \<Rightarrow>
                    (if x0 = d0 then Inl RevisedForAuxiliary
                     else Inr \<lparr> revised_problem = problem,
                                x_B = basic_variables,
                                revised_style = st,
                                revised_problem_type_pda = pda,
                                revised_objective = obj \<rparr>)))"

text \<open>\<^verbatim>\<open>min(b)\<close> of a nonempty sequence.\<close>

fun minimum :: "rat list \<Rightarrow> rat" where
  "minimum [] = 0"
| "minimum (x # xs) = fold min xs x"

text \<open>
  \<^verbatim>\<open>revised_dictionary(self, *x_B)\<close>, from the sources:
  \<^verbatim>\<open>
  if not x_B:
      x_B = list(self.slack_variables())
      bm = min(self.b())
      if bm < 0:
          x_B[self.b().list().index(bm)] = self.auxiliary_variable()
  return LPRevisedDictionary(self, x_B, style=style,
      problem_type_pda=problem_type_pda, objective=objective)
  \<close>
\<close>

definition default_basis :: "InteractiveLPProblemStandardForm \<Rightarrow> error + string list" where
  "default_basis self =
     (let slack = slack_variables self; b = constant_terms self
      in if b = [] then Inl EmptySequence
         else (let bm = minimum b
               in if bm < 0 then
                    (case auxiliary_variable self of
                       Inl e \<Rightarrow> Inl e
                     | Inr x0 \<Rightarrow>
                         (case index_of bm b of
                            None \<Rightarrow> Inl NotInSequence
                          | Some i \<Rightarrow>
                              (if i < length slack then Inr (slack[i := x0])
                               else Inl IndexError)))
                  else Inr slack))"

definition revised_dictionary ::
  "InteractiveLPProblemStandardForm \<Rightarrow> string list \<Rightarrow> error + LPRevisedDictionary" where
  "revised_dictionary self basic =
     (case (if basic = [] then default_basis self else Inr basic) of
        Inl e \<Rightarrow> Inl e
      | Inr basis \<Rightarrow>
          LPRevisedDictionary_init self basis (style self) (problem_type_pda self)
            (objective self))"

section \<open>Numeric content and well-formedness\<close>

text \<open>
  The invariant of a problem: \<open>len(b) = m\<close>, every row of \<open>A\<close> has \<open>n = len(c) = len(x)\<close>
  entries, and the type lists match their dimensions.
\<close>

definition well_shaped :: "'a InteractiveLPProblem_scheme \<Rightarrow> bool" where
  "well_shaped P =
     shape_ok (constraint_coefficients P) (constant_terms P) (objective_coefficients P)
       (decision_variables P) (constraint_types P) (variable_types P)"

text \<open>
  The numeric content of a problem, of a dictionary and of a revised dictionary: everything
  but the names of variables and of the objective, the style and \<^verbatim>\<open>problem_type_pda\<close>.
  The basis of a revised dictionary is read by the positions of its variables among the
  generators of its problem, not by their names.
\<close>

definition numeric_data ::
  "'a InteractiveLPProblem_scheme \<Rightarrow>
   rat list list \<times> rat list \<times> rat list \<times> constraint_type list \<times> variable_type list \<times>
   direction \<times> bool" where
  "numeric_data P =
     (constraint_coefficients P, constant_terms P, objective_coefficients P,
      constraint_types P, variable_types P, problem_type P, is_negative P)"

definition dictionary_data :: "LPDictionary \<Rightarrow> rat list list \<times> rat list \<times> rat list \<times> rat" where
  "dictionary_data D = (dict_A D, dict_b D, dict_c D, dict_v D)"

definition revised_positions :: "LPRevisedDictionary \<Rightarrow> nat option list" where
  "revised_positions RD =
     map (\<lambda>w. index_of w (coordinate_ring (revised_problem RD))) (x_B RD)"

definition revised_data ::
  "LPRevisedDictionary \<Rightarrow>
   nat option list \<times> rat list list \<times> rat list \<times> rat list \<times> constraint_type list \<times>
   variable_type list \<times> direction \<times> bool" where
  "revised_data RD = (revised_positions RD, numeric_data (revised_problem RD))"

text \<open>
  The shapes a dictionary has: one row of \<open>A\<close> and one entry of \<open>b\<close> per basic variable, one
  column of \<open>A\<close> and one entry of \<open>c\<close> per nonbasic variable.
\<close>

definition dictionary_shape :: "LPDictionary \<Rightarrow> bool" where
  "dictionary_shape D \<longleftrightarrow>
     length (dict_A D) = length (dict_B D) \<and> length (dict_b D) = length (dict_B D) \<and>
     length (dict_c D) = length (dict_N D) \<and>
     list_all (\<lambda>row. length row = length (dict_N D)) (dict_A D)"

section \<open>Pivoting and the two representations of a dictionary\<close>

subsection \<open>Operations of \<^verbatim>\<open>LPDictionary\<close>\<close>

text \<open>
  Modelled from the spec: the operations of \<^verbatim>\<open>LPDictionary\<close> and of
  \<^verbatim>\<open>LPRevisedDictionary\<close> below are not part of the sources.  A dictionary built by
  \<^verbatim>\<open>initial_dictionary\<close> keeps the matrix \<open>A\<close> of the problem, so its rows read
  \<open>x\<^sub>B = b - A x\<^sub>N\<close>: the coefficient of a nonbasic variable in a row is the negative of
  the entry of \<open>A\<close>.
\<close>

definition is_optimal :: "LPDictionary \<Rightarrow> bool" where
  "is_optimal D = list_all (\<lambda>cj. cj \<le> 0) (dict_c D)"

definition objective_value :: "LPDictionary \<Rightarrow> rat" where
  "objective_value D = dict_v D"

text \<open>
  Modelled from the spec: the entering candidates are the nonbasic variables with a strictly
  positive objective coefficient.  The function takes the nonbasic variables and the objective row, so that
  both representations use it.
\<close>

definition entering_candidates :: "string list \<Rightarrow> rat list \<Rightarrow> string list" where
  "entering_candidates N c = map fst (filter (\<lambda>(xj, cj). 0 < cj) (zip N c))"

definition entering_variable_candidates :: "LPDictionary \<Rightarrow> string list" where
  "entering_variable_candidates D = entering_candidates (dict_N D) (dict_c D)"

text \<open>
  Modelled from the spec: the ratio test runs over the rows where the coefficient of the
  entering variable is negative; the row minimizing \<open>b[i] / (- coefficient)\<close> is picked,
  the lowest row among ties, and the search signals \<open>UnboundedError\<close> when no row has a
  negative coefficient.
\<close>

definition ratios :: "rat list \<Rightarrow> rat list \<Rightarrow> (nat \<times> rat) list" where
  "ratios b col =
     map (\<lambda>i. (i, b ! i / (- (- col ! i))))
       (filter (\<lambda>i. - col ! i < 0) [0..<min (length b) (length col)])"

fun first_minimum :: "(nat \<times> rat) list \<Rightarrow> (nat \<times> rat) option" where
  "first_minimum [] = None"
| "first_minimum (p # ps) =
     Some (fold (\<lambda>q best. if snd q < snd best then q else best) ps p)"

definition leaving_variable ::
  "string list \<Rightarrow> rat list \<Rightarrow> rat list \<Rightarrow> error + (string \<times> rat)" where
  "leaving_variable B b col =
     (case first_minimum (ratios b col) of
        None \<Rightarrow> Inl UnboundedError
      | Some (i, r) \<Rightarrow> (if i < length B then Inr (B ! i, r) else Inl IndexError))"

definition column :: "rat list list \<Rightarrow> nat \<Rightarrow> rat list" where
  "column A j = map (\<lambda>row. row ! j) A"

definition leaving_variable_for :: "LPDictionary \<Rightarrow> string \<Rightarrow> error + (string \<times> rat)" where
  "leaving_variable_for D entering =
     (case index_of entering (dict_N D) of
        None \<Rightarrow> Inl NotInSequence
      | Some e \<Rightarrow>
          (if \<not> dictionary_shape D then Inl InvalidPartitionError
           else leaving_variable (dict_B D) (dict_b D) (column (dict_A D) e)))"

text \<open>
  Modelled from the spec: the pivot. The row of the new basic variable is the pivot row
  divided by the pivot element (the leaving variable takes the column of the entering
  one); every other row, and the objective row, is updated by eliminating the entering
  column.
\<close>

definition pivot :: "LPDictionary \<Rightarrow> string \<Rightarrow> string \<Rightarrow> error + LPDictionary" where
  "pivot D entering leaving =
     (case index_of entering (dict_N D) of
        None \<Rightarrow> Inl NotInSequence
      | Some e \<Rightarrow>
          (case index_of leaving (dict_B D) of
             None \<Rightarrow> Inl NotInSequence
           | Some l \<Rightarrow>
               (if \<not> dictionary_shape D then Inl InvalidPartitionError
                else (let A = dict_A D; b = dict_b D; c = dict_c D;
                          p = A ! l ! e
                      in if p = 0 then Inl ZeroDivisionError
                         else (let pivot_row =
                                     map (\<lambda>j. if j = e then 1 / p else A ! l ! j / p)
                                       [0..<length (dict_N D)];
                                   bl = b ! l / p
                               in Inr (D \<lparr> dict_A :=
                                            map (\<lambda>i. if i = l then pivot_row
                                                      else map (\<lambda>j. (if j = e then 0 else A ! i ! j)
                                                                     - A ! i ! e * pivot_row ! j)
                                                             [0..<length (dict_N D)])
                                              [0..<length (dict_B D)],
                                          dict_b :=
                                            map (\<lambda>i. if i = l then bl else b ! i - A ! i ! e * bl)
                                              [0..<length (dict_B D)],
                                          dict_c :=
                                            map (\<lambda>j. (if j = e then 0 else c ! j)
                                                      - c ! e * pivot_row ! j)
                                              [0..<length (dict_N D)],
                                          dict_v := dict_v D + c ! e * bl,
                                          dict_B := (dict_B D)[l := entering],
                                          dict_N := (dict_N D)[e := leaving] \<rparr>))))))"

text \<open>
  A sequence of pivots, each given by its entering and its leaving variable; the partitions
  reachable by pivoting are those of the dictionaries it returns.
\<close>

fun pivots :: "LPDictionary \<Rightarrow> (string \<times> string) list \<Rightarrow> error + LPDictionary" where
  "pivots D [] = Inr D"
| "pivots D ((entering, leaving) # rest) =
     (case pivot D entering leaving of
        Inl e \<Rightarrow> Inl e
      | Inr D' \<Rightarrow> pivots D' rest)"

text \<open>
  The same, with the entering variable given as the \<open>j\<close>-th nonbasic variable and the
  leaving variable as the \<open>i\<close>-th basic one, whatever their names are.
\<close>

fun pivots_at :: "LPDictionary \<Rightarrow> (nat \<times> nat) list \<Rightarrow> error + LPDictionary" where
  "pivots_at D [] = Inr D"
| "pivots_at D ((j, i) # rest) =
     (if j < length (dict_N D) \<and> i < length (dict_B D)
      then (case pivot D (dict_N D ! j) (dict_B D ! i) of
              Inl e \<Rightarrow> Inl e
            | Inr D' \<Rightarrow> pivots_at D' rest)
      else Inl IndexError)"

subsection \<open>Views of \<^verbatim>\<open>LPRevisedDictionary\<close>\<close>

text \<open>
  Modelled from the spec: a revised dictionary computes every quantity on demand from the
  data of its problem and the inverse of the basis sub-matrix: \<open>b\<^sub>B = Binv \<cdot> b\<close>, the tableau
  column of a variable is \<open>Binv\<close> times its column of the full coefficient matrix, and
  the objective row is \<open>c\<^sub>N - c\<^sub>B\<^sup>T \<cdot> Binv \<cdot> A\<^sub>N\<close>.
\<close>

definition dot :: "rat list \<Rightarrow> rat list \<Rightarrow> rat" where
  "dot u v = sum_list (map2 (*) u v)"

definition mat_vec :: "rat list list \<Rightarrow> rat list \<Rightarrow> rat list" where
  "mat_vec M u = map (\<lambda>row. dot row u) M"

definition unit_vector :: "nat \<Rightarrow> nat \<Rightarrow> rat list" where
  "unit_vector k i = map (\<lambda>j. if j = i then 1 else 0) [0..<k]"

definition mat_mul :: "rat list list \<Rightarrow> rat list list \<Rightarrow> rat list list" where
  "mat_mul M N = map (\<lambda>row. map (\<lambda>j. dot row (column N j)) [0..<length N]) M"

text \<open>
  Modelled from the spec: the full coefficient matrix of the problem has the columns of
  \<open>A\<close> for the decision variables and the identity block for the slack variables; the full
  objective has the entries of \<open>c\<close> for the decision variables and \<open>0\<close> for the slack
  variables.
\<close>

definition full_column :: "InteractiveLPProblemStandardForm \<Rightarrow> string \<Rightarrow> rat list" where
  "full_column S w =
     (case index_of w (decision_variables S) of
        Some j \<Rightarrow> column (constraint_coefficients S) j
      | None \<Rightarrow>
          (case index_of w (slack_variables S) of
             Some i \<Rightarrow> unit_vector (problem_m S) i
           | None \<Rightarrow> replicate (problem_m S) 0))"

definition full_cost :: "InteractiveLPProblemStandardForm \<Rightarrow> string \<Rightarrow> rat" where
  "full_cost S w =
     (case index_of w (decision_variables S) of
        Some j \<Rightarrow> objective_coefficients S ! j
      | None \<Rightarrow> 0)"

text \<open>
  Modelled from the spec: the basis sub-matrix has the columns of the basic variables, in
  their order.
\<close>

definition B_matrix :: "LPRevisedDictionary \<Rightarrow> rat list list" where
  "B_matrix RD =
     map (\<lambda>i. map (\<lambda>w. full_column (revised_problem RD) w ! i) (x_B RD))
       [0..<problem_m (revised_problem RD)]"

text \<open>
  Modelled from the spec: the inverse of the basis sub-matrix comes from the matrix
  library; the views take it as an argument \<open>Binv\<close>, and \<open>is_B_inverse\<close> says that it is the
  inverse.
\<close>

definition is_B_inverse :: "LPRevisedDictionary \<Rightarrow> rat list list \<Rightarrow> bool" where
  "is_B_inverse RD Binv \<longleftrightarrow>
     length Binv = problem_m (revised_problem RD) \<and>
     list_all (\<lambda>row. length row = problem_m (revised_problem RD)) Binv \<and>
     length (x_B RD) = problem_m (revised_problem RD) \<and>
     mat_mul (B_matrix RD) Binv =
       map (unit_vector (problem_m (revised_problem RD))) [0..<problem_m (revised_problem RD)]"

definition revised_constant_terms :: "LPRevisedDictionary \<Rightarrow> rat list list \<Rightarrow> rat list" where
  "revised_constant_terms RD Binv = mat_vec Binv (constant_terms (revised_problem RD))"

definition revised_column :: "LPRevisedDictionary \<Rightarrow> rat list list \<Rightarrow> string \<Rightarrow> rat list" where
  "revised_column RD Binv w = mat_vec Binv (full_column (revised_problem RD) w)"

definition c_B :: "LPRevisedDictionary \<Rightarrow> rat list" where
  "c_B RD = map (full_cost (revised_problem RD)) (x_B RD)"

definition revised_objective_coefficient ::
  "LPRevisedDictionary \<Rightarrow> rat list list \<Rightarrow> string \<Rightarrow> rat" where
  "revised_objective_coefficient RD Binv w =
     full_cost (revised_problem RD) w - dot (c_B RD) (revised_column RD Binv w)"

definition revised_objective_value :: "LPRevisedDictionary \<Rightarrow> rat list list \<Rightarrow> rat" where
  "revised_objective_value RD Binv = dot (c_B RD) (revised_constant_terms RD Binv)"

definition revised_nonbasic_variables :: "LPRevisedDictionary \<Rightarrow> string list" where
  "revised_nonbasic_variables RD =
     filter (\<lambda>w. w \<notin> set (x_B RD))
       (decision_variables (revised_problem RD) @ slack_variables (revised_problem RD))"

definition revised_entering_candidates :: "LPRevisedDictionary \<Rightarrow> rat list list \<Rightarrow> string list" where
  "revised_entering_candidates RD Binv =
     entering_candidates (revised_nonbasic_variables RD)
       (map (revised_objective_coefficient RD Binv) (revised_nonbasic_variables RD))"

definition revised_leaving_variable_for ::
  "LPRevisedDictionary \<Rightarrow> rat list list \<Rightarrow> string \<Rightarrow> error + (string \<times> rat)" where
  "revised_leaving_variable_for RD Binv entering =
     (if entering \<notin> set (revised_nonbasic_variables RD) then Inl NotInSequence
      else leaving_variable (x_B RD) (revised_constant_terms RD Binv)
             (revised_column RD Binv entering))"

text \<open>
  Modelled from the spec: the update of the inverse by a pivot in row \<open>l\<close>, where \<open>d\<close> is
  the tableau column of the entering variable: row \<open>l\<close> is divided by \<open>d\<^sub>l\<close>, and \<open>d\<^sub>i\<close>
  times the new row \<open>l\<close> is subtracted from every other row \<open>i\<close>.
\<close>

definition update_B_inverse :: "rat list list \<Rightarrow> nat \<Rightarrow> rat list \<Rightarrow> rat list list" where
  "update_B_inverse Binv l d =
     map (\<lambda>i. if i = l then map (\<lambda>a. a / d ! l) (Binv ! l)
               else map2 (\<lambda>a r. a - d ! i * (r / d ! l)) (Binv ! i) (Binv ! l))
       [0..<length Binv]"

text \<open>The same row operations on one column \<open>u\<close> of the tableau.\<close>

definition eta :: "nat \<Rightarrow> rat list \<Rightarrow> rat list \<Rightarrow> rat list" where
  "eta l d u =
     map (\<lambda>i. if i = l then u ! l / d ! l else u ! i - d ! i * (u ! l / d ! l)) [0..<length u]"

text \<open>
  The dictionary \<open>D\<close> is the tableau of the problem \<open>S\<close> for the partition it carries, with
  \<open>M\<close> as the matrix that maps a column of the problem to the column of the tableau.
\<close>

definition represents ::
  "InteractiveLPProblemStandardForm \<Rightarrow> rat list list \<Rightarrow> LPDictionary \<Rightarrow> bool" where
  "represents S M D \<longleftrightarrow>
     dictionary_shape D \<and>
     length (dict_B D) = problem_m S \<and>
     length (constraint_coefficients S) = problem_m S \<and>
     length M = problem_m S \<and>
     list_all (\<lambda>row. length row = problem_m S) M \<and>
     distinct (dict_B D @ dict_N D) \<and>
     set (dict_B D @ dict_N D) = set (decision_variables S @ slack_variables S) \<and>
     dict_b D = mat_vec M (constant_terms S) \<and>
     list_all (\<lambda>j. column (dict_A D) j = mat_vec M (full_column S (dict_N D ! j)))
       [0..<length (dict_N D)] \<and>
     list_all (\<lambda>k. mat_vec M (full_column S (dict_B D ! k)) = unit_vector (problem_m S) k)
       [0..<length (dict_B D)] \<and>
     list_all (\<lambda>j. dict_c D ! j =
                  full_cost S (dict_N D ! j)
                  - dot (map (full_cost S) (dict_B D)) (column (dict_A D) j))
       [0..<length (dict_N D)] \<and>
     dict_v D = dot (map (full_cost S) (dict_B D)) (dict_b D)"

subsection \<open>The meaning of a dictionary\<close>





section \<open>Concrete problems\<close>

text \<open>A problem in general form with two constraints and two variables.\<close>

definition example_problem :: InteractiveLPProblem where
  "example_problem =
     \<lparr> constraint_coefficients = [[1, 1], [3, 1]],
       constant_terms = [1000, 1500],
       objective_coefficients = [10, 5],
       decision_variables = [''x1'', ''x2''],
       constraint_types = [CLe, CLe],
       variable_types = [VNonneg, VNonneg],
       problem_type = Maximize,
       is_negative = False,
       prefix = ''x'',
       style = None,
       problem_type_pda = None,
       objective = NoName \<rparr>"

definition example_standard :: InteractiveLPProblemStandardForm where
  "example_standard =
     \<lparr> constraint_coefficients = [[1, 1], [3, 1]],
       constant_terms = [1000, 1500],
       objective_coefficients = [10, 5],
       decision_variables = [''x1'', ''x2''],
       constraint_types = [CLe, CLe],
       variable_types = [VNonneg, VNonneg],
       problem_type = Maximize,
       is_negative = False,
       prefix = ''x'',
       style = None,
       problem_type_pda = None,
       objective = Name ''z'',
       coordinate_ring = [''x0'', ''x1'', ''x2'', ''x3'', ''x4''] \<rparr>"

definition example_infeasible_start :: InteractiveLPProblemStandardForm where
  "example_infeasible_start =
     \<lparr> constraint_coefficients = [[1, 1], [- 1, - 1], [- 1, 1]],
       constant_terms = [4, - 2, - 2],
       objective_coefficients = [1, 1],
       decision_variables = [''x1'', ''x2''],
       constraint_types = [CLe, CLe, CLe],
       variable_types = [VNonneg, VNonneg],
       problem_type = Maximize,
       is_negative = False,
       prefix = ''x'',
       style = vanderbei,
       problem_type_pda = None,
       objective = Name ''zeta'',
       coordinate_ring = [''x0'', ''x1'', ''x2'', ''w1'', ''w2'', ''w3''] \<rparr>"

definition example_auxiliary :: InteractiveLPProblemStandardForm where
  "example_auxiliary =
     \<lparr> constraint_coefficients = [[- 1, 1, 1], [- 1, - 1, - 1], [- 1, - 1, 1]],
       constant_terms = [4, - 2, - 2],
       objective_coefficients = [- 1, 0, 0],
       decision_variables = [''x0'', ''x1'', ''x2''],
       constraint_types = [CLe, CLe, CLe],
       variable_types = [VNonneg, VNonneg, VNonneg],
       problem_type = Maximize,
       is_negative = False,
       prefix = ''x'',
       style = vanderbei,
       problem_type_pda = Some ''auxiliary'',
       objective = Name ''xi'',
       coordinate_ring = [''x0'', ''x1'', ''x2'', ''w1'', ''w2'', ''w3''] \<rparr>"


definition example_pivoted :: LPDictionary where
  "example_pivoted =
     \<lparr> dict_A = [[- 1 / 3, 2 / 3], [1 / 3, 1 / 3]],
       dict_b = [500, 500],
       dict_c = [- 10 / 3, 5 / 3],
       dict_v = 5000,
       dict_B = [''x3'', ''x1''],
       dict_N = [''x4'', ''x2''],
       dict_z = Name ''z'',
       dict_style = None,
       dict_problem_type_pda = None \<rparr>"

definition example_revised :: LPRevisedDictionary where
  "example_revised =
     \<lparr> revised_problem = example_standard,
       x_B = [''x3'', ''x1''],
       revised_style = None,
       revised_problem_type_pda = None,
       revised_objective = Name ''z'' \<rparr>"

definition example_B_inverse :: "rat list list" where
  "example_B_inverse = [[1, - 1 / 3], [0, 1 / 3]]"

text \<open>A problem in one variable without constraints: maximize \<open>x1\<close> for \<open>x1 \<ge> 0\<close>.\<close>

definition example_no_constraints :: InteractiveLPProblemStandardForm where
  "example_no_constraints =
     \<lparr> constraint_coefficients = [],
       constant_terms = [],
       objective_coefficients = [1],
       decision_variables = [''x1''],
       constraint_types = [],
       variable_types = [VNonneg],
       problem_type = Maximize,
       is_negative = False,
       prefix = ''x'',
       style = None,
       problem_type_pda = None,
       objective = Name ''z'',
       coordinate_ring = [''x0'', ''x1''] \<rparr>"


text \<open>
  The problem of \<open>example_problem\<close> with the first variable named \<^verbatim>\<open>z0\<close> by its author,
  and its standard forms under the default style and under the style \<^verbatim>\<open>"vanderbei"\<close>:
  under the second the generated name of the auxiliary variable is \<^verbatim>\<open>z0\<close> as well.
\<close>

definition example_named :: InteractiveLPProblem where
  "example_named =
     \<lparr> constraint_coefficients = [[1, 1], [3, 1]],
       constant_terms = [1000, 1500],
       objective_coefficients = [10, 5],
       decision_variables = [''z0'', ''x2''],
       constraint_types = [CLe, CLe],
       variable_types = [VNonneg, VNonneg],
       problem_type = Maximize,
       is_negative = False,
       prefix = ''x'',
       style = None,
       problem_type_pda = None,
       objective = NoName \<rparr>"

definition example_named_default :: InteractiveLPProblemStandardForm where
  "example_named_default =
     \<lparr> constraint_coefficients = [[1, 1], [3, 1]],
       constant_terms = [1000, 1500],
       objective_coefficients = [10, 5],
       decision_variables = [''z0'', ''x2''],
       constraint_types = [CLe, CLe],
       variable_types = [VNonneg, VNonneg],
       problem_type = Maximize,
       is_negative = False,
       prefix = ''x'',
       style = None,
       problem_type_pda = None,
       objective = Name ''z'',
       coordinate_ring = [''x0'', ''z0'', ''x2'', ''x3'', ''x4''] \<rparr>"

definition example_named_vanderbei :: InteractiveLPProblemStandardForm where
  "example_named_vanderbei =
     \<lparr> constraint_coefficients = [[1, 1], [3, 1]],
       constant_terms = [1000, 1500],
       objective_coefficients = [10, 5],
       decision_variables = [''z0'', ''x2''],
       constraint_types = [CLe, CLe],
       variable_types = [VNonneg, VNonneg],
       problem_type = Maximize,
       is_negative = False,
       prefix = ''x'',
       style = vanderbei,
       problem_type_pda = None,
       objective = Name ''zeta'',
       coordinate_ring = [''z0'', ''x2'', ''z1'', ''z2''] \<rparr>"

text \<open>The standard form of \<open>example_problem\<close> under the style \<^verbatim>\<open>"vanderbei"\<close>.\<close>

definition example_standard_vanderbei :: InteractiveLPProblemStandardForm where
  "example_standard_vanderbei =
     \<lparr> constraint_coefficients = [[1, 1], [3, 1]],
       constant_terms = [1000, 1500],
       objective_coefficients = [10, 5],
       decision_variables = [''x1'', ''x2''],
       constraint_types = [CLe, CLe],
       variable_types = [VNonneg, VNonneg],
       problem_type = Maximize,
       is_negative = False,
       prefix = ''x'',
       style = vanderbei,
       problem_type_pda = None,
       objective = Name ''zeta'',
       coordinate_ring = [''z0'', ''x1'', ''x2'', ''z1'', ''z2''] \<rparr>"

section \<open>Properties of the constructors\<close>

lemma derived_objective_style_error:
  "derived_objective obj st own = Inl e \<Longrightarrow> e = StyleError \<and> obj = NoName \<and> st \<noteq> None \<and> st \<noteq> vanderbei"
  by (auto simp: derived_objective_def split: name_arg.splits if_splits)

lemma derived_objective_ok:
  "st = None \<or> st = vanderbei \<Longrightarrow> \<exists>r. derived_objective obj st own = Inr r"
  by (auto simp: derived_objective_def split: name_arg.splits)

lemma slack_names_ok:
  "st = None \<or> st = vanderbei \<Longrightarrow> \<exists>r. slack_names st sv mm nn = Inr r"
  by (auto simp: slack_names_def vanderbei_def split: name_arg.splits sum.splits)

lemma base_init_error:
  "InteractiveLPProblem_init A b c x cts vts ptype pre st pda obj = Inl e \<Longrightarrow> e = ShapeError"
  by (auto simp: InteractiveLPProblem_init_def Let_def split: if_splits)

lemma base_init_fields:
  assumes "InteractiveLPProblem_init A b c x cts vts ptype pre st pda obj = Inr P"
  shows "constraint_coefficients P = A" "constant_terms P = b" "objective_coefficients P = c"
    "decision_variables P = variable_names x (length c)" "constraint_types P = cts"
    "variable_types P = vts" "problem_type P = snd ptype" "is_negative P = fst ptype"
    "prefix P = pre" "style P = st" "problem_type_pda P = pda" "objective P = obj"
    "shape_ok A b c (variable_names x (length c)) cts vts"
  using assms by (auto simp: InteractiveLPProblem_init_def Let_def split: if_splits)

lemma generators_distinct:
  assumes "distinct (generators aux xs slack)"
  shows "generators aux xs slack = (if aux \<in> set xs then xs @ slack else aux # xs @ slack)"
proof (cases xs)
  case Nil
  then show ?thesis by (simp add: generators_def)
next
  case (Cons d0 rest)
  show ?thesis
  proof (cases "aux = d0")
    case True
    with Cons show ?thesis by (simp add: generators_def)
  next
    case False
    with Cons assms have "aux \<notin> set xs" by (simp add: generators_def)
    with Cons False show ?thesis by (simp add: generators_def)
  qed
qed

lemma distinct_generators:
  "distinct (generators aux xs slack) \<longleftrightarrow>
     distinct (xs @ slack) \<and> aux \<notin> set slack \<and> (aux \<in> set xs \<longrightarrow> aux = hd xs)"
  by (cases xs) (auto simp: generators_def)

lemma standard_init_cases:
  assumes "InteractiveLPProblemStandardForm_init A b c x ptype sv aux st pda obj = Inr S"
  obtains base slack where
    "InteractiveLPProblem_init A b c x (replicate (length b) CLe)
       (replicate (length c) VNonneg) ptype ''x'' st pda obj = Inr base"
    "st = None \<or> st = vanderbei"
    "slack_names st sv (length b) (length c) = Inr slack"
    "length slack = length b"
    "distinct (generators aux (decision_variables base) slack)"
    "S = InteractiveLPProblem.extend (base \<lparr> objective := objective_name obj st pda \<rparr>)
           (InteractiveLPProblemStandardForm.fields
              (if aux \<in> set (decision_variables base) then decision_variables base @ slack
               else aux # decision_variables base @ slack))"
proof -
  from assms obtain base where base: "InteractiveLPProblem_init A b c x (replicate (length b) CLe)
       (replicate (length c) VNonneg) ptype ''x'' st pda obj = Inr base"
    by (auto simp: InteractiveLPProblemStandardForm_init_def split: sum.splits)
  from assms base have st: "st = None \<or> st = vanderbei"
    by (auto simp: InteractiveLPProblemStandardForm_init_def split: if_splits)
  from assms base st obtain slack where slack: "slack_names st sv (length b) (length c) = Inr slack"
    by (auto simp: InteractiveLPProblemStandardForm_init_def split: sum.splits if_splits)
  from assms base st slack have len: "length slack = length b"
    by (auto simp: InteractiveLPProblemStandardForm_init_def split: if_splits)
  from assms base st slack len have d: "distinct (generators aux (decision_variables base) slack)"
    by (auto simp: InteractiveLPProblemStandardForm_init_def Let_def split: if_splits)
  from assms base st slack len d
  have "S = InteractiveLPProblem.extend (base \<lparr> objective := objective_name obj st pda \<rparr>)
           (InteractiveLPProblemStandardForm.fields
              (generators aux (decision_variables base) slack))"
    by (auto simp: InteractiveLPProblemStandardForm_init_def Let_def split: if_splits)
  then have "S = InteractiveLPProblem.extend (base \<lparr> objective := objective_name obj st pda \<rparr>)
           (InteractiveLPProblemStandardForm.fields
              (if aux \<in> set (decision_variables base) then decision_variables base @ slack
               else aux # decision_variables base @ slack))"
    by (simp only: generators_distinct[OF d])
  from that[OF base st slack len d this] show thesis .
qed

lemma standard_init_fields:
  assumes "InteractiveLPProblemStandardForm_init A b c x ptype sv aux st pda obj = Inr S"
  shows "constraint_coefficients S = A" "constant_terms S = b" "objective_coefficients S = c"
    "decision_variables S = variable_names x (length c)"
    "constraint_types S = replicate (length b) CLe"
    "variable_types S = replicate (length c) VNonneg"
    "problem_type S = snd ptype" "is_negative S = fst ptype"
    "style S = st" "problem_type_pda S = pda" "objective S = objective_name obj st pda"
    "st = None \<or> st = vanderbei"
    "length A = length b" "list_all (\<lambda>row. length row = length c) A"
    "length (variable_names x (length c)) = length c"
    "\<exists>slack. slack_names st sv (length b) (length c) = Inr slack \<and> length slack = length b \<and>
        coordinate_ring S = (if aux \<in> set (variable_names x (length c))
                             then variable_names x (length c) @ slack
                             else aux # variable_names x (length c) @ slack)"
    "distinct (coordinate_ring S)"
proof -
  from assms obtain base slack where
    base: "InteractiveLPProblem_init A b c x (replicate (length b) CLe)
       (replicate (length c) VNonneg) ptype ''x'' st pda obj = Inr base"
    and st: "st = None \<or> st = vanderbei"
    and slack: "slack_names st sv (length b) (length c) = Inr slack" "length slack = length b"
    and dist: "distinct (generators aux (decision_variables base) slack)"
    and S: "S = InteractiveLPProblem.extend (base \<lparr> objective := objective_name obj st pda \<rparr>)
           (InteractiveLPProblemStandardForm.fields
              (if aux \<in> set (decision_variables base) then decision_variables base @ slack
               else aux # decision_variables base @ slack))"
    by (rule standard_init_cases)
  note f = base_init_fields[OF base]
  show "constraint_coefficients S = A" "constant_terms S = b" "objective_coefficients S = c"
    "decision_variables S = variable_names x (length c)"
    "constraint_types S = replicate (length b) CLe"
    "variable_types S = replicate (length c) VNonneg"
    "problem_type S = snd ptype" "is_negative S = fst ptype"
    "style S = st" "problem_type_pda S = pda" "objective S = objective_name obj st pda"
    by (simp_all add: S f InteractiveLPProblem.extend_def InteractiveLPProblemStandardForm.fields_def)
  show "st = None \<or> st = vanderbei" by (rule st)
  from f(13) show "length A = length b" "list_all (\<lambda>row. length row = length c) A"
    "length (variable_names x (length c)) = length c"
    by (simp_all add: shape_ok_def)
  show "\<exists>slack. slack_names st sv (length b) (length c) = Inr slack \<and> length slack = length b \<and>
        coordinate_ring S = (if aux \<in> set (variable_names x (length c))
                             then variable_names x (length c) @ slack
                             else aux # variable_names x (length c) @ slack)"
    using slack
    by (simp add: S f InteractiveLPProblem.extend_def InteractiveLPProblemStandardForm.fields_def)
  show "distinct (coordinate_ring S)"
    using dist generators_distinct[OF dist]
    by (simp add: S InteractiveLPProblem.extend_def InteractiveLPProblemStandardForm.fields_def)
qed

lemma standard_init_ok:
  assumes "length A = length b" "list_all (\<lambda>row. length row = length c) A"
    "length (variable_names x (length c)) = length c"
    "st = None \<or> st = vanderbei"
    "slack_names st sv (length b) (length c) = Inr slack" "length slack = length b"
    "distinct (generators aux (variable_names x (length c)) slack)"
  shows "\<exists>S. InteractiveLPProblemStandardForm_init A b c x ptype sv aux st pda obj = Inr S"
  using assms
  by (auto simp: InteractiveLPProblemStandardForm_init_def InteractiveLPProblem_init_def
        Let_def shape_ok_def)

lemma length_indexed_names [simp]: "length (indexed_names s lo hi) = hi - lo"
  by (simp add: indexed_names_def)

lemma slack_names_base_length:
  "st = None \<or> st = vanderbei \<Longrightarrow> sv = NoName \<or> sv = Name s \<Longrightarrow>
   \<exists>slack. slack_names st sv mm nn = Inr slack \<and> length slack = mm"
  by (auto simp: slack_names_def vanderbei_def)

lemma slack_names_Names: "slack_names st (Names xs) mm nn = Inr xs"
  by (simp add: slack_names_def)

lemma auxiliary_problem_cases:
  assumes "auxiliary_problem Q obj = Inr R"
  obtains x0 rest ao where
    "coordinate_ring Q = x0 # rest"
    "derived_objective obj (style Q) (objective Q) = Inr ao"
    "length (coordinate_ring Q) \<noteq> problem_m Q + problem_n Q"
    "InteractiveLPProblemStandardForm_init
       (map (\<lambda>row. - 1 # row) (constraint_coefficients Q)) (constant_terms Q)
       (- 1 # replicate (problem_n Q) 0)
       (Names (slice_butlast (problem_m Q) (coordinate_ring Q))) (False, Maximize)
       (Names (slice_last (problem_m Q) (coordinate_ring Q))) x0
       (if style Q = vanderbei then style Q else None)
       (if style Q = vanderbei then Some ''auxiliary'' else None) ao = Inr R"
  using assms
  by (auto simp: auxiliary_problem_def Let_def split: sum.splits if_splits list.splits)

lemma standard_init_error:
  "InteractiveLPProblemStandardForm_init A b c x ptype sv aux st pda obj = Inl e \<Longrightarrow>
   e = ShapeError \<or> e = StyleError \<or> e = DuplicateVariable"
  by (auto simp: InteractiveLPProblemStandardForm_init_def InteractiveLPProblem_init_def
        slack_names_def Let_def split: sum.splits if_splits name_arg.splits)

lemma slice_butlast_append [simp]:
  "ys \<noteq> [] \<Longrightarrow> slice_butlast (length ys) (xs @ ys) = xs"
  by (simp add: slice_butlast_def)

lemma slice_last_append [simp]:
  "ys \<noteq> [] \<Longrightarrow> slice_last (length ys) (xs @ ys) = ys"
  by (simp add: slice_last_def)

lemma slice_mid_append [simp]:
  "ys \<noteq> [] \<Longrightarrow> slice_mid (length ys) (length xs) (zs @ xs @ ys) = xs"
  by (simp add: slice_mid_def)

text \<open>The generators of a constructed problem.\<close>

lemma standard_init_ring:
  assumes "InteractiveLPProblemStandardForm_init A b c x ptype sv aux st pda obj = Inr S"
  obtains slack where "length slack = length b"
    "length (decision_variables S) = length c"
    "coordinate_ring S = (if aux \<in> set (decision_variables S) then decision_variables S @ slack
                          else aux # decision_variables S @ slack)"
  using standard_init_fields(4,15,16)[OF assms] by auto

lemma minimum_eq_Min: "bs \<noteq> [] \<Longrightarrow> minimum bs = Min (set bs)"
proof (cases bs)
  case Nil
  assume "bs \<noteq> []"
  with Nil show ?thesis by simp
next
  case (Cons a list)
  have "Min (set (a # list)) = fold min list a" by (rule Min.set_eq_fold)
  with Cons show ?thesis by (simp del: set_simps)
qed

lemma index_of_Some:
  "index_of a xs = Some i \<Longrightarrow> i < length xs \<and> xs ! i = a \<and> (\<forall>j<i. xs ! j \<noteq> a)"
proof (induction xs arbitrary: i)
  case Nil
  then show ?case by simp
next
  case (Cons x xs)
  show ?case
  proof (cases "x = a")
    case True
    with Cons.prems show ?thesis by simp
  next
    case False
    with Cons.prems obtain k where k: "index_of a xs = Some k" "i = Suc k" by auto
    from Cons.IH[OF k(1)] False k(2) show ?thesis
      by (auto simp: nth_Cons split: nat.splits)
  qed
qed

lemma index_of_mem: "a \<in> set xs \<Longrightarrow> \<exists>i. index_of a xs = Some i"
  by (induction xs) auto

lemma index_of_None: "index_of a xs = None \<longleftrightarrow> a \<notin> set xs"
  by (induction xs) auto

lemma default_basis_Inr:
  assumes "default_basis S = Inr basis"
  shows "constant_terms S \<noteq> []"
    and "\<not> minimum (constant_terms S) < 0 \<Longrightarrow> basis = slack_variables S"
    and "minimum (constant_terms S) < 0 \<Longrightarrow>
       \<exists>x0 i. auxiliary_variable S = Inr x0 \<and>
         index_of (minimum (constant_terms S)) (constant_terms S) = Some i \<and>
         i < length (slack_variables S) \<and> basis = (slack_variables S)[i := x0]"
proof -
  show ne: "constant_terms S \<noteq> []"
    using assms unfolding default_basis_def Let_def by (cases "constant_terms S = []") simp_all
  show "basis = slack_variables S" if "\<not> minimum (constant_terms S) < 0"
    using assms that ne unfolding default_basis_def Let_def by simp
  show "\<exists>x0 i. auxiliary_variable S = Inr x0 \<and>
         index_of (minimum (constant_terms S)) (constant_terms S) = Some i \<and>
         i < length (slack_variables S) \<and> basis = (slack_variables S)[i := x0]"
    if "minimum (constant_terms S) < 0"
    using assms that ne unfolding default_basis_def Let_def
    by (simp split: sum.splits option.splits if_splits)
qed

lemma revised_init_Inr:
  assumes "LPRevisedDictionary_init S basis st pda obj = Inr RD"
  shows "x_B RD = basis" "revised_problem RD = S"
  using assms unfolding LPRevisedDictionary_init_def
  by (auto split: if_splits sum.splits list.splits)

lemma example_standard_constructed:
  "InteractiveLPProblemStandardForm_init [[1, 1], [3, 1]] [1000, 1500] [10, 5]
     (Names [''x1'', ''x2'']) (False, Maximize) (Names [''x3'', ''x4'']) ''x0'' None None NoName
   = Inr example_standard"
  by (simp add: InteractiveLPProblemStandardForm_init_def InteractiveLPProblem_init_def
      shape_ok_def variable_names_def slack_names_def objective_name_def default_objective_def
      vanderbei_def example_standard_def InteractiveLPProblem.extend_def
      InteractiveLPProblemStandardForm.fields_def generators_def)

lemma example_infeasible_start_constructed:
  "InteractiveLPProblemStandardForm_init [[1, 1], [- 1, - 1], [- 1, 1]] [4, - 2, - 2] [1, 1]
     (Names [''x1'', ''x2'']) (False, Maximize) (Names [''w1'', ''w2'', ''w3'']) ''x0''
     vanderbei None NoName
   = Inr example_infeasible_start"
  by (simp add: InteractiveLPProblemStandardForm_init_def InteractiveLPProblem_init_def
      shape_ok_def variable_names_def slack_names_def objective_name_def default_objective_def
      vanderbei_def example_infeasible_start_def InteractiveLPProblem.extend_def
      InteractiveLPProblemStandardForm.fields_def generators_def)

lemmas init_eval =
  InteractiveLPProblemStandardForm_init_def InteractiveLPProblem_init_def
  shape_ok_def variable_names_def slack_names_def objective_name_def default_objective_def
  vanderbei_def InteractiveLPProblem.extend_def InteractiveLPProblemStandardForm.fields_def
  generators_def

lemma example_auxiliary_constructed:
  "InteractiveLPProblemStandardForm_init [[- 1, 1, 1], [- 1, - 1, - 1], [- 1, - 1, 1]]
     [4, - 2, - 2] [- 1, 0, 0]
     (Names [''x0'', ''x1'', ''x2'']) (False, Maximize) (Names [''w1'', ''w2'', ''w3'']) ''x0''
     vanderbei (Some ''auxiliary'') (Name ''xi'')
   = Inr example_auxiliary"
  by (simp add: init_eval example_auxiliary_def)

lemma example_auxiliary_problem:
  "auxiliary_problem example_infeasible_start NoName = Inr example_auxiliary"
  by (simp add: auxiliary_problem_def example_infeasible_start_def derived_objective_def
      problem_m_def problem_n_def slice_butlast_def slice_last_def init_eval
      example_auxiliary_def)

lemma length_variable_names:
  "y = NoName \<or> y = Name s \<or> y = Names ys \<and> length ys = k \<Longrightarrow> length (variable_names y k) = k"
  by (auto simp: variable_names_def)

lemma nth_matrix_transpose:
  "j < k \<Longrightarrow> i < length A \<Longrightarrow> matrix_transpose k A ! j ! i = A ! i ! j"
  by (simp add: matrix_transpose_def)

lemma length_matrix_transpose [simp]: "length (matrix_transpose k A) = k"
  by (simp add: matrix_transpose_def)

lemma dual_Inr:
  assumes "dual P y obj = Inr D"
  obtains ao where "derived_objective obj (style P) (objective P) = Inr ao"
    "InteractiveLPProblem_init
       (matrix_transpose (problem_n P) (constraint_coefficients P))
       (objective_coefficients P) (constant_terms P)
       (case y of NoName \<Rightarrow> Name (if prefix P = ''y'' then ''x'' else ''y'') | _ \<Rightarrow> y)
       (map (dual_constraint_type (problem_type P)) (variable_types P))
       (map (dual_variable_type (problem_type P)) (constraint_types P))
       (is_negative P, flip (problem_type P)) ''x'' (style P) (Some ''dual'') ao = Inr D"
  using assms by (auto simp: dual_def Let_def split: sum.splits)

lemma base_init_numeric:
  "map_sum id numeric_data (InteractiveLPProblem_init A b c x cts vts ptype pre st pda obj) =
     (if shape_ok A b c (variable_names x (length c)) cts vts
      then Inr (A, b, c, cts, vts, snd ptype, fst ptype) else Inl ShapeError)"
  by (simp add: InteractiveLPProblem_init_def Let_def numeric_data_def)

lemma standardize_style [simp]: "standardize (P \<lparr> style := s \<rparr>) = standardize P"
  unfolding standardize_def problem_n_def Let_def by simp

lemma dual_numeric:
  assumes "s = None \<or> s = vanderbei"
  shows "map_sum id numeric_data (dual (P \<lparr> style := s \<rparr>) y obj) =
     (let ys = variable_names
                 (case y of NoName \<Rightarrow> Name (if prefix P = ''y'' then ''x'' else ''y'') | _ \<Rightarrow> y)
                 (length (constant_terms P));
          A = matrix_transpose (problem_n P) (constraint_coefficients P);
          cts = map (dual_constraint_type (problem_type P)) (variable_types P);
          vts = map (dual_variable_type (problem_type P)) (constraint_types P)
      in if shape_ok A (objective_coefficients P) (constant_terms P) ys cts vts
         then Inr (A, objective_coefficients P, constant_terms P, cts, vts,
                   flip (problem_type P), is_negative P)
         else Inl ShapeError)"
proof -
  from assms have "\<exists>ao. derived_objective obj s (objective P) = Inr ao"
    by (rule derived_objective_ok)
  then obtain ao where "derived_objective obj s (objective P) = Inr ao" ..
  then show ?thesis
    by (simp add: dual_def Let_def base_init_numeric problem_n_def)
qed



text \<open>The call of the constructor that \<^verbatim>\<open>auxiliary_problem\<close> makes, and its result.\<close>

lemma auxiliary_problem_call:
  assumes S: "InteractiveLPProblemStandardForm_init A b c x ptype sv aux st pda obj = Inr S"
    and new: "aux \<notin> set (decision_variables S)" and b: "b \<noteq> []"
  obtains Q slack ao st' pda' where
    "auxiliary_problem S obj' = Inr Q"
    "InteractiveLPProblemStandardForm_init (map (\<lambda>row. - 1 # row) A) b
       (- 1 # replicate (length c) 0) (Names (aux # decision_variables S)) (False, Maximize)
       (Names slack) aux st' pda' ao = Inr Q"
    "coordinate_ring S = aux # decision_variables S @ slack"
    "length slack = length b"
proof -
  note f = standard_init_fields[OF S]
  from S obtain slack where slack: "length slack = length b"
    and xs: "length (decision_variables S) = length c"
    and X: "coordinate_ring S = (if aux \<in> set (decision_variables S)
                                 then decision_variables S @ slack
                                 else aux # decision_variables S @ slack)"
    by (rule standard_init_ring)
  have mn: "problem_m S = length b" "problem_n S = length c"
    by (simp_all add: problem_m_def problem_n_def f)
  obtain ao where ao: "derived_objective obj' (style S) (objective S) = Inr ao"
    using derived_objective_ok[of "style S" obj' "objective S"] f(9,12) by auto
  from new X have ring: "coordinate_ring S = aux # decision_variables S @ slack" by simp
  from b slack have sl: "slack \<noteq> []" by auto
  have bl: "slice_butlast (length b) (aux # decision_variables S @ slack) = aux # decision_variables S"
    using slice_butlast_append[OF sl, of "aux # decision_variables S"] by (simp add: slack)
  have la: "slice_last (length b) (aux # decision_variables S @ slack) = slack"
    using slice_last_append[OF sl, of "aux # decision_variables S"] by (simp add: slack)
  define st' where "st' = (if style S = vanderbei then style S else None)"
  define pda' where "pda' = (if style S = vanderbei then Some ''auxiliary'' else None)"
  let ?init = "InteractiveLPProblemStandardForm_init
       (map (\<lambda>row. - 1 # row) A) b (- 1 # replicate (length c) 0)
       (Names (aux # decision_variables S)) (False, Maximize) (Names slack) aux st' pda' ao"
  have st: "st' = None \<or> st' = vanderbei" by (simp add: st'_def)
  have gens: "generators aux
        (variable_names (Names (aux # decision_variables S))
           (length (- 1 # replicate (length c) (0::rat)))) slack =
      coordinate_ring S"
    by (simp add: variable_names_def generators_def ring)
  have "\<exists>Q. ?init = Inr Q"
  proof (rule standard_init_ok[where slack = slack])
    show "length (map (\<lambda>row. - 1 # row) A) = length b" using f(13) by simp
    show "list_all (\<lambda>row. length row = length (- 1 # replicate (length c) (0::rat)))
            (map (\<lambda>row. - 1 # row) A)"
      using f(14) by (simp add: list_all_iff)
    show "length (variable_names (Names (aux # decision_variables S))
            (length (- 1 # replicate (length c) (0::rat)))) =
          length (- 1 # replicate (length c) (0::rat))"
      using xs by (simp add: variable_names_def)
    show "st' = None \<or> st' = vanderbei" by (rule st)
    show "slack_names st' (Names slack) (length b)
            (length (- 1 # replicate (length c) (0::rat))) = Inr slack"
      by (simp add: slack_names_def)
    show "length slack = length b" by (rule slack)
    show "distinct (generators aux
        (variable_names (Names (aux # decision_variables S))
           (length (- 1 # replicate (length c) (0::rat)))) slack)"
      unfolding gens by (rule f(17))
  qed
  then obtain Q where Q: "?init = Inr Q" ..
  have neq: "length (coordinate_ring S) \<noteq> problem_m S + problem_n S"
    using ring slack xs mn by simp
  have "auxiliary_problem S obj' = ?init"
    unfolding auxiliary_problem_def Let_def
    using neq by (simp add: ao ring mn bl la f(1,2) st'_def pda'_def)
  with Q have "auxiliary_problem S obj' = Inr Q" by simp
  from that[OF this Q ring slack] show thesis .
qed

subsection \<open>Vectors, matrices and pivots\<close>

lemma dot_sum:
  assumes "length u = length v"
  shows "dot u v = (\<Sum>i<length u. u ! i * v ! i)"
proof -
  have "dot u v = (\<Sum>i = 0..<length u. map2 (*) u v ! i)"
    unfolding dot_def using assms by (simp add: sum_list_sum_nth)
  also have "\<dots> = (\<Sum>i = 0..<length u. u ! i * v ! i)"
    using assms by (intro sum.cong) simp_all
  finally show ?thesis by (simp add: atLeast0LessThan)
qed

lemma length_mat_vec [simp]: "length (mat_vec M u) = length M"
  by (simp add: mat_vec_def)

lemma nth_mat_vec: "i < length M \<Longrightarrow> mat_vec M u ! i = dot (M ! i) u"
  by (simp add: mat_vec_def)

lemma length_unit_vector [simp]: "length (unit_vector k i) = k"
  by (simp add: unit_vector_def)

lemma nth_unit_vector: "j < k \<Longrightarrow> unit_vector k i ! j = (if j = i then 1 else 0)"
  by (simp add: unit_vector_def)

lemma length_column [simp]: "length (column A j) = length A"
  by (simp add: column_def)

lemma nth_column: "i < length A \<Longrightarrow> column A j ! i = A ! i ! j"
  by (simp add: column_def)

lemma length_eta [simp]: "length (eta l d u) = length u"
  by (simp add: eta_def)

lemma nth_eta:
  "i < length u \<Longrightarrow>
   eta l d u ! i = (if i = l then u ! l / d ! l else u ! i - d ! i * (u ! l / d ! l))"
  by (simp add: eta_def)

lemma dot_unit_right:
  assumes "length u = k" "i < k"
  shows "dot u (unit_vector k i) = u ! i"
proof -
  have "dot u (unit_vector k i) = (\<Sum>j<k. u ! j * unit_vector k i ! j)"
    using assms by (simp add: dot_sum)
  also have "\<dots> = (\<Sum>j\<in>{..<k}. if j = i then u ! j else 0)"
    by (intro sum.cong) (simp_all add: nth_unit_vector)
  also have "\<dots> = u ! i" using assms by simp
  finally show ?thesis .
qed

lemma dot_unit_left:
  assumes "length u = k" "i < k"
  shows "dot (unit_vector k i) u = u ! i"
proof -
  have "dot (unit_vector k i) u = (\<Sum>j<k. unit_vector k i ! j * u ! j)"
    using assms by (simp add: dot_sum)
  also have "\<dots> = (\<Sum>j\<in>{..<k}. if j = i then u ! j else 0)"
    by (intro sum.cong) (simp_all add: nth_unit_vector)
  also have "\<dots> = u ! i" using assms by simp
  finally show ?thesis .
qed

lemma sum_list_zero: "\<forall>p\<in>set ps. p = (0::rat) \<Longrightarrow> sum_list ps = 0"
  by (induction ps) auto

lemma dot_zero_left:
  assumes "\<forall>x\<in>set u. x = 0"
  shows "dot u v = 0"
  unfolding dot_def using assms by (intro sum_list_zero) (auto dest: set_zip_leftD)

lemma dot_map_divide:
  assumes "length x = length u"
  shows "dot (map (\<lambda>a. a / p) x) u = dot x u / p"
proof -
  have "dot (map (\<lambda>a. a / p) x) u = (\<Sum>i<length x. x ! i / p * u ! i)"
    using assms by (simp add: dot_sum)
  also have "\<dots> = (\<Sum>i<length x. x ! i * u ! i / p)"
    by (intro sum.cong) simp_all
  also have "\<dots> = dot x u / p"
    using assms by (simp add: dot_sum sum_divide_distrib)
  finally show ?thesis .
qed

lemma dot_map2_subtract:
  assumes "length x = length u" "length y = length u"
  shows "dot (map2 (\<lambda>a r. a - k * (r / p)) x y) u = dot x u - k * (dot y u / p)"
proof -
  have "dot (map2 (\<lambda>a r. a - k * (r / p)) x y) u =
        (\<Sum>i<length u. (x ! i - k * (y ! i / p)) * u ! i)"
    using assms by (simp add: dot_sum)
  also have "\<dots> = (\<Sum>i<length u. x ! i * u ! i - k * (y ! i * u ! i / p))"
    by (intro sum.cong) (simp_all add: algebra_simps)
  also have "\<dots> = dot x u - k * (dot y u / p)"
    using assms by (simp add: dot_sum sum_subtractf sum_distrib_left sum_divide_distrib)
  finally show ?thesis .
qed

lemma dot_map2_subtract_normal:
  assumes "length x = length u" "length y = length u"
  shows "dot (map2 (\<lambda>a r. a - k * r / p) x y) u = dot x u - k * dot y u / p"
  using dot_map2_subtract[OF assms, of k p] by simp

lemma mat_vec_update_B_inverse:
  assumes "list_all (\<lambda>row. length row = length u) M" "l < length M"
  shows "mat_vec (update_B_inverse M l d) u = eta l d (mat_vec M u)"
proof (rule nth_equalityI)
  show "length (mat_vec (update_B_inverse M l d) u) = length (eta l d (mat_vec M u))"
    by (simp add: update_B_inverse_def)
next
  fix i assume "i < length (mat_vec (update_B_inverse M l d) u)"
  then have i: "i < length M" by (simp add: update_B_inverse_def)
  from assms have len: "length (M ! i) = length u" "length (M ! l) = length u"
    using i by (simp_all add: list_all_length)
  show "mat_vec (update_B_inverse M l d) u ! i = eta l d (mat_vec M u) ! i"
    using i assms(2) len
    by (simp add: nth_mat_vec nth_eta update_B_inverse_def dot_map_divide dot_map2_subtract_normal)
qed

lemma dot_update_eta:
  assumes "length cB = m" "length u = m" "length d = m" "l < m" "d ! l \<noteq> 0"
  shows "dot (cB[l := y]) (eta l d u) = dot cB u + (y - dot cB d) * (u ! l / d ! l)"
proof -
  let ?t = "u ! l / d ! l"
  have fin: "finite {..<m}" "l \<in> {..<m}" using assms by simp_all
  have "dot (cB[l := y]) (eta l d u) = (\<Sum>i<m. cB[l := y] ! i * eta l d u ! i)"
    using assms by (simp add: dot_sum)
  also have "\<dots> = y * ?t + (\<Sum>i\<in>{..<m} - {l}. cB[l := y] ! i * eta l d u ! i)"
    using assms by (simp add: sum.remove[OF fin] nth_eta)
  also have "(\<Sum>i\<in>{..<m} - {l}. cB[l := y] ! i * eta l d u ! i) =
             (\<Sum>i\<in>{..<m} - {l}. cB ! i * u ! i - ?t * (cB ! i * d ! i))"
    using assms by (intro sum.cong) (auto simp: nth_eta algebra_simps)
  also have "\<dots> = (\<Sum>i\<in>{..<m} - {l}. cB ! i * u ! i) - ?t * (\<Sum>i\<in>{..<m} - {l}. cB ! i * d ! i)"
    by (simp add: sum_subtractf sum_distrib_left)
  also have "(\<Sum>i\<in>{..<m} - {l}. cB ! i * u ! i) = dot cB u - cB ! l * u ! l"
    using assms by (simp add: dot_sum sum.remove[OF fin])
  also have "(\<Sum>i\<in>{..<m} - {l}. cB ! i * d ! i) = dot cB d - cB ! l * d ! l"
    using assms by (simp add: dot_sum sum.remove[OF fin])
  finally show ?thesis using assms(5) by (simp add: field_simps)
qed

lemma list_all_upt: "list_all P [0..<n] \<longleftrightarrow> (\<forall>j<n. P j)"
  by (auto simp: list_all_iff)

lemma length_full_column:
  "length (constraint_coefficients S) = problem_m S \<Longrightarrow> length (full_column S w) = problem_m S"
  by (simp add: full_column_def split: option.splits)

lemma pivot_cases:
  assumes "pivot D entering leaving = Inr D'"
  obtains e l where
    "index_of entering (dict_N D) = Some e" "index_of leaving (dict_B D) = Some l"
    "dictionary_shape D" "dict_A D ! l ! e \<noteq> 0"
    "dict_B D' = (dict_B D)[l := entering]" "dict_N D' = (dict_N D)[e := leaving]"
    "dict_A D' =
       map (\<lambda>i. if i = l
                 then map (\<lambda>j. if j = e then 1 / dict_A D ! l ! e
                                else dict_A D ! l ! j / dict_A D ! l ! e)
                        [0..<length (dict_N D)]
                 else map (\<lambda>j. (if j = e then 0 else dict_A D ! i ! j)
                                - dict_A D ! i ! e *
                                  (if j = e then 1 / dict_A D ! l ! e
                                   else dict_A D ! l ! j / dict_A D ! l ! e))
                        [0..<length (dict_N D)])
         [0..<length (dict_B D)]"
    "dict_b D' =
       map (\<lambda>i. if i = l then dict_b D ! l / dict_A D ! l ! e
                 else dict_b D ! i - dict_A D ! i ! e * (dict_b D ! l / dict_A D ! l ! e))
         [0..<length (dict_B D)]"
    "dict_c D' =
       map (\<lambda>j. (if j = e then 0 else dict_c D ! j)
                 - dict_c D ! e *
                   (if j = e then 1 / dict_A D ! l ! e
                    else dict_A D ! l ! j / dict_A D ! l ! e))
         [0..<length (dict_N D)]"
    "dict_v D' = dict_v D + dict_c D ! e * (dict_b D ! l / dict_A D ! l ! e)"
proof -
  from assms obtain e where e: "index_of entering (dict_N D) = Some e"
    unfolding pivot_def by (cases "index_of entering (dict_N D)") simp_all
  from assms e obtain l where l: "index_of leaving (dict_B D) = Some l"
    unfolding pivot_def by (cases "index_of leaving (dict_B D)") simp_all
  from assms e l have sh: "dictionary_shape D"
    unfolding pivot_def by (cases "dictionary_shape D") simp_all
  from assms e l sh have p: "dict_A D ! l ! e \<noteq> 0"
    unfolding pivot_def Let_def by (cases "dict_A D ! l ! e = 0") simp_all
  from index_of_Some[OF e] have e': "e < length (dict_N D)" by simp
  have D': "D' = D \<lparr> dict_A :=
         map (\<lambda>i. if i = l
                 then map (\<lambda>j. if j = e then 1 / dict_A D ! l ! e
                                else dict_A D ! l ! j / dict_A D ! l ! e)
                        [0..<length (dict_N D)]
                 else map (\<lambda>j. (if j = e then 0 else dict_A D ! i ! j)
                                - dict_A D ! i ! e *
                                  map (\<lambda>j. if j = e then 1 / dict_A D ! l ! e
                                            else dict_A D ! l ! j / dict_A D ! l ! e)
                                    [0..<length (dict_N D)] ! j)
                        [0..<length (dict_N D)])
         [0..<length (dict_B D)],
       dict_b :=
         map (\<lambda>i. if i = l then dict_b D ! l / dict_A D ! l ! e
                 else dict_b D ! i - dict_A D ! i ! e * (dict_b D ! l / dict_A D ! l ! e))
         [0..<length (dict_B D)],
       dict_c :=
         map (\<lambda>j. (if j = e then 0 else dict_c D ! j)
                 - dict_c D ! e *
                   map (\<lambda>j. if j = e then 1 / dict_A D ! l ! e
                             else dict_A D ! l ! j / dict_A D ! l ! e)
                     [0..<length (dict_N D)] ! j)
         [0..<length (dict_N D)],
       dict_v := dict_v D + dict_c D ! e * (dict_b D ! l / dict_A D ! l ! e),
       dict_B := (dict_B D)[l := entering],
       dict_N := (dict_N D)[e := leaving] \<rparr>"
    using assms e l sh p unfolding pivot_def Let_def by simp
  have A: "dict_A D' =
       map (\<lambda>i. if i = l
                 then map (\<lambda>j. if j = e then 1 / dict_A D ! l ! e
                                else dict_A D ! l ! j / dict_A D ! l ! e)
                        [0..<length (dict_N D)]
                 else map (\<lambda>j. (if j = e then 0 else dict_A D ! i ! j)
                                - dict_A D ! i ! e *
                                  (if j = e then 1 / dict_A D ! l ! e
                                   else dict_A D ! l ! j / dict_A D ! l ! e))
                        [0..<length (dict_N D)])
         [0..<length (dict_B D)]"
    unfolding D' by (simp cong: map_cong)
  have c: "dict_c D' =
       map (\<lambda>j. (if j = e then 0 else dict_c D ! j)
                 - dict_c D ! e *
                   (if j = e then 1 / dict_A D ! l ! e
                    else dict_A D ! l ! j / dict_A D ! l ! e))
         [0..<length (dict_N D)]"
    unfolding D' by (simp cong: map_cong)
  show thesis
    by (rule that[OF e l sh p _ _ A _ c]) (simp_all add: D')
qed

lemma eta_unit_other:
  assumes "k < m" "l < m" "k \<noteq> l"
  shows "eta l d (unit_vector m k) = unit_vector m k"
  using assms by (intro nth_equalityI) (simp_all add: nth_eta nth_unit_vector)

lemma eta_self:
  assumes "l < length d" "d ! l \<noteq> 0"
  shows "eta l d d = unit_vector (length d) l"
  using assms by (intro nth_equalityI) (simp_all add: nth_eta nth_unit_vector)

lemma swap_append:
  assumes "l < length B" "e < length N"
  shows "B[l := N ! e] @ N[e := B ! l] =
         (B @ N)[l := (B @ N) ! (length B + e), length B + e := (B @ N) ! l]"
  using assms by (simp add: list_update_append nth_append)

lemma distinct_exchange:
  assumes "distinct (B @ N)" "l < length B" "e < length N"
  shows "distinct (B[l := N ! e] @ N[e := B ! l])"
    and "set (B[l := N ! e] @ N[e := B ! l]) = set (B @ N)"
proof -
  have l: "l < length (B @ N)" and e: "length B + e < length (B @ N)"
    using assms by simp_all
  show "distinct (B[l := N ! e] @ N[e := B ! l])"
    unfolding swap_append[OF assms(2,3)] using assms(1) distinct_swap[OF l e] by simp
  show "set (B[l := N ! e] @ N[e := B ! l]) = set (B @ N)"
    unfolding swap_append[OF assms(2,3)] using set_swap[OF l e] by simp
qed

lemma pivot_tableau:
  assumes piv: "pivot D entering leaving = Inr D'"
  obtains e l where
    "index_of entering (dict_N D) = Some e" "index_of leaving (dict_B D) = Some l"
    "e < length (dict_N D)" "l < length (dict_B D)"
    "dict_N D ! e = entering" "dict_B D ! l = leaving"
    "dictionary_shape D" "dictionary_shape D'"
    "column (dict_A D) e ! l \<noteq> 0"
    "dict_B D' = (dict_B D)[l := entering]" "dict_N D' = (dict_N D)[e := leaving]"
    "dict_b D' = eta l (column (dict_A D) e) (dict_b D)"
    "\<forall>j<length (dict_N D). j \<noteq> e \<longrightarrow>
       column (dict_A D') j = eta l (column (dict_A D) e) (column (dict_A D) j)"
    "column (dict_A D') e =
       eta l (column (dict_A D) e) (unit_vector (length (dict_B D)) l)"
    "\<forall>j<length (dict_N D). j \<noteq> e \<longrightarrow>
       dict_c D' ! j =
         dict_c D ! j - dict_c D ! e * (column (dict_A D) j ! l / column (dict_A D) e ! l)"
    "dict_c D' ! e = - dict_c D ! e / column (dict_A D) e ! l"
    "dict_v D' = dict_v D + dict_c D ! e * (dict_b D ! l / column (dict_A D) e ! l)"
proof -
  from piv obtain e l where
    e: "index_of entering (dict_N D) = Some e" and l: "index_of leaving (dict_B D) = Some l"
    and sh: "dictionary_shape D" and p: "dict_A D ! l ! e \<noteq> 0"
    and B': "dict_B D' = (dict_B D)[l := entering]"
    and N': "dict_N D' = (dict_N D)[e := leaving]"
    and A': "dict_A D' =
       map (\<lambda>i. if i = l
                 then map (\<lambda>j. if j = e then 1 / dict_A D ! l ! e
                                else dict_A D ! l ! j / dict_A D ! l ! e)
                        [0..<length (dict_N D)]
                 else map (\<lambda>j. (if j = e then 0 else dict_A D ! i ! j)
                                - dict_A D ! i ! e *
                                  (if j = e then 1 / dict_A D ! l ! e
                                   else dict_A D ! l ! j / dict_A D ! l ! e))
                        [0..<length (dict_N D)])
         [0..<length (dict_B D)]"
    and b': "dict_b D' =
       map (\<lambda>i. if i = l then dict_b D ! l / dict_A D ! l ! e
                 else dict_b D ! i - dict_A D ! i ! e * (dict_b D ! l / dict_A D ! l ! e))
         [0..<length (dict_B D)]"
    and c': "dict_c D' =
       map (\<lambda>j. (if j = e then 0 else dict_c D ! j)
                 - dict_c D ! e *
                   (if j = e then 1 / dict_A D ! l ! e
                    else dict_A D ! l ! j / dict_A D ! l ! e))
         [0..<length (dict_N D)]"
    and v': "dict_v D' = dict_v D + dict_c D ! e * (dict_b D ! l / dict_A D ! l ! e)"
    by (rule pivot_cases)
  let ?m = "length (dict_B D)"
  let ?n = "length (dict_N D)"
  let ?d = "column (dict_A D) e"
  from index_of_Some[OF e] have en: "e < ?n" "dict_N D ! e = entering" by simp_all
  from index_of_Some[OF l] have lm: "l < ?m" "dict_B D ! l = leaving" by simp_all
  from sh have lenA: "length (dict_A D) = ?m" and lenb: "length (dict_b D) = ?m"
    and lenc: "length (dict_c D) = ?n"
    by (simp_all add: dictionary_shape_def)
  have dl: "?d ! l = dict_A D ! l ! e" using lm lenA by (simp add: nth_column)
  have sh': "dictionary_shape D'"
    unfolding dictionary_shape_def A' b' c' B' N' by (auto simp: list_all_iff)
  have lenA': "length (dict_A D') = ?m" unfolding A' by simp
  have b_eta: "dict_b D' = eta l ?d (dict_b D)"
  proof (rule nth_equalityI)
    show "length (dict_b D') = length (eta l ?d (dict_b D))" by (simp add: b' lenb)
  next
    fix i assume "i < length (dict_b D')"
    then have i: "i < ?m" by (simp add: b')
    then show "dict_b D' ! i = eta l ?d (dict_b D) ! i"
      using lm lenA lenb by (simp add: b' nth_eta nth_column)
  qed
  have col_other: "column (dict_A D') j = eta l ?d (column (dict_A D) j)"
    if j: "j < ?n" "j \<noteq> e" for j
  proof (rule nth_equalityI)
    show "length (column (dict_A D') j) = length (eta l ?d (column (dict_A D) j))"
      by (simp add: lenA lenA')
  next
    fix i assume "i < length (column (dict_A D') j)"
    then have i: "i < ?m" by (simp add: lenA')
    then show "column (dict_A D') j ! i = eta l ?d (column (dict_A D) j) ! i"
      using lm lenA lenA' j by (simp add: nth_eta nth_column) (simp add: A')
  qed
  have col_e: "column (dict_A D') e = eta l ?d (unit_vector ?m l)"
  proof (rule nth_equalityI)
    show "length (column (dict_A D') e) = length (eta l ?d (unit_vector ?m l))"
      by (simp add: lenA')
  next
    fix i assume "i < length (column (dict_A D') e)"
    then have i: "i < ?m" by (simp add: lenA')
    then show "column (dict_A D') e ! i = eta l ?d (unit_vector ?m l) ! i"
      using lm lenA lenA' en
      by (simp add: nth_eta nth_column nth_unit_vector) (simp add: A')
  qed
  have c_other: "dict_c D' ! j = dict_c D ! j - dict_c D ! e * (column (dict_A D) j ! l / ?d ! l)"
    if j: "j < ?n" "j \<noteq> e" for j
    using j lm lenA by (simp add: c' nth_column)
  have c_e: "dict_c D' ! e = - dict_c D ! e / ?d ! l"
    using en lm lenA by (simp add: c' nth_column)
  have v_eq: "dict_v D' = dict_v D + dict_c D ! e * (dict_b D ! l / ?d ! l)"
    using lm lenA by (simp add: v' nth_column)
  from p dl have p': "?d ! l \<noteq> 0" by simp
  from col_other have col_other':
    "\<forall>j<?n. j \<noteq> e \<longrightarrow> column (dict_A D') j = eta l ?d (column (dict_A D) j)"
    by blast
  from c_other have c_other':
    "\<forall>j<?n. j \<noteq> e \<longrightarrow>
       dict_c D' ! j = dict_c D ! j - dict_c D ! e * (column (dict_A D) j ! l / ?d ! l)"
    by blast
  show thesis
    by (rule that[OF e l en(1) lm(1) en(2) lm(2) sh sh' p' B' N' b_eta col_other' col_e
          c_other' c_e v_eq])
qed

lemma representsD:
  assumes "represents S M D"
  shows "dictionary_shape D" "length (dict_B D) = problem_m S"
    "length (constraint_coefficients S) = problem_m S"
    "length M = problem_m S" "list_all (\<lambda>row. length row = problem_m S) M"
    "distinct (dict_B D @ dict_N D)"
    "set (dict_B D @ dict_N D) = set (decision_variables S @ slack_variables S)"
    "dict_b D = mat_vec M (constant_terms S)"
    "\<And>j. j < length (dict_N D) \<Longrightarrow>
       column (dict_A D) j = mat_vec M (full_column S (dict_N D ! j))"
    "\<And>k. k < length (dict_B D) \<Longrightarrow>
       mat_vec M (full_column S (dict_B D ! k)) = unit_vector (problem_m S) k"
    "\<And>j. j < length (dict_N D) \<Longrightarrow>
       dict_c D ! j = full_cost S (dict_N D ! j)
                      - dot (map (full_cost S) (dict_B D)) (column (dict_A D) j)"
    "dict_v D = dot (map (full_cost S) (dict_B D)) (dict_b D)"
  using assms unfolding represents_def list_all_upt by blast+

lemma representsI:
  assumes "dictionary_shape D" "length (dict_B D) = problem_m S"
    "length (constraint_coefficients S) = problem_m S"
    "length M = problem_m S" "list_all (\<lambda>row. length row = problem_m S) M"
    "distinct (dict_B D @ dict_N D)"
    "set (dict_B D @ dict_N D) = set (decision_variables S @ slack_variables S)"
    "dict_b D = mat_vec M (constant_terms S)"
    "\<And>j. j < length (dict_N D) \<Longrightarrow>
       column (dict_A D) j = mat_vec M (full_column S (dict_N D ! j))"
    "\<And>k. k < length (dict_B D) \<Longrightarrow>
       mat_vec M (full_column S (dict_B D ! k)) = unit_vector (problem_m S) k"
    "\<And>j. j < length (dict_N D) \<Longrightarrow>
       dict_c D ! j = full_cost S (dict_N D ! j)
                      - dot (map (full_cost S) (dict_B D)) (column (dict_A D) j)"
    "dict_v D = dot (map (full_cost S) (dict_B D)) (dict_b D)"
  shows "represents S M D"
  unfolding represents_def list_all_upt using assms by blast

lemma length_update_B_inverse [simp]: "length (update_B_inverse M l d) = length M"
  by (simp add: update_B_inverse_def)

lemma rows_update_B_inverse:
  assumes "list_all (\<lambda>row. length row = k) M" "l < length M"
  shows "list_all (\<lambda>row. length row = k) (update_B_inverse M l d)"
  using assms unfolding update_B_inverse_def list_all_length by simp

lemma pivot_represents:
  assumes rep: "represents S M D" and piv: "pivot D entering leaving = Inr D'"
  shows "\<exists>M'. represents S M' D'"
proof -
  note R = representsD[OF rep]
  let ?m = "problem_m S"
  let ?n = "length (dict_N D)"
  let ?cB = "map (full_cost S) (dict_B D)"
  from piv obtain e l where
    e: "index_of entering (dict_N D) = Some e" and l: "index_of leaving (dict_B D) = Some l"
    and en: "e < ?n" and lm0: "l < length (dict_B D)"
    and Ne: "dict_N D ! e = entering" and Bl: "dict_B D ! l = leaving"
    and sh: "dictionary_shape D" and sh': "dictionary_shape D'"
    and p: "column (dict_A D) e ! l \<noteq> 0"
    and B': "dict_B D' = (dict_B D)[l := entering]"
    and N': "dict_N D' = (dict_N D)[e := leaving]"
    and b': "dict_b D' = eta l (column (dict_A D) e) (dict_b D)"
    and col_other0: "\<forall>j<length (dict_N D). j \<noteq> e \<longrightarrow>
       column (dict_A D') j = eta l (column (dict_A D) e) (column (dict_A D) j)"
    and col_e: "column (dict_A D') e =
       eta l (column (dict_A D) e) (unit_vector (length (dict_B D)) l)"
    and c_other0: "\<forall>j<length (dict_N D). j \<noteq> e \<longrightarrow>
       dict_c D' ! j =
         dict_c D ! j - dict_c D ! e * (column (dict_A D) j ! l / column (dict_A D) e ! l)"
    and c_e: "dict_c D' ! e = - dict_c D ! e / column (dict_A D) e ! l"
    and v': "dict_v D' = dict_v D + dict_c D ! e * (dict_b D ! l / column (dict_A D) e ! l)"
    by (rule pivot_tableau)
  from col_other0 have col_other:
    "column (dict_A D') j = eta l (column (dict_A D) e) (column (dict_A D) j)"
    if "j < ?n" "j \<noteq> e" for j
    using that by blast
  from c_other0 have c_other:
    "dict_c D' ! j =
       dict_c D ! j - dict_c D ! e * (column (dict_A D) j ! l / column (dict_A D) e ! l)"
    if "j < ?n" "j \<noteq> e" for j
    using that by blast
  let ?d = "column (dict_A D) e"
  let ?M' = "update_B_inverse M l ?d"
  from lm0 R(2) have lm: "l < ?m" by simp
  from R(1) R(2) have lenA: "length (dict_A D) = ?m" and lenb: "length (dict_b D) = ?m"
    by (simp_all add: dictionary_shape_def)
  have lend: "length ?d = ?m" by (simp add: lenA)
  have lenfc: "length (full_column S w) = ?m" for w
    by (rule length_full_column[OF R(3)])
  have upd: "mat_vec ?M' u = eta l ?d (mat_vec M u)" if "length u = ?m" for u
    using R(5) that lm R(4) by (intro mat_vec_update_B_inverse) simp_all
  have d_eq: "?d = mat_vec M (full_column S entering)"
    using R(9)[OF en] Ne by simp
  have unit_l: "mat_vec M (full_column S leaving) = unit_vector ?m l"
    using R(10)[OF lm0] Bl by simp
  have cB': "map (full_cost S) (dict_B D') = ?cB[l := full_cost S entering]"
    by (simp add: B' map_update)
  have ce: "dict_c D ! e = full_cost S entering - dot ?cB ?d"
    using R(11)[OF en] Ne by simp
  have lencB: "length ?cB = ?m" by (simp add: R(2))
  have key: "dot (?cB[l := full_cost S entering]) (eta l ?d u) =
             dot ?cB u + dict_c D ! e * (u ! l / ?d ! l)" if "length u = ?m" for u
    unfolding ce by (rule dot_update_eta[OF lencB that lend lm p])
  have part: "distinct (dict_B D' @ dict_N D')"
    "set (dict_B D' @ dict_N D') = set (decision_variables S @ slack_variables S)"
    using distinct_exchange[OF R(6) lm0 en] R(7) unfolding B' N' Ne Bl by simp_all
  show ?thesis
  proof (rule exI[of _ ?M'], rule representsI)
    show "dictionary_shape D'" by (rule sh')
    show "length (dict_B D') = ?m" by (simp add: B' R(2))
    show "length (constraint_coefficients S) = ?m" by (rule R(3))
    show "length ?M' = ?m" by (simp add: R(4))
    show "list_all (\<lambda>row. length row = ?m) ?M'"
      using R(5) lm R(4) by (intro rows_update_B_inverse) simp_all
    show "distinct (dict_B D' @ dict_N D')" by (rule part(1))
    show "set (dict_B D' @ dict_N D') = set (decision_variables S @ slack_variables S)"
      by (rule part(2))
    show "dict_b D' = mat_vec ?M' (constant_terms S)"
      unfolding b' R(8) by (rule upd[symmetric]) (simp add: problem_m_def)
  next
    fix j assume "j < length (dict_N D')"
    then have j: "j < ?n" by (simp add: N')
    show "column (dict_A D') j = mat_vec ?M' (full_column S (dict_N D' ! j))"
    proof (cases "j = e")
      case True
      have "dict_N D' ! j = leaving" using True en by (simp add: N')
      then show ?thesis
        using col_e True unit_l upd[OF lenfc, of leaving] R(2) by simp
    next
      case False
      have "dict_N D' ! j = dict_N D ! j" using False by (simp add: N')
      then show ?thesis
        using col_other[OF j False] R(9)[OF j] upd[OF lenfc, of "dict_N D ! j"] by simp
    qed
    show "dict_c D' ! j = full_cost S (dict_N D' ! j)
                      - dot (map (full_cost S) (dict_B D')) (column (dict_A D') j)"
    proof (cases "j = e")
      case True
      have Nj: "dict_N D' ! j = leaving" using True en by (simp add: N')
      have "dot (map (full_cost S) (dict_B D')) (column (dict_A D') j) =
            dot ?cB (unit_vector ?m l) + dict_c D ! e * (unit_vector ?m l ! l / ?d ! l)"
        unfolding cB' True col_e R(2) by (rule key) simp
      also have "\<dots> = full_cost S leaving + dict_c D ! e / ?d ! l"
        using lm lm0 Bl by (simp add: dot_unit_right[OF lencB lm] nth_unit_vector)
      finally show ?thesis using c_e True Nj by simp
    next
      case False
      have Nj: "dict_N D' ! j = dict_N D ! j" using False by (simp add: N')
      have "dot (map (full_cost S) (dict_B D')) (column (dict_A D') j) =
            dot ?cB (column (dict_A D) j)
            + dict_c D ! e * (column (dict_A D) j ! l / ?d ! l)"
        unfolding cB' col_other[OF j False] by (rule key) (simp add: lenA)
      then show ?thesis using c_other[OF j False] R(11)[OF j] Nj by simp
    qed
  next
    fix k assume "k < length (dict_B D')"
    then have k: "k < length (dict_B D)" by (simp add: B')
    show "mat_vec ?M' (full_column S (dict_B D' ! k)) = unit_vector ?m k"
    proof (cases "k = l")
      case True
      have "dict_B D' ! k = entering" using True lm0 by (simp add: B')
      then show ?thesis
        using upd[OF lenfc, of entering] d_eq eta_self[of l ?d] lm lend p True by simp
    next
      case False
      have "dict_B D' ! k = dict_B D ! k" using False by (simp add: B')
      then show ?thesis
        using upd[OF lenfc, of "dict_B D ! k"] R(10)[OF k]
          eta_unit_other[of k ?m l ?d] k lm False R(2) by simp
    qed
  next
    have "dot (map (full_cost S) (dict_B D')) (dict_b D') =
          dot ?cB (dict_b D) + dict_c D ! e * (dict_b D ! l / ?d ! l)"
      unfolding cB' b' by (rule key) (rule lenb)
    then show "dict_v D' = dot (map (full_cost S) (dict_B D')) (dict_b D')"
      using v' R(12) by simp
  qed
qed

lemma pivots_represents:
  assumes "represents S M D" "pivots D steps = Inr D'"
  shows "\<exists>M'. represents S M' D'"
  using assms
proof (induction steps arbitrary: M D)
  case Nil
  then show ?case by auto
next
  case (Cons step steps)
  obtain entering leaving where step: "step = (entering, leaving)" by (cases step)
  from Cons.prems(2) obtain D1 where D1: "pivot D entering leaving = Inr D1"
    and rest: "pivots D1 steps = Inr D'"
    unfolding step by (cases "pivot D entering leaving") simp_all
  from pivot_represents[OF Cons.prems(1) D1] obtain M1 where "represents S M1 D1" ..
  from Cons.IH[OF this rest] show ?case .
qed

lemma index_of_distinct:
  "distinct xs \<Longrightarrow> j < length xs \<Longrightarrow> index_of (xs ! j) xs = Some j"
proof (induction xs arbitrary: j)
  case Nil
  then show ?case by simp
next
  case (Cons x xs)
  show ?case
  proof (cases j)
    case 0
    then show ?thesis by simp
  next
    case (Suc k)
    with Cons.prems have "xs ! k \<in> set xs" "x \<notin> set xs" by simp_all
    then have "x \<noteq> xs ! k" by blast
    with Cons.IH[of k] Cons.prems Suc show ?thesis by simp
  qed
qed

lemma mat_vec_identity:
  assumes "length u = m"
  shows "mat_vec (map (unit_vector m) [0..<m]) u = u"
  using assms by (intro nth_equalityI) (simp_all add: nth_mat_vec dot_unit_left)

lemma initial_represents:
  assumes lenA: "length (constraint_coefficients S) = problem_m S"
    and rows: "list_all (\<lambda>row. length row = problem_n S) (constraint_coefficients S)"
    and lenx: "length (decision_variables S) = problem_n S"
    and ring: "coordinate_ring S = x0 # decision_variables S @ slack"
    and lens: "length slack = problem_m S"
    and pos: "0 < problem_m S"
    and dist: "distinct (decision_variables S @ slack)"
  shows "represents S (map (unit_vector (problem_m S)) [0..<problem_m S]) (initial_dictionary S)"
proof -
  let ?m = "problem_m S"
  let ?I = "map (unit_vector ?m) [0..<?m]"
  let ?D = "initial_dictionary S"
  from pos lens have ne: "slack \<noteq> []" by auto
  have sl: "slack_variables S = slack"
    unfolding slack_variables_def ring lens[symmetric]
    using slice_last_append[OF ne, of "x0 # decision_variables S"] by simp
  have B: "dict_B ?D = slack"
    using sl by (simp add: initial_dictionary_def slack_variables_def)
  have N: "dict_N ?D = decision_variables S"
    unfolding initial_dictionary_def ring lens[symmetric] lenx[symmetric]
    using slice_mid_append[OF ne, of "decision_variables S" "[x0]"] by simp
  have Ad: "dict_A ?D = constraint_coefficients S" "dict_b ?D = constant_terms S"
    "dict_c ?D = objective_coefficients S" "dict_v ?D = 0"
    by (simp_all add: initial_dictionary_def)
  have lenfc: "length (full_column S w) = ?m" for w
    by (rule length_full_column[OF lenA])
  have zero: "\<forall>a\<in>set (map (full_cost S) slack). a = 0"
  proof
    fix a assume "a \<in> set (map (full_cost S) slack)"
    then obtain w where w: "w \<in> set slack" "a = full_cost S w" by auto
    with dist have "w \<notin> set (decision_variables S)" by auto
    then have "index_of w (decision_variables S) = None" by (simp add: index_of_None)
    with w show "a = 0" by (simp add: full_cost_def)
  qed
  show ?thesis
  proof (rule representsI)
    show "dictionary_shape ?D"
      unfolding dictionary_shape_def B N Ad
      using lenA rows lens lenx by (simp add: problem_m_def problem_n_def)
    show "length (dict_B ?D) = ?m" by (simp add: B lens)
    show "length (constraint_coefficients S) = ?m" by (rule lenA)
    show "length ?I = ?m" by simp
    show "list_all (\<lambda>row. length row = ?m) ?I" by (simp add: list_all_iff)
    show "distinct (dict_B ?D @ dict_N ?D)" using dist by (auto simp: B N)
    show "set (dict_B ?D @ dict_N ?D) = set (decision_variables S @ slack_variables S)"
      by (auto simp: B N sl)
    show "dict_b ?D = mat_vec ?I (constant_terms S)"
      unfolding Ad by (rule mat_vec_identity[symmetric]) (simp add: problem_m_def)
    show "dict_v ?D = dot (map (full_cost S) (dict_B ?D)) (dict_b ?D)"
      unfolding Ad B using dot_zero_left[OF zero] by simp
  next
    fix j assume "j < length (dict_N ?D)"
    then have j: "j < length (decision_variables S)" by (simp add: N)
    from dist have "distinct (decision_variables S)" by simp
    from index_of_distinct[OF this j]
    have ix: "index_of (decision_variables S ! j) (decision_variables S) = Some j" .
    have fc: "full_column S (dict_N ?D ! j) = column (constraint_coefficients S) j"
      unfolding N by (simp add: full_column_def ix)
    show "column (dict_A ?D) j = mat_vec ?I (full_column S (dict_N ?D ! j))"
      unfolding fc Ad by (rule mat_vec_identity[symmetric]) (simp add: lenA)
    show "dict_c ?D ! j = full_cost S (dict_N ?D ! j)
                      - dot (map (full_cost S) (dict_B ?D)) (column (dict_A ?D) j)"
      unfolding B Ad N using dot_zero_left[OF zero] by (simp add: full_cost_def ix)
  next
    fix k assume "k < length (dict_B ?D)"
    then have k: "k < length slack" by (simp add: B)
    then have "slack ! k \<in> set slack" by simp
    with dist have "slack ! k \<notin> set (decision_variables S)" by auto
    then have nd: "index_of (slack ! k) (decision_variables S) = None"
      by (simp add: index_of_None)
    from dist have "distinct slack" by simp
    from index_of_distinct[OF this k] have ix: "index_of (slack ! k) slack = Some k" .
    have fc: "full_column S (dict_B ?D ! k) = unit_vector ?m k"
      unfolding B by (simp add: full_column_def nd sl ix)
    show "mat_vec ?I (full_column S (dict_B ?D ! k)) = unit_vector ?m k"
      unfolding fc by (rule mat_vec_identity) simp
  qed
qed

lemma inverse_unique:
  assumes lenM: "length M = m" and rowsM: "list_all (\<lambda>row. length row = m) M"
    and lenV: "length V = m" and rowsV: "list_all (\<lambda>row. length row = m) V"
    and lena: "\<forall>l<m. length (a l) = m"
    and left: "\<forall>l<m. mat_vec M (a l) = unit_vector m l"
    and right: "mat_mul (map (\<lambda>k. map (\<lambda>l. a l ! k) [0..<m]) [0..<m]) V =
                map (unit_vector m) [0..<m]"
  shows "M = V"
proof -
  have R: "(\<Sum>l<m. a l ! k * V ! l ! j) = (if k = j then 1 else 0)" if "k < m" "j < m" for k j
  proof -
    have "mat_mul (map (\<lambda>k. map (\<lambda>l. a l ! k) [0..<m]) [0..<m]) V ! k ! j =
          dot (map (\<lambda>l. a l ! k) [0..<m]) (column V j)"
      using that lenV by (simp add: mat_mul_def)
    also have "\<dots> = (\<Sum>l<m. map (\<lambda>l. a l ! k) [0..<m] ! l * column V j ! l)"
      using lenV by (simp add: dot_sum)
    also have "\<dots> = (\<Sum>l<m. a l ! k * V ! l ! j)"
      using lenV by (intro sum.cong) (simp_all add: nth_column)
    finally have eq: "(\<Sum>l<m. a l ! k * V ! l ! j) =
        mat_mul (map (\<lambda>k. map (\<lambda>l. a l ! k) [0..<m]) [0..<m]) V ! k ! j" by simp
    show ?thesis unfolding eq right using that by (auto simp: nth_unit_vector)
  qed
  have L: "(\<Sum>k<m. M ! i ! k * a l ! k) = (if i = l then 1 else 0)" if "i < m" "l < m" for i l
  proof -
    from rowsM lenM that have len: "length (M ! i) = m" by (simp add: list_all_length)
    from left that have "mat_vec M (a l) ! i = unit_vector m l ! i" by simp
    then have "dot (M ! i) (a l) = (if i = l then 1 else 0)"
      using that lenM by (simp add: nth_mat_vec nth_unit_vector)
    then show ?thesis using len lena that by (simp add: dot_sum)
  qed
  have entry: "M ! i ! j = V ! i ! j" if ij: "i < m" "j < m" for i j
  proof -
    have "M ! i ! j = (\<Sum>k\<in>{..<m}. if k = j then M ! i ! k else 0)"
      using ij by simp
    also have "\<dots> = (\<Sum>k<m. M ! i ! k * (\<Sum>l<m. a l ! k * V ! l ! j))"
      by (intro sum.cong) (simp_all add: R ij)
    also have "\<dots> = (\<Sum>k<m. \<Sum>l<m. M ! i ! k * a l ! k * V ! l ! j)"
      by (simp add: sum_distrib_left mult.assoc)
    also have "\<dots> = (\<Sum>l<m. \<Sum>k<m. M ! i ! k * a l ! k * V ! l ! j)"
      by (rule sum.swap)
    also have "\<dots> = (\<Sum>l<m. (\<Sum>k<m. M ! i ! k * a l ! k) * V ! l ! j)"
      by (simp add: sum_distrib_right)
    also have "\<dots> = (\<Sum>l\<in>{..<m}. if i = l then V ! l ! j else 0)"
      by (intro sum.cong) (simp_all add: L ij)
    also have "\<dots> = V ! i ! j" using ij by simp
    finally show ?thesis .
  qed
  show ?thesis
  proof (rule nth_equalityI)
    show "length M = length V" by (simp add: lenM lenV)
  next
    fix i assume "i < length M"
    then have i: "i < m" by (simp add: lenM)
    with rowsM rowsV lenM lenV have len: "length (M ! i) = m" "length (V ! i) = m"
      by (simp_all add: list_all_length)
    show "M ! i = V ! i"
      using len entry[OF i] by (intro nth_equalityI) simp_all
  qed
qed

lemma pivots_length_B:
  "pivots D steps = Inr D' \<Longrightarrow> length (dict_B D') = length (dict_B D)"
proof (induction steps arbitrary: D)
  case Nil
  then show ?case by simp
next
  case (Cons step steps)
  obtain entering leaving where step: "step = (entering, leaving)" by (cases step)
  from Cons.prems obtain D1 where D1: "pivot D entering leaving = Inr D1"
    and rest: "pivots D1 steps = Inr D'"
    unfolding step by (cases "pivot D entering leaving") simp_all
  from D1 have "length (dict_B D1) = length (dict_B D)"
    by (rule pivot_cases) simp
  with Cons.IH[OF rest] show ?case by simp
qed

lemma entering_candidates_map:
  "entering_candidates N (map f N) = filter (\<lambda>w. 0 < f w) N"
  unfolding entering_candidates_def by (induction N) simp_all

lemma map_nth_upt: "map (\<lambda>l. f (xs ! l)) [0..<length xs] = map f xs"
  by (rule nth_equalityI) simp_all

lemma revised_init_not_auxiliary:
  assumes "LPRevisedDictionary_init S basis st pda obj = Inr RD"
  obtains x0 d0 ds where "coordinate_ring S = x0 # ds" "decision_variables S \<noteq> []"
    "x0 \<noteq> hd (decision_variables S)"
  using assms unfolding LPRevisedDictionary_init_def auxiliary_variable_def
  by (auto split: if_splits sum.splits list.splits)

lemma is_feasible_style: "is_feasible (D \<lparr> dict_style := s \<rparr>) = is_feasible D"
  by (simp add: is_feasible_def)





text \<open>
  The numeric content of what the constructors and \<^verbatim>\<open>standard_form\<close> return: apart from
  the refusal of a repeated name, it does not depend on the names or on the style.
\<close>

lemma standard_init_numeric:
  assumes "st = None \<or> st = vanderbei"
  shows "InteractiveLPProblemStandardForm_init A b c x ptype sv aux st pda obj =
           Inl DuplicateVariable \<or>
         map_sum id numeric_data
           (InteractiveLPProblemStandardForm_init A b c x ptype sv aux st pda obj) =
     (if shape_ok A b c (variable_names x (length c)) (replicate (length b) CLe)
           (replicate (length c) VNonneg) \<and>
         (case sv of Names xs \<Rightarrow> length xs = length b | _ \<Rightarrow> True)
      then Inr (A, b, c, replicate (length b) CLe, replicate (length c) VNonneg,
                snd ptype, fst ptype)
      else Inl ShapeError)"
  using assms
  by (cases sv)
     (auto simp: InteractiveLPProblemStandardForm_init_def InteractiveLPProblem_init_def Let_def
        numeric_data_def slack_names_def vanderbei_def InteractiveLPProblem.extend_def
        InteractiveLPProblemStandardForm.fields_def)

lemma standard_form_numeric:
  assumes "s = None \<or> s = vanderbei"
  shows "snd (standard_form (P \<lparr> style := s \<rparr>)) = Inl DuplicateVariable \<or>
     map_sum id numeric_data (snd (standard_form (P \<lparr> style := s \<rparr>))) =
     (case standardize P of
        Inl e \<Rightarrow> Inl e
      | Inr (A, b, c, x, ptype) \<Rightarrow>
          (if shape_ok A b c x (replicate (length b) CLe) (replicate (length c) VNonneg)
           then Inr (A, b, c, replicate (length b) CLe, replicate (length c) VNonneg,
                     snd ptype, fst ptype)
           else Inl ShapeError))"
proof (cases "standardize P")
  case (Inl e)
  then show ?thesis by (simp add: standard_form_def)
next
  case (Inr r)
  obtain A b c x ptype where r: "r = (A, b, c, x, ptype)" by (cases r)
  define p where "p = (if s = vanderbei then ''z'' else prefix P)"
  have call: "snd (standard_form (P \<lparr> style := s \<rparr>)) =
      InteractiveLPProblemStandardForm_init A b c (Names x) ptype (Name p) (p @ ''0'') s
        (problem_type_pda P) (objective P)"
    using Inr by (simp add: standard_form_def r p_def Let_def)
  from standard_init_numeric[OF assms, of A b c "Names x" ptype "Name p" "p @ ''0''"
      "problem_type_pda P" "objective P"]
  show ?thesis unfolding call by (simp add: Inr r variable_names_def)
qed

lemma standardize_nonempty:
  assumes "standardize P = Inr (A, b, c, x, ptype)"
  shows "x \<noteq> []" "b \<noteq> []"
  using assms unfolding standardize_def Let_def
  by (auto split: prod.splits if_splits)

lemma standard_form_cases:
  assumes "snd (standard_form (P \<lparr> style := s \<rparr>)) = Inr S"
  obtains A b c x ptype p where
    "standardize P = Inr (A, b, c, x, ptype)"
    "InteractiveLPProblemStandardForm_init A b c (Names x) ptype (Name p) (p @ ''0'') s
       (problem_type_pda P) (objective P) = Inr S"
    "x \<noteq> []" "b \<noteq> []"
proof (cases "standardize P")
  case (Inl e)
  with assms show thesis by (simp add: standard_form_def)
next
  case (Inr r)
  obtain A b c x ptype where r: "r = (A, b, c, x, ptype)" by (cases r)
  define p where "p = (if s = vanderbei then ''z'' else prefix P)"
  have "snd (standard_form (P \<lparr> style := s \<rparr>)) =
      InteractiveLPProblemStandardForm_init A b c (Names x) ptype (Name p) (p @ ''0'') s
        (problem_type_pda P) (objective P)"
    using Inr by (simp add: standard_form_def r p_def Let_def)
  with assms have init: "InteractiveLPProblemStandardForm_init A b c (Names x) ptype (Name p)
      (p @ ''0'') s (problem_type_pda P) (objective P) = Inr S" by simp
  from Inr r have st: "standardize P = Inr (A, b, c, x, ptype)" by simp
  from that[OF st init standardize_nonempty[OF st]] show thesis .
qed

text \<open>The initial dictionary of a constructed problem.\<close>

lemma initial_dictionary_constructed:
  assumes S: "InteractiveLPProblemStandardForm_init A b c x ptype sv aux st pda obj = Inr S"
    and b: "b \<noteq> []"
  shows "dictionary_data (initial_dictionary S) = (A, b, c, 0)"
    and "length (dict_B (initial_dictionary S)) = length b"
    and "length (dict_N (initial_dictionary S)) = length c"
    and "distinct (dict_B (initial_dictionary S) @ dict_N (initial_dictionary S))"
proof -
  note f = standard_init_fields[OF S]
  from S obtain slack where slack: "length slack = length b"
    and xs: "length (decision_variables S) = length c"
    and X: "coordinate_ring S = (if aux \<in> set (decision_variables S)
                                 then decision_variables S @ slack
                                 else aux # decision_variables S @ slack)"
    by (rule standard_init_ring)
  have mn: "problem_m S = length b" "problem_n S = length c"
    by (simp_all add: problem_m_def problem_n_def f)
  from b slack have sl: "slack \<noteq> []" by auto
  obtain zs where ring: "coordinate_ring S = zs @ decision_variables S @ slack"
    using X by (cases "aux \<in> set (decision_variables S)") auto
  have B: "dict_B (initial_dictionary S) = slack"
    using slice_last_append[OF sl, of "zs @ decision_variables S"]
    by (simp add: initial_dictionary_def mn ring slack)
  have N: "dict_N (initial_dictionary S) = decision_variables S"
    using slice_mid_append[OF sl, of "decision_variables S" zs]
    by (simp add: initial_dictionary_def mn ring slack xs)
  show "dictionary_data (initial_dictionary S) = (A, b, c, 0)"
    by (simp add: dictionary_data_def initial_dictionary_def f)
  show "length (dict_B (initial_dictionary S)) = length b" by (simp add: B slack)
  show "length (dict_N (initial_dictionary S)) = length c" by (simp add: N xs)
  from f(17) show "distinct (dict_B (initial_dictionary S) @ dict_N (initial_dictionary S))"
    unfolding ring B N by auto
qed

text \<open>The numeric content of the auxiliary problem of a constructed problem.\<close>

lemma auxiliary_problem_numeric:
  assumes S: "InteractiveLPProblemStandardForm_init A b c x ptype sv aux st pda obj = Inr S"
    and b: "b \<noteq> []"
  shows "map_sum id numeric_data (auxiliary_problem S obj') =
     (if aux \<in> set (decision_variables S) then Inl AuxiliaryAlreadyDecision
      else Inr (map (\<lambda>row. - 1 # row) A, b, - 1 # replicate (length c) 0,
                replicate (length b) CLe, replicate (Suc (length c)) VNonneg,
                Maximize, False))"
proof (cases "aux \<in> set (decision_variables S)")
  case True
  note f = standard_init_fields[OF S]
  from S obtain slack where slack: "length slack = length b"
    and xs: "length (decision_variables S) = length c"
    and X: "coordinate_ring S = (if aux \<in> set (decision_variables S)
                                 then decision_variables S @ slack
                                 else aux # decision_variables S @ slack)"
    by (rule standard_init_ring)
  have mn: "problem_m S = length b" "problem_n S = length c"
    by (simp_all add: problem_m_def problem_n_def f)
  obtain ao where ao: "derived_objective obj' (style S) (objective S) = Inr ao"
    using derived_objective_ok[of "style S" obj' "objective S"] f(9,12) by auto
  have "length (coordinate_ring S) = problem_m S + problem_n S"
    using X True slack xs mn by simp
  then have "auxiliary_problem S obj' = Inl AuxiliaryAlreadyDecision"
    by (simp add: auxiliary_problem_def Let_def ao)
  with True show ?thesis by simp
next
  case False
  from S False b obtain Q slack' ao' st' pda' where
    call: "auxiliary_problem S obj' = Inr Q"
    and Q: "InteractiveLPProblemStandardForm_init (map (\<lambda>row. - 1 # row) A) b
       (- 1 # replicate (length c) 0) (Names (aux # decision_variables S)) (False, Maximize)
       (Names slack') aux st' pda' ao' = Inr Q"
    by (rule auxiliary_problem_call)
  note g = standard_init_fields[OF Q]
  from False call show ?thesis by (simp add: numeric_data_def g)
qed

text \<open>
  A pivot reads the names of the dictionary only to find the positions of the entering
  and of the leaving variable.
\<close>

lemma pivot_names_irrelevant:
  assumes "dictionary_data D1 = dictionary_data D2"
    and "length (dict_B D1) = length (dict_B D2)" "length (dict_N D1) = length (dict_N D2)"
    and "index_of e1 (dict_N D1) = index_of e2 (dict_N D2)"
    and "index_of l1 (dict_B D1) = index_of l2 (dict_B D2)"
  shows "map_sum id dictionary_data (pivot D1 e1 l1) = map_sum id dictionary_data (pivot D2 e2 l2)"
proof -
  from assms(1) have d: "dict_A D1 = dict_A D2" "dict_b D1 = dict_b D2" "dict_c D1 = dict_c D2"
    "dict_v D1 = dict_v D2"
    by (simp_all add: dictionary_data_def)
  have sh: "dictionary_shape D1 = dictionary_shape D2"
    by (simp add: dictionary_shape_def d assms(2,3))
  show ?thesis
    unfolding pivot_def Let_def assms(4,5) sh d assms(2,3)
    by (simp add: dictionary_data_def split: option.splits)
qed

lemma pivot_partition:
  assumes "pivot D entering leaving = Inr D'" and "distinct (dict_B D @ dict_N D)"
  shows "length (dict_B D') = length (dict_B D)" "length (dict_N D') = length (dict_N D)"
    "distinct (dict_B D' @ dict_N D')"
proof -
  from assms(1) obtain e l where
    e: "index_of entering (dict_N D) = Some e" and l: "index_of leaving (dict_B D) = Some l"
    and B': "dict_B D' = (dict_B D)[l := entering]"
    and N': "dict_N D' = (dict_N D)[e := leaving]"
    by (rule pivot_cases)
  from index_of_Some[OF e] have en: "e < length (dict_N D)" "dict_N D ! e = entering" by simp_all
  from index_of_Some[OF l] have lm: "l < length (dict_B D)" "dict_B D ! l = leaving" by simp_all
  show "length (dict_B D') = length (dict_B D)" "length (dict_N D') = length (dict_N D)"
    by (simp_all add: B' N')
  from distinct_exchange(1)[OF assms(2) lm(1) en(1)]
  show "distinct (dict_B D' @ dict_N D')" by (simp add: B' N' en(2) lm(2))
qed

lemma pivots_at_names_irrelevant:
  assumes "dictionary_data D1 = dictionary_data D2"
    and "length (dict_B D1) = length (dict_B D2)" "length (dict_N D1) = length (dict_N D2)"
    and "distinct (dict_B D1 @ dict_N D1)" "distinct (dict_B D2 @ dict_N D2)"
  shows "map_sum id dictionary_data (pivots_at D1 steps) =
         map_sum id dictionary_data (pivots_at D2 steps)"
  using assms
proof (induction steps arbitrary: D1 D2)
  case Nil
  then show ?case by simp
next
  case (Cons step steps)
  obtain j i where step: "step = (j, i)" by (cases step)
  show ?case
  proof (cases "j < length (dict_N D1) \<and> i < length (dict_B D1)")
    case False
    with Cons.prems(2,3) have "\<not> (j < length (dict_N D2) \<and> i < length (dict_B D2))" by simp
    with False show ?thesis by (simp add: step del: de_Morgan_conj)
  next
    case True
    then have r1: "j < length (dict_N D1)" "i < length (dict_B D1)" by simp_all
    with Cons.prems(2,3) have r2: "j < length (dict_N D2)" "i < length (dict_B D2)" by simp_all
    from Cons.prems(4,5) have dist: "distinct (dict_N D1)" "distinct (dict_B D1)"
      "distinct (dict_N D2)" "distinct (dict_B D2)" by simp_all
    have ix: "index_of (dict_N D1 ! j) (dict_N D1) = index_of (dict_N D2 ! j) (dict_N D2)"
      "index_of (dict_B D1 ! i) (dict_B D1) = index_of (dict_B D2 ! i) (dict_B D2)"
      using index_of_distinct[OF dist(1) r1(1)] index_of_distinct[OF dist(3) r2(1)]
        index_of_distinct[OF dist(2) r1(2)] index_of_distinct[OF dist(4) r2(2)]
      by simp_all
    have same: "map_sum id dictionary_data (pivot D1 (dict_N D1 ! j) (dict_B D1 ! i)) =
                map_sum id dictionary_data (pivot D2 (dict_N D2 ! j) (dict_B D2 ! i))"
      by (rule pivot_names_irrelevant[OF Cons.prems(1,2,3) ix])
    show ?thesis
    proof (cases "pivot D1 (dict_N D1 ! j) (dict_B D1 ! i)")
      case (Inl err)
      with same have "pivot D2 (dict_N D2 ! j) (dict_B D2 ! i) = Inl err"
        by (cases "pivot D2 (dict_N D2 ! j) (dict_B D2 ! i)") simp_all
      with Inl r1 r2 show ?thesis by (simp add: step)
    next
      case (Inr D1')
      with same obtain D2' where D2': "pivot D2 (dict_N D2 ! j) (dict_B D2 ! i) = Inr D2'"
        and data: "dictionary_data D1' = dictionary_data D2'"
        by (cases "pivot D2 (dict_N D2 ! j) (dict_B D2 ! i)") simp_all
      note p1 = pivot_partition[OF Inr Cons.prems(4)]
      note p2 = pivot_partition[OF D2' Cons.prems(5)]
      have "map_sum id dictionary_data (pivots_at D1' steps) =
            map_sum id dictionary_data (pivots_at D2' steps)"
        using Cons.prems(2,3) p1 p2
        by (intro Cons.IH[OF data]) simp_all
      with Inr D2' r1 r2 show ?thesis by (simp add: step id_def)
    qed
  qed
qed

text \<open>The default revised dictionary of a constructed problem.\<close>

lemma minimum_mem: "bs \<noteq> [] \<Longrightarrow> minimum bs \<in> set bs"
  using minimum_eq_Min[of bs] Min_in[of "set bs"] by simp

lemma revised_default_constructed:
  assumes S: "InteractiveLPProblemStandardForm_init A b c x ptype sv aux st pda obj = Inr S"
    and b: "b \<noteq> []" and c: "c \<noteq> []"
  shows "map_sum id revised_data (revised_dictionary S []) =
     (if aux \<in> set (decision_variables S) then Inl RevisedForAuxiliary
      else Inr ((let pos = map (\<lambda>k. Some (Suc (length c + k))) [0..<length b]
                 in if minimum b < 0 then pos[the (index_of (minimum b) b) := Some 0] else pos),
                A, b, c, replicate (length b) CLe, replicate (length c) VNonneg,
                snd ptype, fst ptype))"
proof -
  note f = standard_init_fields[OF S]
  from S obtain slack where slack: "length slack = length b"
    and xs: "length (decision_variables S) = length c"
    and X: "coordinate_ring S = (if aux \<in> set (decision_variables S)
                                 then decision_variables S @ slack
                                 else aux # decision_variables S @ slack)"
    by (rule standard_init_ring)
  have mn: "problem_m S = length b" "problem_n S = length c"
    by (simp_all add: problem_m_def problem_n_def f)
  from b slack have sl: "slack \<noteq> []" by auto
  from c xs obtain d0 ds where dv: "decision_variables S = d0 # ds"
    by (cases "decision_variables S") auto
  obtain zs where ring: "coordinate_ring S = zs @ decision_variables S @ slack"
    and zs: "zs = (if aux \<in> set (decision_variables S) then [] else [aux])"
    using X by (cases "aux \<in> set (decision_variables S)") auto
  have sv: "slack_variables S = slack"
    using slice_last_append[OF sl, of "zs @ decision_variables S"]
    by (simp add: slack_variables_def mn ring slack)
  define x0 where "x0 = hd (coordinate_ring S)"
  have av: "auxiliary_variable S = Inr x0"
    using ring dv by (cases zs) (simp_all add: auxiliary_variable_def x0_def)
  from index_of_mem[OF minimum_mem[OF b]] obtain i where
    i: "index_of (minimum b) b = Some i" ..
  from index_of_Some[OF i] slack have il: "i < length slack" by simp
  define basis where "basis = (if minimum b < 0 then slack[i := x0] else slack)"
  have db: "default_basis S = Inr basis"
    using b by (simp add: default_basis_def Let_def sv f(2) av i il basis_def)
  have st: "style S = None \<or> style S = vanderbei" using f(9,12) by simp
  have call: "revised_dictionary S [] =
      LPRevisedDictionary_init S basis (style S) (problem_type_pda S) (objective S)"
    by (simp add: revised_dictionary_def db)
  show ?thesis
  proof (cases "aux \<in> set (decision_variables S)")
    case True
    with zs ring dv have "x0 = d0" by (simp add: x0_def)
    with True st show ?thesis
      by (auto simp: call LPRevisedDictionary_init_def av dv)
  next
    case False
    with zs ring have ring': "coordinate_ring S = aux # decision_variables S @ slack" by simp
    then have x0: "x0 = aux" by (simp add: x0_def)
    from False dv have "aux \<noteq> d0" by auto
    with st have RD: "revised_dictionary S [] =
        Inr \<lparr> revised_problem = S, x_B = basis, revised_style = style S,
              revised_problem_type_pda = problem_type_pda S, revised_objective = objective S \<rparr>"
      by (auto simp: call LPRevisedDictionary_init_def av dv x0)
    let ?f = "\<lambda>w. index_of w (coordinate_ring S)"
    let ?pos = "map (\<lambda>k. Some (Suc (length c + k))) [0..<length b]"
    have pos: "map ?f slack = ?pos"
    proof (rule nth_equalityI)
      show "length (map ?f slack) = length ?pos" by (simp add: slack)
    next
      fix k assume "k < length (map ?f slack)"
      then have k: "k < length slack" by simp
      then have lt: "Suc (length c + k) < length (coordinate_ring S)"
        by (simp add: ring' xs)
      have "coordinate_ring S ! Suc (length c + k) = slack ! k"
        by (simp add: ring' nth_append xs)
      with index_of_distinct[OF f(17) lt]
      have "index_of (slack ! k) (coordinate_ring S) = Some (Suc (length c + k))" by simp
      with k slack show "map ?f slack ! k = ?pos ! k" by simp
    qed
    have f0: "?f aux = Some 0" by (simp add: ring')
    have "map ?f basis = (if minimum b < 0 then ?pos[i := Some 0] else ?pos)"
      by (simp add: basis_def map_update pos f0 x0)
    with False show ?thesis
      by (simp add: RD revised_data_def revised_positions_def numeric_data_def f i Let_def)
  qed
qed

text \<open>With the names given, the derivation of the ordinary dictionary does not read the style.\<close>

lemma feasible_dictionary_numeric:
  "map_sum id dictionary_data
     (snd (feasible_dictionary (S \<lparr> style := s \<rparr>) (D \<lparr> dict_style := s' \<rparr>))) =
   map_sum id dictionary_data (snd (feasible_dictionary S D))"
  by (simp add: feasible_dictionary_def auxiliary_variable_def is_feasible_def Let_def
      dictionary_data_def split: sum.splits list.splits option.splits prod.splits)

lemma pivot_numeric:
  "map_sum id dictionary_data (pivot (D \<lparr> dict_style := s \<rparr>) entering leaving) =
   map_sum id dictionary_data (pivot D entering leaving)"
  by (simp add: pivot_def dictionary_shape_def dictionary_data_def Let_def
      split: option.splits)

lemma objective_value_of_data:
  assumes "map_sum id dictionary_data r1 = map_sum id dictionary_data r2"
  shows "map_sum id objective_value r1 = map_sum id objective_value r2"
  using assms by (cases r1; cases r2) (simp_all add: dictionary_data_def objective_value_def)

lemma map_sum_Inl: "map_sum id f r = Inl e \<Longrightarrow> r = Inl e"
  by (cases r) simp_all

section \<open>The style checks\<close>

text \<open>
  Claim C7.  For every style tag other than \<^verbatim>\<open>None\<close> and \<^verbatim>\<open>"vanderbei"\<close>, constructing a
  problem in standard form raises (the style error itself when the dimensions fit, so
  that the base constructor accepts them), and \<^verbatim>\<open>dual\<close> with a defaulted objective name
  raises the style error; for the two recognized tags neither raises the style error.
\<close>

theorem unrecognized_style_raises:
  "(st \<noteq> None \<and> st \<noteq> vanderbei \<longrightarrow>
      (\<exists>e. InteractiveLPProblemStandardForm_init A b c x ptype sv aux st pda obj = Inl e) \<and>
      (shape_ok A b c (variable_names x (length c)) (replicate (length b) CLe)
         (replicate (length c) VNonneg) \<longrightarrow>
       InteractiveLPProblemStandardForm_init A b c x ptype sv aux st pda obj = Inl StyleError)) \<and>
   (style P \<noteq> None \<and> style P \<noteq> vanderbei \<longrightarrow> dual P y NoName = Inl StyleError) \<and>
   (st = None \<or> st = vanderbei \<longrightarrow>
      InteractiveLPProblemStandardForm_init A b c x ptype sv aux st pda obj \<noteq> Inl StyleError) \<and>
   (style P = None \<or> style P = vanderbei \<longrightarrow> dual P y obj' \<noteq> Inl StyleError)"
proof (intro conjI impI)
  assume bad: "st \<noteq> None \<and> st \<noteq> vanderbei"
  then show "\<exists>e. InteractiveLPProblemStandardForm_init A b c x ptype sv aux st pda obj = Inl e"
    by (auto simp: InteractiveLPProblemStandardForm_init_def split: sum.splits)
  assume "shape_ok A b c (variable_names x (length c)) (replicate (length b) CLe)
         (replicate (length c) VNonneg)"
  with bad show "InteractiveLPProblemStandardForm_init A b c x ptype sv aux st pda obj = Inl StyleError"
    by (auto simp: InteractiveLPProblemStandardForm_init_def InteractiveLPProblem_init_def Let_def)
next
  assume "style P \<noteq> None \<and> style P \<noteq> vanderbei"
  then show "dual P y NoName = Inl StyleError"
    by (auto simp: dual_def derived_objective_def)
next
  assume ok: "st = None \<or> st = vanderbei"
  from slack_names_ok[OF ok] obtain r where "slack_names st sv (length b) (length c) = Inr r" by blast
  with ok show "InteractiveLPProblemStandardForm_init A b c x ptype sv aux st pda obj \<noteq> Inl StyleError"
    by (auto simp: InteractiveLPProblemStandardForm_init_def Let_def split: sum.splits dest: base_init_error)
next
  assume ok: "style P = None \<or> style P = vanderbei"
  from derived_objective_ok[OF ok] obtain r where "derived_objective obj' (style P) (objective P) = Inr r" by blast
  then show "dual P y obj' \<noteq> Inl StyleError"
    by (auto simp: dual_def Let_def dest: base_init_error)
qed

theorem unrecognized_style_raises_witness:
  "InteractiveLPProblemStandardForm_init [[1, 1], [3, 1]] [1000, 1500] [10, 5]
      (Names [''x1'', ''x2'']) (False, Maximize) (Name ''x'') ''x0'' (Some ''paired'') None NoName
     = Inl StyleError \<and>
   dual (example_problem \<lparr> style := Some ''paired'' \<rparr>) NoName NoName = Inl StyleError \<and>
   InteractiveLPProblemStandardForm_init [[1, 1], [3, 1]] [1000, 1500] [10, 5]
      (Names [''x1'', ''x2'']) (False, Maximize) (Name ''x'') ''x0'' vanderbei None NoName
     \<noteq> Inl StyleError \<and>
   dual example_problem NoName NoName \<noteq> Inl StyleError"
  using unrecognized_style_raises
    [of "Some ''paired''" "[[1, 1], [3, 1]]" "[1000, 1500]" "[10, 5]" "Names [''x1'', ''x2'']"
        "(False, Maximize)" "Name ''x''" "''x0''" None NoName
        "example_problem \<lparr> style := Some ''paired'' \<rparr>" NoName NoName]
    unrecognized_style_raises
    [of vanderbei "[[1, 1], [3, 1]]" "[1000, 1500]" "[10, 5]" "Names [''x1'', ''x2'']"
        "(False, Maximize)" "Name ''x''" "''x0''" None NoName
        example_problem NoName NoName]
  by (simp add: vanderbei_def shape_ok_def variable_names_def example_problem_def)

section \<open>The default objective name\<close>

text \<open>
  Claim C6.  Under the style \<^verbatim>\<open>"vanderbei"\<close>, when no objective name is supplied, the
  constructor of a problem in standard form names the objective \<^verbatim>\<open>"xi"\<close> for
  \<^verbatim>\<open>problem_type_pda\<close> \<^verbatim>\<open>"dual"\<close> or \<^verbatim>\<open>"auxiliary"\<close> and \<^verbatim>\<open>"zeta"\<close> otherwise (and it
  returns, for data whose dimensions fit and whose variables have distinct names);
  \<^verbatim>\<open>dual\<close> with \<^verbatim>\<open>objective=None\<close> returns a problem whose objective is \<^verbatim>\<open>"xi"\<close>; and so
  does \<^verbatim>\<open>auxiliary_problem\<close>.
\<close>

theorem vanderbei_objective_default:
  "(shape_ok A b c (variable_names x (length c)) (replicate (length b) CLe)
       (replicate (length c) VNonneg) \<and>
    (sv = NoName \<or> sv = Name s \<or> sv = Names xs \<and> length xs = length b) \<and>
    slack_names vanderbei sv (length b) (length c) = Inr slack \<and>
    distinct (generators aux (variable_names x (length c)) slack) \<longrightarrow>
      (\<exists>S. InteractiveLPProblemStandardForm_init A b c x ptype sv aux vanderbei pda NoName = Inr S \<and>
           objective S = (if pda = Some ''dual'' \<or> pda = Some ''auxiliary''
                          then Name ''xi'' else Name ''zeta''))) \<and>
   (\<forall>S. InteractiveLPProblemStandardForm_init A b c x ptype sv aux vanderbei pda NoName = Inr S \<longrightarrow>
        objective S = (if pda = Some ''dual'' \<or> pda = Some ''auxiliary''
                       then Name ''xi'' else Name ''zeta'')) \<and>
   (style P = vanderbei \<longrightarrow>
      (\<forall>D. dual P y NoName = Inr D \<longrightarrow> objective D = Name ''xi'') \<and>
      (shape_ok (constraint_coefficients P) (constant_terms P) (objective_coefficients P)
          (decision_variables P) (constraint_types P) (variable_types P) \<and>
       (y = NoName \<or> y = Name s' \<or> y = Names ys \<and> length ys = problem_m P) \<longrightarrow>
       (\<exists>D. dual P y NoName = Inr D))) \<and>
   (style Q = vanderbei \<longrightarrow>
      (\<forall>R. auxiliary_problem Q NoName = Inr R \<longrightarrow> objective R = Name ''xi''))"
proof (intro conjI impI allI)
  assume h: "shape_ok A b c (variable_names x (length c)) (replicate (length b) CLe)
       (replicate (length c) VNonneg) \<and>
    (sv = NoName \<or> sv = Name s \<or> sv = Names xs \<and> length xs = length b) \<and>
    slack_names vanderbei sv (length b) (length c) = Inr slack \<and>
    distinct (generators aux (variable_names x (length c)) slack)"
  then have sl: "slack_names vanderbei sv (length b) (length c) = Inr slack"
     "length slack = length b"
    using slack_names_base_length[of vanderbei sv s "length b" "length c"]
      slack_names_Names[of vanderbei xs]
    by auto
  from h have "\<exists>S. InteractiveLPProblemStandardForm_init A b c x ptype sv aux vanderbei pda NoName = Inr S"
    by (intro standard_init_ok[OF _ _ _ _ sl]) (auto simp: shape_ok_def)
  then obtain S where S: "InteractiveLPProblemStandardForm_init A b c x ptype sv aux vanderbei pda NoName = Inr S" ..
  from standard_init_fields(11)[OF S]
  have "objective S = (if pda = Some ''dual'' \<or> pda = Some ''auxiliary''
                          then Name ''xi'' else Name ''zeta'')"
    by (simp add: objective_name_def)
  with S show "\<exists>S. InteractiveLPProblemStandardForm_init A b c x ptype sv aux vanderbei pda NoName = Inr S \<and>
           objective S = (if pda = Some ''dual'' \<or> pda = Some ''auxiliary''
                          then Name ''xi'' else Name ''zeta'')" by blast
next
  fix S assume "InteractiveLPProblemStandardForm_init A b c x ptype sv aux vanderbei pda NoName = Inr S"
  from standard_init_fields(11)[OF this]
  show "objective S = (if pda = Some ''dual'' \<or> pda = Some ''auxiliary''
                       then Name ''xi'' else Name ''zeta'')"
    by (simp add: objective_name_def)
next
  fix D assume "style P = vanderbei" "dual P y NoName = Inr D"
  then show "objective D = Name ''xi''"
    by (auto simp: dual_def derived_objective_def Let_def dest: base_init_fields(12))
next
  assume st: "style P = vanderbei"
    and h: "shape_ok (constraint_coefficients P) (constant_terms P) (objective_coefficients P)
          (decision_variables P) (constraint_types P) (variable_types P) \<and>
       (y = NoName \<or> y = Name s' \<or> y = Names ys \<and> length ys = problem_m P)"
  have "length (variable_names (case y of NoName \<Rightarrow> Name (if prefix P = ''y'' then ''x'' else ''y'') | _ \<Rightarrow> y)
          (length (constant_terms P))) = length (constant_terms P)"
    using h by (auto simp: variable_names_def problem_m_def)
  with h st show "\<exists>D. dual P y NoName = Inr D"
    by (auto simp: dual_def derived_objective_def Let_def InteractiveLPProblem_init_def
          shape_ok_def matrix_transpose_def problem_n_def list_all_iff)
next
  fix R assume st: "style Q = vanderbei" and R: "auxiliary_problem Q NoName = Inr R"
  from R obtain x0 ao where
    ao: "derived_objective NoName (style Q) (objective Q) = Inr ao"
    and init: "InteractiveLPProblemStandardForm_init
       (map (\<lambda>row. - 1 # row) (constraint_coefficients Q)) (constant_terms Q)
       (- 1 # replicate (problem_n Q) 0)
       (Names (slice_butlast (problem_m Q) (coordinate_ring Q))) (False, Maximize)
       (Names (slice_last (problem_m Q) (coordinate_ring Q))) x0
       (if style Q = vanderbei then style Q else None)
       (if style Q = vanderbei then Some ''auxiliary'' else None) ao = Inr R"
    by (rule auxiliary_problem_cases)
  from ao st have "ao = Name ''xi''" by (simp add: derived_objective_def)
  with standard_init_fields(11)[OF init] show "objective R = Name ''xi''"
    by (simp add: objective_name_def)
qed

theorem vanderbei_objective_default_witness:
  "(\<exists>S. InteractiveLPProblemStandardForm_init [[1, 1], [3, 1]] [1000, 1500] [10, 5]
          (Names [''x1'', ''x2'']) (False, Maximize) (Names [''w1'', ''w2'']) ''x0''
          vanderbei None NoName = Inr S \<and> objective S = Name ''zeta'') \<and>
   (\<exists>S. InteractiveLPProblemStandardForm_init [[1, 1], [3, 1]] [1000, 1500] [10, 5]
          (Names [''x1'', ''x2'']) (False, Maximize) (Names [''w1'', ''w2'']) ''x0''
          vanderbei (Some ''dual'') NoName = Inr S \<and> objective S = Name ''xi'') \<and>
   (\<exists>D. dual (example_problem \<lparr> style := vanderbei \<rparr>) NoName NoName = Inr D \<and>
        objective D = Name ''xi'') \<and>
   objective example_auxiliary = Name ''xi''"
proof -
  have shape: "shape_ok [[1, 1], [3, 1]] [1000, 1500] [10, 5]
      (variable_names (Names [''x1'', ''x2'']) (length [10, 5 :: rat]))
      (replicate (length [1000, 1500 :: rat]) CLe) (replicate (length [10, 5 :: rat]) VNonneg)"
    by (simp add: shape_ok_def variable_names_def)
  have shape': "shape_ok (constraint_coefficients (example_problem \<lparr> style := vanderbei \<rparr>))
      (constant_terms (example_problem \<lparr> style := vanderbei \<rparr>))
      (objective_coefficients (example_problem \<lparr> style := vanderbei \<rparr>))
      (decision_variables (example_problem \<lparr> style := vanderbei \<rparr>))
      (constraint_types (example_problem \<lparr> style := vanderbei \<rparr>))
      (variable_types (example_problem \<lparr> style := vanderbei \<rparr>))"
    by (simp add: shape_ok_def example_problem_def)
  have st: "style (example_problem \<lparr> style := vanderbei \<rparr>) = vanderbei"
    "style example_infeasible_start = vanderbei"
    by (simp_all add: example_infeasible_start_def)
  have names: "slack_names vanderbei (Names [''w1'', ''w2'']) (length [1000, 1500 :: rat])
        (length [10, 5 :: rat]) = Inr [''w1'', ''w2''] \<and>
      distinct (generators ''x0'' (variable_names (Names [''x1'', ''x2'']) (length [10, 5 :: rat]))
        [''w1'', ''w2''])"
    by (simp add: slack_names_def generators_def variable_names_def)
  note t1 = vanderbei_objective_default
    [of "[[1, 1], [3, 1]]" "[1000, 1500]" "[10, 5]" "Names [''x1'', ''x2'']"
        "Names [''w1'', ''w2'']" "''w''" "[''w1'', ''w2'']" "[''w1'', ''w2'']" "''x0''"
        "(False, Maximize)" None
        "example_problem \<lparr> style := vanderbei \<rparr>" NoName "''y''" "[]"
        example_infeasible_start]
  note t2 = vanderbei_objective_default
    [of "[[1, 1], [3, 1]]" "[1000, 1500]" "[10, 5]" "Names [''x1'', ''x2'']"
        "Names [''w1'', ''w2'']" "''w''" "[''w1'', ''w2'']" "[''w1'', ''w2'']" "''x0''"
        "(False, Maximize)" "Some ''dual''"
        "example_problem \<lparr> style := vanderbei \<rparr>" NoName "''y''" "[]"
        example_infeasible_start]
  from t1 shape names have a: "\<exists>S. InteractiveLPProblemStandardForm_init [[1, 1], [3, 1]] [1000, 1500] [10, 5]
          (Names [''x1'', ''x2'']) (False, Maximize) (Names [''w1'', ''w2'']) ''x0''
          vanderbei None NoName = Inr S \<and> objective S = Name ''zeta''"
    by simp
  from t2 shape names have b: "\<exists>S. InteractiveLPProblemStandardForm_init [[1, 1], [3, 1]] [1000, 1500] [10, 5]
          (Names [''x1'', ''x2'']) (False, Maximize) (Names [''w1'', ''w2'']) ''x0''
          vanderbei (Some ''dual'') NoName = Inr S \<and> objective S = Name ''xi''"
    by simp
  from t1 st shape' have c: "\<exists>D. dual (example_problem \<lparr> style := vanderbei \<rparr>) NoName NoName = Inr D \<and>
        objective D = Name ''xi''"
    by blast
  from t1 st example_auxiliary_problem have d: "objective example_auxiliary = Name ''xi''"
    by blast
  from a b c d show ?thesis by blast
qed

section \<open>The receiver of \<^verbatim>\<open>standard_form\<close>\<close>

text \<open>
  Claim C2.  \<^verbatim>\<open>standard_form\<close> is claimed to leave its receiver unchanged in every field.
  On the example problem under the style \<^verbatim>\<open>"vanderbei"\<close> the call leaves the receiver with
  the prefix \<^verbatim>\<open>"z"\<close> in place of \<^verbatim>\<open>"x"\<close>: the assignment \<^verbatim>\<open>self._prefix = "z"\<close> writes to
  the receiver.
\<close>

theorem standard_form_writes_prefix:
  "prefix (example_problem \<lparr> style := vanderbei \<rparr>) = ''x'' \<and>
   prefix (fst (standard_form (example_problem \<lparr> style := vanderbei \<rparr>))) = ''z'' \<and>
   fst (standard_form (example_problem \<lparr> style := vanderbei \<rparr>))
     \<noteq> example_problem \<lparr> style := vanderbei \<rparr>"
  by (simp add: standard_form_def standardize_def example_problem_def vanderbei_def
      InteractiveLPProblem.defs)

text \<open>
  The write is the only one: the receiver is left as it was or with its prefix replaced,
  and under any other style it is left as it was.
\<close>

lemma standard_form_receiver:
  "fst (standard_form self) = self \<or> fst (standard_form self) = self \<lparr> prefix := ''z'' \<rparr>"
  by (auto simp: standard_form_def Let_def split: sum.splits prod.splits)

lemma standard_form_receiver_default:
  "style self \<noteq> vanderbei \<Longrightarrow> fst (standard_form self) = self"
  by (auto simp: standard_form_def Let_def split: sum.splits prod.splits)

section \<open>The auxiliary problem\<close>

text \<open>
  Claim C3, as amended.  For every problem \<open>S\<close> in standard form (a result of the
  constructor, called with the auxiliary variable \<open>aux\<close>), \<^verbatim>\<open>auxiliary_problem\<close> raises
  \<^verbatim>\<open>ValueError("auxiliary variable is already among decision ones")\<close> if and only if \<open>aux\<close>
  is among the decision variables of \<open>S\<close>, which is the case exactly when \<open>S\<close> has \<open>m + n\<close>
  variables in all.  Otherwise, when \<open>S\<close> has at least one constraint, it returns a problem
  in standard form with the same \<open>b\<close> and the same slack variables, whose first decision
  variable is the new variable \<open>aux\<close> with coefficient \<open>-1\<close> in every constraint row, and whose
  objective is \<open>-aux\<close>.  When \<open>S\<close> has no constraint, the slices \<^verbatim>\<open>X[:-m]\<close> and \<^verbatim>\<open>X[-m:]\<close> are
  the empty one and the whole of \<open>X\<close>, and the constructor raises for the dimensions.
\<close>

theorem auxiliary_problem_raises_iff:
  assumes "InteractiveLPProblemStandardForm_init A b c x ptype sv aux st pda obj = Inr S"
  shows "(auxiliary_problem S obj' = Inl AuxiliaryAlreadyDecision \<longleftrightarrow>
            aux \<in> set (decision_variables S)) \<and>
         (aux \<in> set (decision_variables S) \<longleftrightarrow>
            length (coordinate_ring S) = problem_m S + problem_n S) \<and>
         (aux \<notin> set (decision_variables S) \<and> b \<noteq> [] \<longrightarrow>
            (\<exists>Q. auxiliary_problem S obj' = Inr Q \<and>
                 constraint_coefficients Q = map (\<lambda>row. - 1 # row) A \<and>
                 list_all (\<lambda>row. hd row = - 1) (constraint_coefficients Q) \<and>
                 constant_terms Q = b \<and>
                 objective_coefficients Q = - 1 # replicate (length c) 0 \<and>
                 decision_variables Q = aux # decision_variables S \<and>
                 auxiliary_variable Q = Inr aux \<and>
                 slack_variables Q = slack_variables S)) \<and>
         (aux \<notin> set (decision_variables S) \<and> b = [] \<longrightarrow>
            auxiliary_problem S obj' = Inl ShapeError)"
proof -
  note f = standard_init_fields[OF assms]
  from assms obtain slack where slack: "length slack = length b"
    and xs: "length (decision_variables S) = length c"
    and X: "coordinate_ring S = (if aux \<in> set (decision_variables S)
                                 then decision_variables S @ slack
                                 else aux # decision_variables S @ slack)"
    by (rule standard_init_ring)
  have mn: "problem_m S = length b" "problem_n S = length c"
    by (simp_all add: problem_m_def problem_n_def f)
  have len: "aux \<in> set (decision_variables S) \<longleftrightarrow>
      length (coordinate_ring S) = problem_m S + problem_n S"
    using X slack xs mn by auto
  obtain ao where ao: "derived_objective obj' (style S) (objective S) = Inr ao"
    using derived_objective_ok[of "style S" obj' "objective S"] f(9,12) by auto
  have raise: "auxiliary_problem S obj' = Inl AuxiliaryAlreadyDecision \<longleftrightarrow>
      length (coordinate_ring S) = problem_m S + problem_n S"
    using ao
    by (auto simp: auxiliary_problem_def Let_def split: list.splits
          dest: standard_init_error)
  have ok: "\<exists>Q. auxiliary_problem S obj' = Inr Q \<and>
                 constraint_coefficients Q = map (\<lambda>row. - 1 # row) A \<and>
                 list_all (\<lambda>row. hd row = - 1) (constraint_coefficients Q) \<and>
                 constant_terms Q = b \<and>
                 objective_coefficients Q = - 1 # replicate (length c) 0 \<and>
                 decision_variables Q = aux # decision_variables S \<and>
                 auxiliary_variable Q = Inr aux \<and>
                 slack_variables Q = slack_variables S"
    if new: "aux \<notin> set (decision_variables S)" and b: "b \<noteq> []"
  proof -
    from assms new b obtain Q slack' ao' st' pda' where
      call: "auxiliary_problem S obj' = Inr Q"
      and Q: "InteractiveLPProblemStandardForm_init (map (\<lambda>row. - 1 # row) A) b
         (- 1 # replicate (length c) 0) (Names (aux # decision_variables S)) (False, Maximize)
         (Names slack') aux st' pda' ao' = Inr Q"
      and ring: "coordinate_ring S = aux # decision_variables S @ slack'"
      and slack': "length slack' = length b"
      by (rule auxiliary_problem_call)
    from b slack' have sl: "slack' \<noteq> []" by auto
    have la: "slice_last (length b) (aux # decision_variables S @ slack') = slack'"
      using slice_last_append[OF sl, of "aux # decision_variables S"] by (simp add: slack')
    note g = standard_init_fields[OF Q]
    have dv: "decision_variables Q = aux # decision_variables S"
      using g(4) by (simp add: variable_names_def)
    from g(16) dv obtain slack'' where
      "slack_names st' (Names slack') (length b) (length (- 1 # replicate (length c) (0::rat))) =
         Inr slack''"
      and XQ: "coordinate_ring Q = (if aux \<in> set (decision_variables Q)
                 then decision_variables Q @ slack'' else aux # decision_variables Q @ slack'')"
      by (auto simp: variable_names_def)
    then have "slack'' = slack'" by (simp add: slack_names_def)
    with XQ dv have XQ': "coordinate_ring Q = (aux # decision_variables S) @ slack'" by simp
    have "auxiliary_variable Q = Inr aux" by (simp add: auxiliary_variable_def XQ')
    moreover have "slack_variables Q = slack_variables S"
      using la by (simp add: slack_variables_def problem_m_def g(2) f(2) ring XQ')
    moreover have "list_all (\<lambda>row. hd row = - 1) (constraint_coefficients Q)"
      by (simp add: g list_all_iff)
    ultimately show ?thesis using call dv g(1,2,3) by blast
  qed
  have none: "auxiliary_problem S obj' = Inl ShapeError"
    if new: "aux \<notin> set (decision_variables S)" and b: "b = []"
  proof -
    from new X have ring: "coordinate_ring S = aux # decision_variables S @ slack" by simp
    have neq: "length (coordinate_ring S) \<noteq> problem_m S + problem_n S" using len new by simp
    show ?thesis
      unfolding auxiliary_problem_def Let_def
      using neq b
      by (simp add: ao ring mn f(2) slice_butlast_def InteractiveLPProblemStandardForm_init_def
          InteractiveLPProblem_init_def shape_ok_def variable_names_def)
  qed
  show ?thesis using raise len ok none by blast
qed

theorem auxiliary_problem_raises_iff_witness:
  "auxiliary_problem example_infeasible_start NoName \<noteq> Inl AuxiliaryAlreadyDecision \<and>
   (\<exists>Q. auxiliary_problem example_infeasible_start NoName = Inr Q \<and>
        constraint_coefficients Q = [[- 1, 1, 1], [- 1, - 1, - 1], [- 1, - 1, 1]] \<and>
        objective_coefficients Q = [- 1, 0, 0] \<and>
        decision_variables Q = [''x0'', ''x1'', ''x2'']) \<and>
   auxiliary_problem example_auxiliary NoName = Inl AuxiliaryAlreadyDecision \<and>
   length (coordinate_ring example_auxiliary)
     = problem_m example_auxiliary + problem_n example_auxiliary"
proof -
  note t1 = auxiliary_problem_raises_iff[OF example_infeasible_start_constructed, of NoName]
  note t2 = auxiliary_problem_raises_iff[OF example_auxiliary_constructed, of NoName]
  have new: "''x0'' \<notin> set (decision_variables example_infeasible_start)"
    "decision_variables example_infeasible_start = [''x1'', ''x2'']"
    by (simp_all add: example_infeasible_start_def)
  have old: "''x0'' \<in> set (decision_variables example_auxiliary)"
    by (simp add: example_auxiliary_def)
  from t1 new have a: "auxiliary_problem example_infeasible_start NoName \<noteq> Inl AuxiliaryAlreadyDecision"
    by simp
  from t1 new have "\<exists>Q. auxiliary_problem example_infeasible_start NoName = Inr Q \<and>
        constraint_coefficients Q = map (\<lambda>row. - 1 # row) [[1, 1], [- 1, - 1], [- 1, 1]] \<and>
        objective_coefficients Q = - 1 # replicate (length [1, 1 :: rat]) 0 \<and>
        decision_variables Q = ''x0'' # [''x1'', ''x2'']"
    by auto
  then have b: "\<exists>Q. auxiliary_problem example_infeasible_start NoName = Inr Q \<and>
        constraint_coefficients Q = [[- 1, 1, 1], [- 1, - 1, - 1], [- 1, - 1, 1]] \<and>
        objective_coefficients Q = [- 1, 0, 0] \<and>
        decision_variables Q = [''x0'', ''x1'', ''x2'']"
    by (simp add: numeral_2_eq_2)
  from t2 old have c: "auxiliary_problem example_auxiliary NoName = Inl AuxiliaryAlreadyDecision"
    and d: "length (coordinate_ring example_auxiliary)
     = problem_m example_auxiliary + problem_n example_auxiliary"
    by simp_all
  from a b c d show ?thesis by blast
qed

text \<open>
  The claim as it was stated promises a result for every problem whose auxiliary variable
  is not a decision variable.  A problem without constraints is constructed, its auxiliary
  variable \<^verbatim>\<open>x0\<close> is not among its decision variables, and \<^verbatim>\<open>auxiliary_problem\<close> raises.
\<close>

theorem auxiliary_problem_no_constraints:
  "InteractiveLPProblemStandardForm_init [] [] [1] (Names [''x1'']) (False, Maximize)
      (Names []) ''x0'' None None NoName = Inr example_no_constraints \<and>
   ''x0'' \<notin> set (decision_variables example_no_constraints) \<and>
   auxiliary_problem example_no_constraints NoName = Inl ShapeError"
  by (simp add: init_eval example_no_constraints_def auxiliary_problem_def derived_objective_def
      problem_m_def problem_n_def slice_butlast_def slice_last_def)

section \<open>Revised dictionaries\<close>

text \<open>
  Claim C10.  Constructing a revised dictionary for a problem whose auxiliary variable is
  its first decision variable always raises (the error of the guard itself when the style
  is a recognized one), through \<^verbatim>\<open>revised_dictionary\<close> as well; in particular it raises for
  every problem that \<^verbatim>\<open>auxiliary_problem\<close> returns.
\<close>

theorem revised_refuses_auxiliary:
  "(auxiliary_variable S = Inr v \<and> decision_variables S \<noteq> [] \<and> v = hd (decision_variables S) \<longrightarrow>
      (\<exists>e. LPRevisedDictionary_init S basis st pda obj = Inl e) \<and>
      (st = None \<or> st = vanderbei \<longrightarrow>
         LPRevisedDictionary_init S basis st pda obj = Inl RevisedForAuxiliary) \<and>
      (\<exists>e. revised_dictionary S basis = Inl e)) \<and>
   (\<forall>Q. auxiliary_problem S obj' = Inr Q \<longrightarrow>
      (\<exists>e. LPRevisedDictionary_init Q basis st pda obj = Inl e) \<and>
      (\<exists>e. revised_dictionary Q basis = Inl e))"
proof (intro conjI impI allI)
  assume h: "auxiliary_variable S = Inr v \<and> decision_variables S \<noteq> [] \<and> v = hd (decision_variables S)"
  then show "\<exists>e. LPRevisedDictionary_init S basis st pda obj = Inl e"
    by (auto simp: LPRevisedDictionary_init_def split: list.splits)
  from h show "\<exists>e. revised_dictionary S basis = Inl e"
    by (auto simp: revised_dictionary_def LPRevisedDictionary_init_def split: list.splits sum.splits)
  assume "st = None \<or> st = vanderbei"
  with h show "LPRevisedDictionary_init S basis st pda obj = Inl RevisedForAuxiliary"
    by (auto simp: LPRevisedDictionary_init_def split: list.splits)
next
  fix Q assume Q: "auxiliary_problem S obj' = Inr Q"
  from Q obtain x0 rest ao where
    X: "coordinate_ring S = x0 # rest"
    and init: "InteractiveLPProblemStandardForm_init
       (map (\<lambda>row. - 1 # row) (constraint_coefficients S)) (constant_terms S)
       (- 1 # replicate (problem_n S) 0)
       (Names (slice_butlast (problem_m S) (coordinate_ring S))) (False, Maximize)
       (Names (slice_last (problem_m S) (coordinate_ring S))) x0
       (if style S = vanderbei then style S else None)
       (if style S = vanderbei then Some ''auxiliary'' else None) ao = Inr Q"
    by (rule auxiliary_problem_cases)
  let ?xs = "slice_butlast (problem_m S) (coordinate_ring S)"
  have dv: "decision_variables Q = ?xs"
    using standard_init_fields(4)[OF init] by (simp add: variable_names_def)
  have len: "length ?xs = Suc (problem_n S)"
    using standard_init_fields(15)[OF init] by (simp add: variable_names_def)
  then have ne: "?xs \<noteq> []" by auto
  have hd: "hd ?xs = x0"
    using ne X by (auto simp: slice_butlast_def split: if_splits)
  then have mem: "x0 \<in> set ?xs" using ne by (metis hd_in_set)
  from standard_init_fields(16)[OF init] mem obtain slack where
    "coordinate_ring Q = ?xs @ slack" by (auto simp: variable_names_def)
  with ne hd have aux: "auxiliary_variable Q = Inr x0"
    by (cases ?xs) (auto simp: auxiliary_variable_def)
  from aux dv ne hd show "\<exists>e. LPRevisedDictionary_init Q basis st pda obj = Inl e"
    by (auto simp: LPRevisedDictionary_init_def split: list.splits)
  from aux dv ne hd show "\<exists>e. revised_dictionary Q basis = Inl e"
    by (auto simp: revised_dictionary_def LPRevisedDictionary_init_def split: list.splits sum.splits)
qed

theorem revised_refuses_auxiliary_witness:
  "LPRevisedDictionary_init example_auxiliary [''w1'', ''x0'', ''w3''] vanderbei
      (Some ''auxiliary'') (Name ''xi'') = Inl RevisedForAuxiliary \<and>
   (\<exists>e. revised_dictionary example_auxiliary [] = Inl e) \<and>
   (\<exists>e. LPRevisedDictionary_init example_auxiliary [''w1'', ''x0'', ''w3''] None None NoName
          = Inl e)"
  using revised_refuses_auxiliary
      [of example_auxiliary "''x0''" "[''w1'', ''x0'', ''w3'']" vanderbei "Some ''auxiliary''"
          "Name ''xi''" NoName]
    revised_refuses_auxiliary
      [of example_auxiliary "''x0''" "[]" vanderbei "Some ''auxiliary''"
          "Name ''xi''" NoName]
    revised_refuses_auxiliary
      [of example_infeasible_start "''x0''" "[''w1'', ''x0'', ''w3'']" None None
          NoName NoName]
    example_auxiliary_problem
  by (simp add: example_auxiliary_def auxiliary_variable_def)

text \<open>
  Claim C8.  When \<^verbatim>\<open>revised_dictionary\<close> is called without a basis and returns a
  dictionary, its basic variables are the slack variables if no entry of \<open>b\<close> is negative;
  otherwise they are the slack variables with the auxiliary variable in place of the
  slack variable of row \<open>i\<close>, where \<open>i\<close> is the first row attaining the minimum of \<open>b\<close>.  For
  a constructed problem with at least one constraint and one variable whose auxiliary
  variable is not a decision variable, the call does return a dictionary.
\<close>

theorem default_basis_of_revised_dictionary:
  "(\<forall>RD. revised_dictionary S [] = Inr RD \<longrightarrow>
      (list_all (\<lambda>bi. 0 \<le> bi) (constant_terms S) \<longrightarrow> x_B RD = slack_variables S) \<and>
      (\<not> list_all (\<lambda>bi. 0 \<le> bi) (constant_terms S) \<longrightarrow>
         (\<exists>i x0. i < length (constant_terms S) \<and>
                 constant_terms S ! i = Min (set (constant_terms S)) \<and>
                 constant_terms S ! i < 0 \<and>
                 (\<forall>j<i. constant_terms S ! i < constant_terms S ! j) \<and>
                 auxiliary_variable S = Inr x0 \<and>
                 x_B RD = (slack_variables S)[i := x0]))) \<and>
   (InteractiveLPProblemStandardForm_init A b c x ptype sv aux st pda obj = Inr S \<and>
    aux \<notin> set (decision_variables S) \<and> b \<noteq> [] \<and> c \<noteq> [] \<longrightarrow>
      (\<exists>RD. revised_dictionary S [] = Inr RD))"
proof (intro conjI impI allI)
  fix RD assume RD: "revised_dictionary S [] = Inr RD"
  then obtain basis where basis: "default_basis S = Inr basis"
    and init: "LPRevisedDictionary_init S basis (style S) (problem_type_pda S) (objective S) = Inr RD"
    by (auto simp: revised_dictionary_def split: sum.splits)
  from init have xB: "x_B RD = basis" by (rule revised_init_Inr)
  note d = default_basis_Inr[OF basis]
  have mm: "minimum (constant_terms S) = Min (set (constant_terms S))"
    using d(1) by (rule minimum_eq_Min)
  have neg: "minimum (constant_terms S) < 0 \<longleftrightarrow> \<not> list_all (\<lambda>bi. 0 \<le> bi) (constant_terms S)"
    using d(1) unfolding mm by (simp add: list_all_iff Min_less_iff not_le)
  {
    assume "list_all (\<lambda>bi. 0 \<le> bi) (constant_terms S)"
    with neg have "\<not> minimum (constant_terms S) < 0" by simp
    from d(2)[OF this] xB show "x_B RD = slack_variables S" by simp
  next
    assume "\<not> list_all (\<lambda>bi. 0 \<le> bi) (constant_terms S)"
    with neg have lt: "minimum (constant_terms S) < 0" by simp
    from d(3)[OF lt] obtain x0 i where x0: "auxiliary_variable S = Inr x0"
      and i: "index_of (minimum (constant_terms S)) (constant_terms S) = Some i"
      and b: "basis = (slack_variables S)[i := x0]"
      by blast
    from index_of_Some[OF i] have i1: "i < length (constant_terms S)"
      and i2: "constant_terms S ! i = minimum (constant_terms S)"
      and i3: "\<forall>j<i. constant_terms S ! j \<noteq> minimum (constant_terms S)" by auto
    have i4: "\<forall>j<i. constant_terms S ! i < constant_terms S ! j"
    proof (intro allI impI)
      fix j assume j: "j < i"
      with i1 have "constant_terms S ! j \<in> set (constant_terms S)" by simp
      then have "Min (set (constant_terms S)) \<le> constant_terms S ! j" by simp
      moreover from i3 j have "constant_terms S ! j \<noteq> Min (set (constant_terms S))"
        by (simp add: mm)
      ultimately show "constant_terms S ! i < constant_terms S ! j"
        by (simp add: i2 mm)
    qed
    have "i < length (constant_terms S) \<and>
                 constant_terms S ! i = Min (set (constant_terms S)) \<and>
                 constant_terms S ! i < 0 \<and>
                 (\<forall>j<i. constant_terms S ! i < constant_terms S ! j) \<and>
                 auxiliary_variable S = Inr x0 \<and>
                 x_B RD = (slack_variables S)[i := x0]"
      using i1 i2 i4 lt x0 b xB mm by simp
    then show "\<exists>i x0. i < length (constant_terms S) \<and>
                 constant_terms S ! i = Min (set (constant_terms S)) \<and>
                 constant_terms S ! i < 0 \<and>
                 (\<forall>j<i. constant_terms S ! i < constant_terms S ! j) \<and>
                 auxiliary_variable S = Inr x0 \<and>
                 x_B RD = (slack_variables S)[i := x0]"
      by blast
  }
next
  assume h: "InteractiveLPProblemStandardForm_init A b c x ptype sv aux st pda obj = Inr S \<and>
    aux \<notin> set (decision_variables S) \<and> b \<noteq> [] \<and> c \<noteq> []"
  then have init: "InteractiveLPProblemStandardForm_init A b c x ptype sv aux st pda obj = Inr S"
    and new: "aux \<notin> set (decision_variables S)" and b: "b \<noteq> []" and c: "c \<noteq> []" by auto
  note f = standard_init_fields[OF init]
  from init obtain slack where slack: "length slack = length b"
    and xs: "length (decision_variables S) = length c"
    and X: "coordinate_ring S = (if aux \<in> set (decision_variables S)
                                 then decision_variables S @ slack
                                 else aux # decision_variables S @ slack)"
    by (rule standard_init_ring)
  from new X have ring: "coordinate_ring S = aux # decision_variables S @ slack" by simp
  from b slack have sl: "slack \<noteq> []" by auto
  have la: "slack_variables S = slack"
    using slice_last_append[OF sl, of "aux # decision_variables S"]
    by (simp add: slack_variables_def problem_m_def f(2) ring slack)
  have aux: "auxiliary_variable S = Inr aux" by (simp add: auxiliary_variable_def ring)
  from c xs obtain d0 ds where ds: "decision_variables S = d0 # ds"
    by (cases "decision_variables S") auto
  with new have d0: "aux \<noteq> d0" by auto
  have "Min (set b) \<in> set b" using b by (intro Min_in) simp_all
  then have "minimum b \<in> set b" using minimum_eq_Min[OF b] by simp
  from index_of_mem[OF this] obtain i where i: "index_of (minimum b) b = Some i" ..
  from index_of_Some[OF i] have il: "i < length slack" by (simp add: slack)
  have "\<exists>basis. default_basis S = Inr basis"
    unfolding default_basis_def Let_def using b i il by (simp add: f(2) la aux)
  then obtain basis where basis: "default_basis S = Inr basis" ..
  have "\<exists>RD. LPRevisedDictionary_init S basis (style S) (problem_type_pda S) (objective S) = Inr RD"
    unfolding LPRevisedDictionary_init_def using f(9,12) d0 by (auto simp: aux ds)
  with basis show "\<exists>RD. revised_dictionary S [] = Inr RD"
    by (simp add: revised_dictionary_def)
qed

theorem default_basis_of_revised_dictionary_witness:
  "(\<exists>RD. revised_dictionary example_infeasible_start [] = Inr RD \<and>
      (\<exists>i. i < 3 \<and> [4, - 2, - 2 :: rat] ! i = - 2 \<and> (\<forall>j<i. (- 2 :: rat) < [4, - 2, - 2] ! j) \<and>
           x_B RD = [''w1'', ''w2'', ''w3''][i := ''x0''])) \<and>
   (\<exists>RD. revised_dictionary example_standard [] = Inr RD \<and> x_B RD = [''x3'', ''x4''])"
proof -
  have e1: "InteractiveLPProblemStandardForm_init [[1, 1], [- 1, - 1], [- 1, 1]] [4, - 2, - 2] [1, 1]
     (Names [''x1'', ''x2'']) (False, Maximize) (Names [''w1'', ''w2'', ''w3'']) ''x0''
     vanderbei None NoName = Inr example_infeasible_start \<and>
     ''x0'' \<notin> set (decision_variables example_infeasible_start) \<and>
     [4, - 2, - 2 :: rat] \<noteq> [] \<and> [1, 1 :: rat] \<noteq> []"
    using example_infeasible_start_constructed by (simp add: example_infeasible_start_def)
  have e2: "InteractiveLPProblemStandardForm_init [[1, 1], [3, 1]] [1000, 1500] [10, 5]
     (Names [''x1'', ''x2'']) (False, Maximize) (Names [''x3'', ''x4'']) ''x0'' None None NoName
     = Inr example_standard \<and>
     ''x0'' \<notin> set (decision_variables example_standard) \<and>
     [1000, 1500 :: rat] \<noteq> [] \<and> [10, 5 :: rat] \<noteq> []"
    using example_standard_constructed by (simp add: example_standard_def)
  note t1 = default_basis_of_revised_dictionary
    [of example_infeasible_start "[[1, 1], [- 1, - 1], [- 1, 1]]" "[4, - 2, - 2]" "[1, 1]"
        "Names [''x1'', ''x2'']" "(False, Maximize)" "Names [''w1'', ''w2'', ''w3'']" "''x0''"
        vanderbei None NoName]
  note t2 = default_basis_of_revised_dictionary
    [of example_standard "[[1, 1], [3, 1]]" "[1000, 1500]" "[10, 5]"
        "Names [''x1'', ''x2'']" "(False, Maximize)" "Names [''x3'', ''x4'']" "''x0''"
        None None NoName]
  from t1 e1 obtain RD where RD: "revised_dictionary example_infeasible_start [] = Inr RD"
    by blast
  have neg: "\<not> list_all (\<lambda>bi. 0 \<le> bi) (constant_terms example_infeasible_start)"
    by (simp add: example_infeasible_start_def)
  from t1 RD neg obtain i x0 where
    "i < length (constant_terms example_infeasible_start)"
    "constant_terms example_infeasible_start ! i = Min (set (constant_terms example_infeasible_start))"
    "\<forall>j<i. constant_terms example_infeasible_start ! i < constant_terms example_infeasible_start ! j"
    "auxiliary_variable example_infeasible_start = Inr x0"
    "x_B RD = (slack_variables example_infeasible_start)[i := x0]"
    by blast
  then have "i < 3 \<and> [4, - 2, - 2 :: rat] ! i = - 2 \<and> (\<forall>j<i. (- 2 :: rat) < [4, - 2, - 2] ! j) \<and>
           x_B RD = [''w1'', ''w2'', ''w3''][i := ''x0'']"
    by (simp add: example_infeasible_start_def auxiliary_variable_def slack_variables_def
        problem_m_def slice_last_def)
  with RD have a: "\<exists>RD. revised_dictionary example_infeasible_start [] = Inr RD \<and>
      (\<exists>i. i < 3 \<and> [4, - 2, - 2 :: rat] ! i = - 2 \<and> (\<forall>j<i. (- 2 :: rat) < [4, - 2, - 2] ! j) \<and>
           x_B RD = [''w1'', ''w2'', ''w3''][i := ''x0''])"
    by blast
  from t2 e2 obtain RD' where RD': "revised_dictionary example_standard [] = Inr RD'"
    by blast
  have pos: "list_all (\<lambda>bi. 0 \<le> bi) (constant_terms example_standard)"
    by (simp add: example_standard_def)
  from t2 RD' pos have "x_B RD' = slack_variables example_standard" by blast
  then have "x_B RD' = [''x3'', ''x4'']"
    by (simp add: example_standard_def slack_variables_def problem_m_def slice_last_def)
  with RD' have b: "\<exists>RD. revised_dictionary example_standard [] = Inr RD \<and> x_B RD = [''x3'', ''x4'']"
    by blast
  from a b show ?thesis by blast
qed

section \<open>The dual problem\<close>

text \<open>
  Claim C5.  Whenever \<^verbatim>\<open>dual\<close> returns a problem, its constraint matrix is the transpose of
  \<open>A\<close>, its right-hand side is the original \<open>c\<close>, its objective coefficients are the original
  \<open>b\<close>, its direction is the other one (with the same sign flag), and the types of its
  variables and constraints are those the duality correspondence gives to the constraints
  and variables of the original.  It does return a problem (with consistent dimensions)
  for every problem with consistent dimensions whose style is a recognized one or whose
  objective name is given, when the names \<open>y\<close> fit the number of constraints.
\<close>

theorem dual_transposes_and_swaps:
  "(\<forall>D. dual P y obj = Inr D \<longrightarrow>
      constraint_coefficients D = matrix_transpose (problem_n P) (constraint_coefficients P) \<and>
      length (constraint_coefficients D) = problem_n P \<and>
      (\<forall>j<problem_n P. \<forall>i<length (constraint_coefficients P).
          constraint_coefficients D ! j ! i = constraint_coefficients P ! i ! j) \<and>
      constant_terms D = objective_coefficients P \<and>
      objective_coefficients D = constant_terms P \<and>
      problem_type D = flip (problem_type P) \<and> problem_type D \<noteq> problem_type P \<and>
      is_negative D = is_negative P \<and>
      variable_types D = map (dual_variable_type (problem_type P)) (constraint_types P) \<and>
      constraint_types D = map (dual_constraint_type (problem_type P)) (variable_types P)) \<and>
   (well_shaped P \<and> (style P = None \<or> style P = vanderbei \<or> obj \<noteq> NoName) \<and>
    (y = NoName \<or> y = Name s \<or> y = Names ys \<and> length ys = problem_m P) \<longrightarrow>
      (\<exists>D. dual P y obj = Inr D \<and> well_shaped D))"
proof -
  have part1: "constraint_coefficients D = matrix_transpose (problem_n P) (constraint_coefficients P) \<and>
      length (constraint_coefficients D) = problem_n P \<and>
      (\<forall>j<problem_n P. \<forall>i<length (constraint_coefficients P).
          constraint_coefficients D ! j ! i = constraint_coefficients P ! i ! j) \<and>
      constant_terms D = objective_coefficients P \<and>
      objective_coefficients D = constant_terms P \<and>
      problem_type D = flip (problem_type P) \<and> problem_type D \<noteq> problem_type P \<and>
      is_negative D = is_negative P \<and>
      variable_types D = map (dual_variable_type (problem_type P)) (constraint_types P) \<and>
      constraint_types D = map (dual_constraint_type (problem_type P)) (variable_types P)"
    if D: "dual P y obj = Inr D" for D
  proof -
    from D obtain ao where init: "InteractiveLPProblem_init
       (matrix_transpose (problem_n P) (constraint_coefficients P))
       (objective_coefficients P) (constant_terms P)
       (case y of NoName \<Rightarrow> Name (if prefix P = ''y'' then ''x'' else ''y'') | _ \<Rightarrow> y)
       (map (dual_constraint_type (problem_type P)) (variable_types P))
       (map (dual_variable_type (problem_type P)) (constraint_types P))
       (is_negative P, flip (problem_type P)) ''x'' (style P) (Some ''dual'') ao = Inr D"
      by (rule dual_Inr)
    note f = base_init_fields[OF init]
    have "flip (problem_type P) \<noteq> problem_type P" by (cases "problem_type P") simp_all
    then show ?thesis
      by (simp add: f(1,2,3,5,6,7,8) nth_matrix_transpose)
  qed
  have part2: "\<exists>D. dual P y obj = Inr D \<and> well_shaped D"
    if h: "well_shaped P \<and> (style P = None \<or> style P = vanderbei \<or> obj \<noteq> NoName) \<and>
      (y = NoName \<or> y = Name s \<or> y = Names ys \<and> length ys = problem_m P)"
  proof -
    from h have "\<exists>ao. derived_objective obj (style P) (objective P) = Inr ao"
      by (cases obj) (auto simp: derived_objective_def)
    then obtain ao where ao: "derived_objective obj (style P) (objective P) = Inr ao" ..
    let ?y = "case y of NoName \<Rightarrow> Name (if prefix P = ''y'' then ''x'' else ''y'') | _ \<Rightarrow> y"
    from h have "length (variable_names ?y (length (constant_terms P))) = length (constant_terms P)"
      by (auto simp: variable_names_def problem_m_def)
    with h have shape: "shape_ok (matrix_transpose (problem_n P) (constraint_coefficients P))
       (objective_coefficients P) (constant_terms P)
       (variable_names ?y (length (constant_terms P)))
       (map (dual_constraint_type (problem_type P)) (variable_types P))
       (map (dual_variable_type (problem_type P)) (constraint_types P))"
      by (simp add: well_shaped_def shape_ok_def problem_n_def matrix_transpose_def list_all_iff)
    then obtain D where D: "InteractiveLPProblem_init
       (matrix_transpose (problem_n P) (constraint_coefficients P))
       (objective_coefficients P) (constant_terms P) ?y
       (map (dual_constraint_type (problem_type P)) (variable_types P))
       (map (dual_variable_type (problem_type P)) (constraint_types P))
       (is_negative P, flip (problem_type P)) ''x'' (style P) (Some ''dual'') ao = Inr D"
      by (auto simp: InteractiveLPProblem_init_def Let_def)
    then have "dual P y obj = Inr D" by (simp add: dual_def ao Let_def)
    moreover have "well_shaped D"
      using shape base_init_fields(1-6)[OF D] by (simp add: well_shaped_def)
    ultimately show ?thesis by blast
  qed
  from part1 part2 show ?thesis by blast
qed

theorem dual_transposes_and_swaps_witness:
  "\<exists>D. dual example_problem NoName NoName = Inr D \<and>
       constraint_coefficients D = [[1, 3], [1, 1]] \<and>
       constant_terms D = [10, 5] \<and>
       objective_coefficients D = [1000, 1500] \<and>
       problem_type D = Minimize \<and>
       variable_types D = [VNonneg, VNonneg] \<and>
       constraint_types D = [CGe, CGe]"
proof -
  note t = dual_transposes_and_swaps[of example_problem NoName NoName "''y''" "[]"]
  have "well_shaped example_problem \<and>
    (style example_problem = None \<or> style example_problem = vanderbei \<or> NoName \<noteq> NoName) \<and>
    (NoName = NoName \<or> NoName = Name ''y'' \<or> NoName = Names [] \<and> length [] = problem_m example_problem)"
    by (simp add: well_shaped_def shape_ok_def example_problem_def)
  with t obtain D where D: "dual example_problem NoName NoName = Inr D" by blast
  with t have "constraint_coefficients D
        = matrix_transpose (problem_n example_problem) (constraint_coefficients example_problem) \<and>
      constant_terms D = objective_coefficients example_problem \<and>
      objective_coefficients D = constant_terms example_problem \<and>
      problem_type D = flip (problem_type example_problem) \<and>
      variable_types D = map (dual_variable_type (problem_type example_problem))
                           (constraint_types example_problem) \<and>
      constraint_types D = map (dual_constraint_type (problem_type example_problem))
                             (variable_types example_problem)"
    by blast
  then have "constraint_coefficients D = [[1, 3], [1, 1]] \<and>
       constant_terms D = [10, 5] \<and>
       objective_coefficients D = [1000, 1500] \<and>
       problem_type D = Minimize \<and>
       variable_types D = [VNonneg, VNonneg] \<and>
       constraint_types D = [CGe, CGe]"
    by (simp add: example_problem_def problem_n_def matrix_transpose_def upt_rec)
  with D show ?thesis by blast
qed

section \<open>The ordinary dictionary from an auxiliary one\<close>




section \<open>The style and the numeric content\<close>

text \<open>
  Claim C9, as amended.  For a problem with fixed data and the two recognized styles \<open>s1\<close>
  and \<open>s2\<close>, every operation yields the same numeric content (or the same error) under
  both, unless under one of them a generated name coincides with a name the problem has
  already; then the operation fails under that style: \<^verbatim>\<open>standard_form\<close> by the repeated
  name, \<^verbatim>\<open>auxiliary_problem\<close> and \<^verbatim>\<open>revised_dictionary\<close> by taking the problem for an
  auxiliary one.  For the standard forms \<open>S1\<close> and \<open>S2\<close> of the problem under the two
  styles, whose slack and auxiliary variables are named differently, this covers the
  initial dictionary, its feasibility, pivoting at the same positions, the objective
  value after it, the auxiliary problem and the default revised dictionary (its basis
  read by positions).  \<^verbatim>\<open>dual\<close> generates no name that depends on the style; and with
  the names given, \<^verbatim>\<open>feasible_dictionary\<close>, \<^verbatim>\<open>is_feasible\<close> and \<^verbatim>\<open>pivot\<close> do not read the
  style.
\<close>

theorem style_affects_names_only:
  assumes "s1 = None \<or> s1 = vanderbei" and "s2 = None \<or> s2 = vanderbei"
  shows
    "(snd (standard_form (P \<lparr> style := s1 \<rparr>)) = Inl DuplicateVariable \<or>
      snd (standard_form (P \<lparr> style := s2 \<rparr>)) = Inl DuplicateVariable \<or>
      map_sum id numeric_data (snd (standard_form (P \<lparr> style := s1 \<rparr>))) =
        map_sum id numeric_data (snd (standard_form (P \<lparr> style := s2 \<rparr>)))) \<and>
     map_sum id numeric_data (dual (P \<lparr> style := s1 \<rparr>) y obj) =
       map_sum id numeric_data (dual (P \<lparr> style := s2 \<rparr>) y obj) \<and>
     (snd (standard_form (P \<lparr> style := s1 \<rparr>)) = Inr S1 \<and>
      snd (standard_form (P \<lparr> style := s2 \<rparr>)) = Inr S2 \<longrightarrow>
        dictionary_data (initial_dictionary S1) = dictionary_data (initial_dictionary S2) \<and>
        is_feasible (initial_dictionary S1) = is_feasible (initial_dictionary S2) \<and>
        map_sum id dictionary_data (pivots_at (initial_dictionary S1) steps) =
          map_sum id dictionary_data (pivots_at (initial_dictionary S2) steps) \<and>
        map_sum id objective_value (pivots_at (initial_dictionary S1) steps) =
          map_sum id objective_value (pivots_at (initial_dictionary S2) steps) \<and>
        (auxiliary_problem S1 obj' = Inl AuxiliaryAlreadyDecision \<or>
         auxiliary_problem S2 obj' = Inl AuxiliaryAlreadyDecision \<or>
         map_sum id numeric_data (auxiliary_problem S1 obj') =
           map_sum id numeric_data (auxiliary_problem S2 obj')) \<and>
        (revised_dictionary S1 [] = Inl RevisedForAuxiliary \<or>
         revised_dictionary S2 [] = Inl RevisedForAuxiliary \<or>
         map_sum id revised_data (revised_dictionary S1 []) =
           map_sum id revised_data (revised_dictionary S2 []))) \<and>
     map_sum id dictionary_data
         (snd (feasible_dictionary (S \<lparr> style := s1 \<rparr>) (D \<lparr> dict_style := s1 \<rparr>))) =
       map_sum id dictionary_data
         (snd (feasible_dictionary (S \<lparr> style := s2 \<rparr>) (D \<lparr> dict_style := s2 \<rparr>))) \<and>
     is_feasible (D \<lparr> dict_style := s1 \<rparr>) = is_feasible (D \<lparr> dict_style := s2 \<rparr>) \<and>
     map_sum id dictionary_data (pivot (D \<lparr> dict_style := s1 \<rparr>) entering leaving) =
       map_sum id dictionary_data (pivot (D \<lparr> dict_style := s2 \<rparr>) entering leaving)"
proof -
  have std: "snd (standard_form (P \<lparr> style := s1 \<rparr>)) = Inl DuplicateVariable \<or>
      snd (standard_form (P \<lparr> style := s2 \<rparr>)) = Inl DuplicateVariable \<or>
      map_sum id numeric_data (snd (standard_form (P \<lparr> style := s1 \<rparr>))) =
        map_sum id numeric_data (snd (standard_form (P \<lparr> style := s2 \<rparr>)))"
    using standard_form_numeric[OF assms(1), of P] standard_form_numeric[OF assms(2), of P]
    by auto
  have dl: "map_sum id numeric_data (dual (P \<lparr> style := s1 \<rparr>) y obj) =
       map_sum id numeric_data (dual (P \<lparr> style := s2 \<rparr>) y obj)"
    by (simp only: dual_numeric[OF assms(1)] dual_numeric[OF assms(2)])
  have forms: "dictionary_data (initial_dictionary S1) = dictionary_data (initial_dictionary S2) \<and>
        is_feasible (initial_dictionary S1) = is_feasible (initial_dictionary S2) \<and>
        map_sum id dictionary_data (pivots_at (initial_dictionary S1) steps) =
          map_sum id dictionary_data (pivots_at (initial_dictionary S2) steps) \<and>
        map_sum id objective_value (pivots_at (initial_dictionary S1) steps) =
          map_sum id objective_value (pivots_at (initial_dictionary S2) steps) \<and>
        (auxiliary_problem S1 obj' = Inl AuxiliaryAlreadyDecision \<or>
         auxiliary_problem S2 obj' = Inl AuxiliaryAlreadyDecision \<or>
         map_sum id numeric_data (auxiliary_problem S1 obj') =
           map_sum id numeric_data (auxiliary_problem S2 obj')) \<and>
        (revised_dictionary S1 [] = Inl RevisedForAuxiliary \<or>
         revised_dictionary S2 [] = Inl RevisedForAuxiliary \<or>
         map_sum id revised_data (revised_dictionary S1 []) =
           map_sum id revised_data (revised_dictionary S2 []))"
    if S1: "snd (standard_form (P \<lparr> style := s1 \<rparr>)) = Inr S1"
      and S2: "snd (standard_form (P \<lparr> style := s2 \<rparr>)) = Inr S2"
  proof -
    from S1 obtain A b c x ptype p1 where
      st: "standardize P = Inr (A, b, c, x, ptype)"
      and i1: "InteractiveLPProblemStandardForm_init A b c (Names x) ptype (Name p1) (p1 @ ''0'')
                 s1 (problem_type_pda P) (objective P) = Inr S1"
      and x: "x \<noteq> []" and b: "b \<noteq> []"
      by (rule standard_form_cases)
    from S2 obtain A' b' c' x' ptype' p2 where
      st': "standardize P = Inr (A', b', c', x', ptype')"
      and i2': "InteractiveLPProblemStandardForm_init A' b' c' (Names x') ptype' (Name p2)
                  (p2 @ ''0'') s2 (problem_type_pda P) (objective P) = Inr S2"
      by (rule standard_form_cases)
    from st st' i2' have i2: "InteractiveLPProblemStandardForm_init A b c (Names x) ptype
        (Name p2) (p2 @ ''0'') s2 (problem_type_pda P) (objective P) = Inr S2"
      by simp
    from standard_init_fields(15)[OF i1] x have c: "c \<noteq> []"
      by (auto simp: variable_names_def)
    note d1 = initial_dictionary_constructed[OF i1 b]
    note d2 = initial_dictionary_constructed[OF i2 b]
    have data: "dictionary_data (initial_dictionary S1) = dictionary_data (initial_dictionary S2)"
      by (simp only: d1(1) d2(1))
    have feas: "is_feasible (initial_dictionary S1) = is_feasible (initial_dictionary S2)"
      using data by (simp add: is_feasible_def dictionary_data_def)
    have piv: "map_sum id dictionary_data (pivots_at (initial_dictionary S1) steps) =
          map_sum id dictionary_data (pivots_at (initial_dictionary S2) steps)"
      using d1 d2 by (intro pivots_at_names_irrelevant[OF data]) simp_all
    have val: "map_sum id objective_value (pivots_at (initial_dictionary S1) steps) =
          map_sum id objective_value (pivots_at (initial_dictionary S2) steps)"
      using piv by (rule objective_value_of_data)
    note a1 = auxiliary_problem_numeric[OF i1 b, of obj']
    note a2 = auxiliary_problem_numeric[OF i2 b, of obj']
    have aux: "auxiliary_problem S1 obj' = Inl AuxiliaryAlreadyDecision \<or>
         auxiliary_problem S2 obj' = Inl AuxiliaryAlreadyDecision \<or>
         map_sum id numeric_data (auxiliary_problem S1 obj') =
           map_sum id numeric_data (auxiliary_problem S2 obj')"
    proof (cases "p1 @ ''0'' \<in> set (decision_variables S1)")
      case True
      with a1 have "auxiliary_problem S1 obj' = Inl AuxiliaryAlreadyDecision"
        by (intro map_sum_Inl[of numeric_data]) simp
      then show ?thesis by simp
    next
      case n1: False
      show ?thesis
      proof (cases "p2 @ ''0'' \<in> set (decision_variables S2)")
        case True
        with a2 have "auxiliary_problem S2 obj' = Inl AuxiliaryAlreadyDecision"
          by (intro map_sum_Inl[of numeric_data]) simp
        then show ?thesis by simp
      next
        case False
        from a1 n1 a2 False
        have "map_sum id numeric_data (auxiliary_problem S1 obj') =
              map_sum id numeric_data (auxiliary_problem S2 obj')"
          by simp
        then show ?thesis by simp
      qed
    qed
    note r1 = revised_default_constructed[OF i1 b c]
    note r2 = revised_default_constructed[OF i2 b c]
    have rev: "revised_dictionary S1 [] = Inl RevisedForAuxiliary \<or>
         revised_dictionary S2 [] = Inl RevisedForAuxiliary \<or>
         map_sum id revised_data (revised_dictionary S1 []) =
           map_sum id revised_data (revised_dictionary S2 [])"
    proof (cases "p1 @ ''0'' \<in> set (decision_variables S1)")
      case True
      with r1 have "revised_dictionary S1 [] = Inl RevisedForAuxiliary"
        by (intro map_sum_Inl[of revised_data]) simp
      then show ?thesis by simp
    next
      case n1: False
      show ?thesis
      proof (cases "p2 @ ''0'' \<in> set (decision_variables S2)")
        case True
        with r2 have "revised_dictionary S2 [] = Inl RevisedForAuxiliary"
          by (intro map_sum_Inl[of revised_data]) simp
        then show ?thesis by simp
      next
        case False
        from r1 n1 r2 False
        have "map_sum id revised_data (revised_dictionary S1 []) =
              map_sum id revised_data (revised_dictionary S2 [])"
          by simp
        then show ?thesis by simp
      qed
    qed
    from data feas piv val aux rev show ?thesis by blast
  qed
  have fd: "map_sum id dictionary_data
         (snd (feasible_dictionary (S \<lparr> style := s1 \<rparr>) (D \<lparr> dict_style := s1 \<rparr>))) =
       map_sum id dictionary_data
         (snd (feasible_dictionary (S \<lparr> style := s2 \<rparr>) (D \<lparr> dict_style := s2 \<rparr>)))"
    by (simp only: feasible_dictionary_numeric)
  have fe: "is_feasible (D \<lparr> dict_style := s1 \<rparr>) = is_feasible (D \<lparr> dict_style := s2 \<rparr>)"
    by (simp only: is_feasible_style)
  have pv: "map_sum id dictionary_data (pivot (D \<lparr> dict_style := s1 \<rparr>) entering leaving) =
       map_sum id dictionary_data (pivot (D \<lparr> dict_style := s2 \<rparr>) entering leaving)"
    by (simp only: pivot_numeric)
  from std dl forms fd fe pv show ?thesis by blast
qed

theorem style_affects_names_only_witness:
  "snd (standard_form (example_problem \<lparr> style := vanderbei \<rparr>)) = Inr example_standard_vanderbei \<and>
   snd (standard_form (example_problem \<lparr> style := None \<rparr>)) = Inr example_standard \<and>
   slack_variables example_standard_vanderbei = [''z1'', ''z2''] \<and>
   slack_variables example_standard = [''x3'', ''x4''] \<and>
   map_sum id numeric_data (dual (example_problem \<lparr> style := vanderbei \<rparr>) NoName NoName) =
     Inr ([[1, 3], [1, 1]], [10, 5], [1000, 1500], [CGe, CGe], [VNonneg, VNonneg],
          Minimize, False) \<and>
   dictionary_data (initial_dictionary example_standard_vanderbei) =
     ([[1, 1], [3, 1]], [1000, 1500], [10, 5], 0) \<and>
   is_feasible (initial_dictionary example_standard_vanderbei) \<and>
   map_sum id dictionary_data (pivots_at (initial_dictionary example_standard_vanderbei) [(0, 1)]) =
     Inr ([[- 1 / 3, 2 / 3], [1 / 3, 1 / 3]], [500, 500], [- 10 / 3, 5 / 3], 5000) \<and>
   map_sum id objective_value (pivots_at (initial_dictionary example_standard_vanderbei) [(0, 1)]) =
     Inr 5000 \<and>
   map_sum id numeric_data (auxiliary_problem example_standard_vanderbei NoName) =
     Inr ([[- 1, 1, 1], [- 1, 3, 1]], [1000, 1500], [- 1, 0, 0], [CLe, CLe],
          [VNonneg, VNonneg, VNonneg], Maximize, False) \<and>
   map_sum id revised_data (revised_dictionary example_standard_vanderbei []) =
     Inr ([Some 3, Some 4], [[1, 1], [3, 1]], [1000, 1500], [10, 5], [CLe, CLe],
          [VNonneg, VNonneg], Maximize, False)"
proof -
  have s: "None = None \<or> None = vanderbei" "vanderbei = None \<or> vanderbei = vanderbei"
    by simp_all
  have h1: "snd (standard_form (example_problem \<lparr> style := vanderbei \<rparr>)) =
      Inr example_standard_vanderbei"
    by (simp add: standard_form_def standardize_def example_problem_def init_eval
        example_standard_vanderbei_def indexed_names_def upt_rec decimal.simps digit_def
        Let_def)
  have h2: "snd (standard_form (example_problem \<lparr> style := None \<rparr>)) = Inr example_standard"
    by (simp add: standard_form_def standardize_def example_problem_def init_eval
        example_standard_def indexed_names_def upt_rec decimal.simps digit_def Let_def)
  note t = style_affects_names_only[OF s(2) s(1), of example_problem NoName NoName
      example_standard_vanderbei example_standard "[(0, 1)]" NoName]
  have names: "slack_variables example_standard_vanderbei = [''z1'', ''z2'']"
    "slack_variables example_standard = [''x3'', ''x4'']"
    by (simp_all add: slack_variables_def problem_m_def slice_last_def
        example_standard_vanderbei_def example_standard_def)
  have P: "example_problem \<lparr> style := None \<rparr> = example_problem"
    by (simp add: example_problem_def)
  have 2: "map_sum id numeric_data (dual example_problem NoName NoName) =
     Inr ([[1, 3], [1, 1]], [10, 5], [1000, 1500], [CGe, CGe], [VNonneg, VNonneg],
          Minimize, False)"
    using dual_numeric[OF s(1), of example_problem NoName NoName]
    by (simp add: P example_problem_def shape_ok_def variable_names_def problem_n_def
        matrix_transpose_def upt_rec)
  have 3: "dictionary_data (initial_dictionary example_standard) =
     ([[1, 1], [3, 1]], [1000, 1500], [10, 5], 0)"
    by (simp add: dictionary_data_def initial_dictionary_def example_standard_def)
  have 4: "is_feasible (initial_dictionary example_standard)"
    by (simp add: is_feasible_def initial_dictionary_def example_standard_def)
  have 5: "map_sum id dictionary_data (pivots_at (initial_dictionary example_standard) [(0, 1)]) =
     Inr ([[- 1 / 3, 2 / 3], [1 / 3, 1 / 3]], [500, 500], [- 10 / 3, 5 / 3], 5000)"
    by (simp add: initial_dictionary_def example_standard_def pivot_def dictionary_shape_def
        problem_m_def problem_n_def slice_last_def slice_mid_def dictionary_data_def)
  have 6: "map_sum id objective_value (pivots_at (initial_dictionary example_standard) [(0, 1)]) =
     Inr 5000"
    by (simp add: initial_dictionary_def example_standard_def pivot_def dictionary_shape_def
        problem_m_def problem_n_def slice_last_def slice_mid_def objective_value_def)
  have 7: "map_sum id numeric_data (auxiliary_problem example_standard NoName) =
     Inr ([[- 1, 1, 1], [- 1, 3, 1]], [1000, 1500], [- 1, 0, 0], [CLe, CLe],
          [VNonneg, VNonneg, VNonneg], Maximize, False)"
    using auxiliary_problem_numeric[OF example_standard_constructed, of NoName]
    by (simp add: example_standard_def numeral_2_eq_2)
  have 8: "map_sum id revised_data (revised_dictionary example_standard []) =
     Inr ([Some 3, Some 4], [[1, 1], [3, 1]], [1000, 1500], [10, 5], [CLe, CLe],
          [VNonneg, VNonneg], Maximize, False)"
    by (simp add: revised_dictionary_def default_basis_def slack_variables_def problem_m_def
        slice_last_def LPRevisedDictionary_init_def auxiliary_variable_def revised_data_def
        revised_positions_def numeric_data_def example_standard_def vanderbei_def)
  have 9: "auxiliary_problem example_standard NoName \<noteq> Inl AuxiliaryAlreadyDecision"
    "revised_dictionary example_standard [] \<noteq> Inl RevisedForAuxiliary"
    using 7 8 by auto
  have 10: "auxiliary_problem example_standard_vanderbei NoName \<noteq> Inl AuxiliaryAlreadyDecision"
    "revised_dictionary example_standard_vanderbei [] \<noteq> Inl RevisedForAuxiliary"
    by (simp_all add: auxiliary_problem_def example_standard_vanderbei_def problem_m_def
        problem_n_def derived_objective_def vanderbei_def init_eval slice_butlast_def
        slice_last_def revised_dictionary_def default_basis_def slack_variables_def
        LPRevisedDictionary_init_def auxiliary_variable_def)
  from t h1 h2 have
    "map_sum id numeric_data (dual (example_problem \<lparr> style := vanderbei \<rparr>) NoName NoName) =
       map_sum id numeric_data (dual (example_problem \<lparr> style := None \<rparr>) NoName NoName)"
    "dictionary_data (initial_dictionary example_standard_vanderbei) =
       dictionary_data (initial_dictionary example_standard)"
    "is_feasible (initial_dictionary example_standard_vanderbei) =
       is_feasible (initial_dictionary example_standard)"
    "map_sum id dictionary_data (pivots_at (initial_dictionary example_standard_vanderbei) [(0, 1)]) =
       map_sum id dictionary_data (pivots_at (initial_dictionary example_standard) [(0, 1)])"
    "map_sum id objective_value (pivots_at (initial_dictionary example_standard_vanderbei) [(0, 1)]) =
       map_sum id objective_value (pivots_at (initial_dictionary example_standard) [(0, 1)])"
    "auxiliary_problem example_standard_vanderbei NoName = Inl AuxiliaryAlreadyDecision \<or>
     auxiliary_problem example_standard NoName = Inl AuxiliaryAlreadyDecision \<or>
     map_sum id numeric_data (auxiliary_problem example_standard_vanderbei NoName) =
       map_sum id numeric_data (auxiliary_problem example_standard NoName)"
    "revised_dictionary example_standard_vanderbei [] = Inl RevisedForAuxiliary \<or>
     revised_dictionary example_standard [] = Inl RevisedForAuxiliary \<or>
     map_sum id revised_data (revised_dictionary example_standard_vanderbei []) =
       map_sum id revised_data (revised_dictionary example_standard [])"
    by blast+
  with 9 10 have
    "map_sum id numeric_data (dual (example_problem \<lparr> style := vanderbei \<rparr>) NoName NoName) =
       map_sum id numeric_data (dual example_problem NoName NoName)"
    "dictionary_data (initial_dictionary example_standard_vanderbei) =
       dictionary_data (initial_dictionary example_standard)"
    "is_feasible (initial_dictionary example_standard_vanderbei) =
       is_feasible (initial_dictionary example_standard)"
    "map_sum id dictionary_data (pivots_at (initial_dictionary example_standard_vanderbei) [(0, 1)]) =
       map_sum id dictionary_data (pivots_at (initial_dictionary example_standard) [(0, 1)])"
    "map_sum id objective_value (pivots_at (initial_dictionary example_standard_vanderbei) [(0, 1)]) =
       map_sum id objective_value (pivots_at (initial_dictionary example_standard) [(0, 1)])"
    "map_sum id numeric_data (auxiliary_problem example_standard_vanderbei NoName) =
       map_sum id numeric_data (auxiliary_problem example_standard NoName)"
    "map_sum id revised_data (revised_dictionary example_standard_vanderbei []) =
       map_sum id revised_data (revised_dictionary example_standard [])"
    by (simp_all only: P) blast+
  with h1 h2 names 2 3 4 5 6 7 8 show ?thesis by (simp only: simp_thms)
qed

text \<open>
  The claim as it was stated promises the same numeric results under both styles.  The
  problem \<open>example_named\<close> has a variable that its author named \<^verbatim>\<open>z0\<close>.  Under the
  default style its standard form has the auxiliary variable \<^verbatim>\<open>x0\<close> and its auxiliary
  problem is constructed; under the style \<^verbatim>\<open>"vanderbei"\<close> the auxiliary variable is named
  \<^verbatim>\<open>z0\<close> as well, the standard form has \<open>m + n\<close> variables in all, and
  \<^verbatim>\<open>auxiliary_problem\<close> raises.
\<close>

theorem style_decides_auxiliary_problem:
  "snd (standard_form (example_named \<lparr> style := None \<rparr>)) = Inr example_named_default \<and>
   snd (standard_form (example_named \<lparr> style := vanderbei \<rparr>)) = Inr example_named_vanderbei \<and>
   map_sum id numeric_data (auxiliary_problem example_named_default NoName) =
     Inr ([[- 1, 1, 1], [- 1, 3, 1]], [1000, 1500], [- 1, 0, 0], [CLe, CLe],
          [VNonneg, VNonneg, VNonneg], Maximize, False) \<and>
   auxiliary_problem example_named_vanderbei NoName = Inl AuxiliaryAlreadyDecision"
proof -
  have a: "snd (standard_form (example_named \<lparr> style := None \<rparr>)) = Inr example_named_default"
    by (simp add: standard_form_def standardize_def example_named_def init_eval
        example_named_default_def indexed_names_def upt_rec decimal.simps digit_def Let_def)
  have b: "snd (standard_form (example_named \<lparr> style := vanderbei \<rparr>)) =
      Inr example_named_vanderbei"
    by (simp add: standard_form_def standardize_def example_named_def init_eval
        example_named_vanderbei_def indexed_names_def upt_rec decimal.simps digit_def Let_def)
  have c: "map_sum id numeric_data (auxiliary_problem example_named_default NoName) =
     Inr ([[- 1, 1, 1], [- 1, 3, 1]], [1000, 1500], [- 1, 0, 0], [CLe, CLe],
          [VNonneg, VNonneg, VNonneg], Maximize, False)"
    by (simp add: auxiliary_problem_def example_named_default_def problem_m_def problem_n_def
        derived_objective_def init_eval slice_butlast_def slice_last_def numeric_data_def)
  have d: "auxiliary_problem example_named_vanderbei NoName = Inl AuxiliaryAlreadyDecision"
    by (simp add: auxiliary_problem_def example_named_vanderbei_def problem_m_def problem_n_def
        derived_objective_def vanderbei_def)
  from a b c d show ?thesis by blast
qed

section \<open>The explicit and the revised dictionary\<close>

text \<open>
  Claim C1.  For a standard-form problem, take a dictionary reached from the initial
  dictionary by any sequence of pivots, and the revised dictionary constructed for its
  basic variables, with the inverse of its basis matrix.  Then both report the same
  constant column \<open>b\<close>, the same objective coefficients \<open>c\<close>, the same objective value and
  the same tableau columns, and they take the same decisions: the same entering
  candidates, and for every entering variable the same leaving variable with the same
  ratio, or the same error.
\<close>

theorem explicit_and_revised_agree:
  assumes S: "InteractiveLPProblemStandardForm_init A b c x ptype sv av st pda obj = Inr S"
    and names: "distinct (coordinate_ring S)"
    and reach: "pivots (initial_dictionary S) steps = Inr D"
    and RD: "LPRevisedDictionary_init S (dict_B D) rst rpda robj = Inr RD"
    and inv: "is_B_inverse RD Binv"
  shows "dict_b D = revised_constant_terms RD Binv \<and>
         dict_c D = map (revised_objective_coefficient RD Binv) (dict_N D) \<and>
         objective_value D = revised_objective_value RD Binv \<and>
         map (column (dict_A D)) [0..<length (dict_N D)] =
           map (revised_column RD Binv) (dict_N D) \<and>
         set (dict_N D) = set (revised_nonbasic_variables RD) \<and>
         set (entering_variable_candidates D) = set (revised_entering_candidates RD Binv) \<and>
         leaving_variable_for D entering = revised_leaving_variable_for RD Binv entering"
proof -
  let ?m = "problem_m S"
  note f = standard_init_fields[OF S]
  from revised_init_Inr[OF RD] have xB: "x_B RD = dict_B D" and rp: "revised_problem RD = S"
    by simp_all
  from S obtain slack where slack: "length slack = length b"
    and lenx: "length (decision_variables S) = length c"
    and ring0: "coordinate_ring S =
        (if av \<in> set (decision_variables S) then decision_variables S @ slack
         else av # decision_variables S @ slack)"
    by (rule standard_init_ring)
  from RD obtain x0 ds where x0: "coordinate_ring S = x0 # ds"
    and dne: "decision_variables S \<noteq> []" and x0d: "x0 \<noteq> hd (decision_variables S)"
    by (rule revised_init_not_auxiliary)
  have av: "av \<notin> set (decision_variables S)"
  proof
    assume "av \<in> set (decision_variables S)"
    with ring0 x0 dne have "x0 = hd (decision_variables S)"
      by (cases "decision_variables S") simp_all
    with x0d show False by simp
  qed
  with ring0 have ring: "coordinate_ring S = av # decision_variables S @ slack" by simp
  have m: "?m = length b" and n: "problem_n S = length c"
    by (simp_all add: problem_m_def problem_n_def f)
  from inv have iB: "length Binv = ?m" "list_all (\<lambda>row. length row = ?m) Binv"
    "length (dict_B D) = ?m"
    "mat_mul (B_matrix RD) Binv = map (unit_vector ?m) [0..<?m]"
    unfolding is_B_inverse_def xB rp by simp_all
  have pos: "0 < ?m"
  proof (rule ccontr)
    assume "\<not> 0 < ?m"
    then have z: "?m = 0" by simp
    have "length (dict_B D) = length (dict_B (initial_dictionary S))"
      by (rule pivots_length_B[OF reach])
    also have "\<dots> = length (coordinate_ring S)"
      by (simp add: initial_dictionary_def slice_last_def z)
    finally show False using iB(3) z ring by simp
  qed
  have "represents S (map (unit_vector ?m) [0..<?m]) (initial_dictionary S)"
  proof (rule initial_represents[OF _ _ _ ring _ pos])
    show "length (constraint_coefficients S) = ?m" by (simp add: f m)
    show "list_all (\<lambda>row. length row = problem_n S) (constraint_coefficients S)"
      using f(14) by (simp add: f n)
    show "length (decision_variables S) = problem_n S" by (simp add: lenx n)
    show "length slack = ?m" by (simp add: slack m)
    show "distinct (decision_variables S @ slack)" using names unfolding ring by simp
  qed
  from pivots_represents[OF this reach] obtain M where rep: "represents S M D" ..
  note R = representsD[OF rep]
  have lenfc: "length (full_column S w) = ?m" for w
    by (rule length_full_column[OF R(3)])
  have Bm: "B_matrix RD =
      map (\<lambda>k. map (\<lambda>l. full_column S (dict_B D ! l) ! k) [0..<?m]) [0..<?m]"
    unfolding B_matrix_def xB rp iB(3)[symmetric]
    by (simp add: map_nth_upt[of "\<lambda>w. full_column S w ! _" "dict_B D"])
  have MB: "M = Binv"
  proof (rule inverse_unique[OF R(4) R(5) iB(1) iB(2), of "\<lambda>l. full_column S (dict_B D ! l)"])
    show "\<forall>l<?m. length (full_column S (dict_B D ! l)) = ?m" by (simp add: lenfc)
    show "\<forall>l<?m. mat_vec M (full_column S (dict_B D ! l)) = unit_vector ?m l"
      using R(10) R(2) by simp
    show "mat_mul (map (\<lambda>k. map (\<lambda>l. full_column S (dict_B D ! l) ! k) [0..<?m]) [0..<?m]) Binv =
          map (unit_vector ?m) [0..<?m]"
      using iB(4) unfolding Bm .
  qed
  have lenc: "length (dict_c D) = length (dict_N D)"
    using R(1) by (simp add: dictionary_shape_def)
  have cB: "c_B RD = map (full_cost S) (dict_B D)" by (simp add: c_B_def xB rp)
  have col: "column (dict_A D) j = revised_column RD Binv (dict_N D ! j)"
    if "j < length (dict_N D)" for j
    using R(9)[OF that] by (simp add: revised_column_def rp MB)
  have b_eq: "dict_b D = revised_constant_terms RD Binv"
    using R(8) by (simp add: revised_constant_terms_def rp MB)
  have c_eq: "dict_c D = map (revised_objective_coefficient RD Binv) (dict_N D)"
    using lenc R(11) col
    by (intro nth_equalityI) (simp_all add: revised_objective_coefficient_def cB rp)
  have v_eq: "objective_value D = revised_objective_value RD Binv"
    using R(12) b_eq by (simp add: objective_value_def revised_objective_value_def cB)
  have cols: "map (column (dict_A D)) [0..<length (dict_N D)] =
              map (revised_column RD Binv) (dict_N D)"
    using col by (intro nth_equalityI) simp_all
  have N_eq: "set (dict_N D) = set (revised_nonbasic_variables RD)"
    using R(6) R(7) unfolding revised_nonbasic_variables_def xB rp by auto
  have ent: "set (entering_variable_candidates D) = set (revised_entering_candidates RD Binv)"
    unfolding entering_variable_candidates_def revised_entering_candidates_def c_eq
      entering_candidates_map using N_eq by simp
  have leave: "leaving_variable_for D entering = revised_leaving_variable_for RD Binv entering"
  proof (cases "index_of entering (dict_N D)")
    case None
    then have "entering \<notin> set (dict_N D)" by (simp add: index_of_None)
    with None N_eq show ?thesis
      by (simp add: leaving_variable_for_def revised_leaving_variable_for_def)
  next
    case (Some j)
    from index_of_Some[OF Some] have j: "j < length (dict_N D)" "dict_N D ! j = entering"
      by simp_all
    then have "entering \<in> set (dict_N D)" by (metis nth_mem)
    with Some N_eq R(1) col[OF j(1)] j(2) b_eq xB show ?thesis
      by (simp add: leaving_variable_for_def revised_leaving_variable_for_def)
  qed
  from b_eq c_eq v_eq cols N_eq ent leave show ?thesis by blast
qed

theorem explicit_and_revised_agree_witness:
  "pivots (initial_dictionary example_standard) [(''x1'', ''x4'')] = Inr example_pivoted \<and>
   LPRevisedDictionary_init example_standard (dict_B example_pivoted) None None (Name ''z'') =
     Inr example_revised \<and>
   is_B_inverse example_revised example_B_inverse \<and>
   revised_constant_terms example_revised example_B_inverse = [500, 500] \<and>
   map (revised_objective_coefficient example_revised example_B_inverse)
     (dict_N example_pivoted) = [- 10 / 3, 5 / 3] \<and>
   revised_objective_value example_revised example_B_inverse = 5000 \<and>
   map (revised_column example_revised example_B_inverse) (dict_N example_pivoted) =
     [[- 1 / 3, 1 / 3], [2 / 3, 1 / 3]] \<and>
   set (revised_nonbasic_variables example_revised) = {''x4'', ''x2''} \<and>
   set (revised_entering_candidates example_revised example_B_inverse) = {''x2''} \<and>
   revised_leaving_variable_for example_revised example_B_inverse ''x2'' = Inr (''x3'', 750)"
proof -
  have h1: "InteractiveLPProblemStandardForm_init [[1, 1], [3, 1]] [1000, 1500] [10, 5]
     (Names [''x1'', ''x2'']) (False, Maximize) (Names [''x3'', ''x4'']) ''x0'' None None NoName
     = Inr example_standard"
    by (rule example_standard_constructed)
  have h2: "distinct (coordinate_ring example_standard)"
    by (simp add: example_standard_def)
  have h3: "pivots (initial_dictionary example_standard) [(''x1'', ''x4'')] = Inr example_pivoted"
    by (simp add: initial_dictionary_def example_standard_def pivot_def dictionary_shape_def
        problem_m_def problem_n_def slice_last_def slice_mid_def example_pivoted_def)
  have h4: "LPRevisedDictionary_init example_standard (dict_B example_pivoted) None None
      (Name ''z'') = Inr example_revised"
    by (simp add: LPRevisedDictionary_init_def auxiliary_variable_def example_standard_def
        example_pivoted_def example_revised_def vanderbei_def)
  have h5: "is_B_inverse example_revised example_B_inverse"
    by (simp add: is_B_inverse_def example_revised_def example_B_inverse_def
        example_standard_def problem_m_def B_matrix_def full_column_def slack_variables_def
        slice_last_def mat_mul_def column_def dot_def unit_vector_def)
  note t = explicit_and_revised_agree[OF h1 h2 h3 h4 h5, of "''x2''"]
  have b: "dict_b example_pivoted = [500, 500]"
    and c: "dict_c example_pivoted = [- 10 / 3, 5 / 3]"
    and v: "objective_value example_pivoted = 5000"
    and N: "set (dict_N example_pivoted) = {''x4'', ''x2''}"
    and cols: "map (column (dict_A example_pivoted)) [0..<length (dict_N example_pivoted)] =
       [[- 1 / 3, 1 / 3], [2 / 3, 1 / 3]]"
    and ent: "set (entering_variable_candidates example_pivoted) = {''x2''}"
    and leave: "leaving_variable_for example_pivoted ''x2'' = Inr (''x3'', 750)"
    by (simp_all add: example_pivoted_def objective_value_def column_def
        entering_variable_candidates_def entering_candidates_def leaving_variable_for_def
        dictionary_shape_def leaving_variable_def ratios_def)
  from t have
    "revised_constant_terms example_revised example_B_inverse = dict_b example_pivoted"
    "map (revised_objective_coefficient example_revised example_B_inverse)
       (dict_N example_pivoted) = dict_c example_pivoted"
    "revised_objective_value example_revised example_B_inverse =
       objective_value example_pivoted"
    "map (revised_column example_revised example_B_inverse) (dict_N example_pivoted) =
       map (column (dict_A example_pivoted)) [0..<length (dict_N example_pivoted)]"
    "set (revised_nonbasic_variables example_revised) = set (dict_N example_pivoted)"
    "set (revised_entering_candidates example_revised example_B_inverse) =
       set (entering_variable_candidates example_pivoted)"
    "revised_leaving_variable_for example_revised example_B_inverse ''x2'' =
       leaving_variable_for example_pivoted ''x2''"
    by simp_all
  with b c v N cols ent leave h3 h4 h5 show ?thesis by (simp only: simp_thms)
qed

end
